theory Spec2Isabelle
  imports Main "HOL-Library.Word"
begin

section \<open>Configuration data of the elastic cluster resource\<close>

text \<open>
  The embedding follows \<^verbatim>\<open>celerdatabyoc/resource_elastic_cluster_v2.go\<close>.
  A schema block (\<^verbatim>\<open>map[string]interface{}\<close> read by string keys and type
  assertions) becomes a record with one field per schema key; a \<^verbatim>\<open>TypeList\<close>
  with \<^verbatim>\<open>MaxItems: 1\<close> stays a list, since the code tests its length and
  indexes element 0. Go \<^verbatim>\<open>int\<close> values are \<^typ>\<open>int\<close>. Wherever the code
  converts to a sized integer (\<^verbatim>\<open>int32\<close>, \<^verbatim>\<open>uint32\<close>, \<^verbatim>\<open>int64\<close>,
  \<^verbatim>\<open>uint64\<close>) the model converts to a word of that width, so that a value out of
  range wraps as it does in Go; the field that receives it is a word. A Go map with
  string values is the list of its entries in a canonical order, so that map equality
  is list equality.
\<close>

record fe_volume_config =
  fe_vol_size :: int
  fe_iops :: int
  fe_throughput :: int

record volume_config =
  vol_number :: int
  vol_size :: int
  iops :: int
  throughput :: int

datatype cluster_state =
    ClusterStateDeploying | ClusterStateScaling | ClusterStateResuming
  | ClusterStateSuspending | ClusterStateReleasing | ClusterStateUpdating
  | ClusterStateRunning | ClusterStateSuspended | ClusterStateAbnormal
  | ClusterStateReleased

datatype infra_action_state =
    ClusterInfraActionStatePending | ClusterInfraActionStateOngoing
  | ClusterInfraActionStateSucceeded | ClusterInfraActionStateCompleted
  | ClusterInfraActionStateFailed

datatype module_type = ClusterModuleTypeFE | ClusterModuleTypeBE | ClusterModuleTypeWarehouse

datatype config_type = CustomConfigTypeFE | CustomConfigTypeBE

datatype cluster_type = ClusterTypeElasic

datatype wait_timeout = DeployOrScaleClusterTimeout | Minutes nat

record warehouse_spec =
  name :: string
  compute_node_size :: string
  compute_node_count :: int
  distribution_policy :: string
  specify_az :: string
  compute_node_volume_config :: "volume_config list"
  wh_idle_suspend_interval :: int
  auto_scaling_policy :: string
  expected_state :: cluster_state
  compute_node_configs :: "(string \<times> string) list"

record ami_spec =
  ami :: string
  os :: string

record script =
  script_path :: string
  logs_dir :: string

text \<open>
  \<^verbatim>\<open>cluster.WarehouseExternalInfo\<close>: the record persisted per warehouse name. The
  code keeps it as a JSON string and decodes it on each use; the model keeps the decoded
  record.
\<close>

record wh_external_info =
  ext_Id :: string
  ext_IsInstanceStore :: bool
  ext_IsDefaultWarehouse :: bool

record config =
  csp :: string
  region :: string
  cluster_name :: string
  coordinator_node_size :: string
  coordinator_node_count :: int
  coordinator_node_volume_config :: "fe_volume_config list"
  custom_ami :: "ami_spec list"
  default_warehouse :: "warehouse_spec list"
  warehouse :: "warehouse_spec list"
  warehouse_external_info :: "(string \<times> wh_external_info) list"
  resource_tags :: "(string \<times> string) list"
  default_admin_password :: string
  data_credential_id :: string
  deployment_credential_id :: string
  network_id :: string
  expected_cluster_state :: cluster_state
  free_tier :: bool
  init_scripts :: "script list"
  run_scripts_parallel :: bool
  query_port :: int
  idle_suspend_interval :: int
  ldap_ssl_certs :: "string list"
  run_scripts_timeout :: int
  coordinator_node_configs :: "(string \<times> string) list"
  ranger_certs_dir :: string

text \<open>
  \<^verbatim>\<open>schema.ResourceData\<close> and \<^verbatim>\<open>schema.ResourceDiff\<close>: the prior
  values, the planned values, and \<^verbatim>\<open>IsNewResource()\<close>. \<^verbatim>\<open>d.Get(k)\<close>
  reads \<open>new_cfg\<close>, \<^verbatim>\<open>d.GetChange(k)\<close> the pair, and
  \<^verbatim>\<open>d.HasChange(k)\<close> is inequality of the two. The resource id
  (\<^verbatim>\<open>d.Id()\<close>, \<^verbatim>\<open>d.SetId\<close>) is mutable and lives in the run state below.
\<close>

record resource =
  old_cfg :: config
  new_cfg :: config
  is_new :: bool

definition HasChange :: "(config \<Rightarrow> 'a) \<Rightarrow> resource \<Rightarrow> bool" where
  "HasChange k d = (k (old_cfg d) \<noteq> k (new_cfg d))"

section \<open>Requests, responses and diagnostics\<close>

record vm_info =
  vm_Arch :: string
  vm_IsInstanceStore :: bool
  vm_VmVolumeInfos :: "string list"

record network =
  MultiAz :: bool

record disk_info =
  Number :: "32 word"
  PerSize :: "64 word"
  Iops :: "64 word"
  Throughput :: "64 word"

record cluster_item =
  item_Type :: module_type
  item_Name :: string
  item_Num :: "32 word"
  item_InstanceType :: string
  item_DistributionPolicy :: string
  item_SpecifyAZ :: string
  item_DiskInfo :: disk_info

record cluster_conf =
  ClusterName :: string
  Csp :: string
  Region :: string
  ClusterType :: cluster_type
  Password :: string
  SslConnEnable :: bool
  NetIfaceId :: string
  DeployCredlId :: string
  DataCredId :: string
  RunScriptsParallel :: bool
  QueryPort :: "32 word"
  RunScriptsTimeout :: "32 word"
  Tags :: "(string \<times> string) list"
  Scripts :: "script list"
  CustomAmi :: "ami_spec option"
  ClusterItems :: "cluster_item list"

record waitStateReq =
  clusterID :: string
  actionID :: string
  timeout :: wait_timeout
  pendingStates :: "cluster_state list"
  targetStates :: "cluster_state list"

record waitInfraReq =
  infra_clusterID :: string
  infra_actionID :: string
  infra_timeout :: wait_timeout
  infra_pendingStates :: "infra_action_state list"
  infra_targetStates :: "infra_action_state list"

record create_warehouse_req =
  cw_ClusterId :: string
  cw_Name :: string
  cw_VmCate :: string
  cw_VmNum :: "32 word"
  cw_VolumeSizeGB :: "64 word"
  cw_VolumeNum :: "32 word"
  cw_Iops :: "64 word"
  cw_Throughput :: "64 word"
  cw_DistributionPolicy :: string
  cw_SpecifyAZ :: string

record modify_volume_req =
  mv_ClusterId :: string
  mv_WarehouseID :: string
  mv_Type :: module_type
  mv_VmVolSize :: "64 word"
  mv_Iops :: "64 word"
  mv_Throughput :: "64 word"

record upgrade_ami_req =
  ua_ClusterId :: string
  ua_Os :: string
  ua_Ami :: string
  ua_WarehouseId :: string
  ua_ModuleType :: module_type

text \<open>
  Every call that leaves the provider is one event. The remote requests carry the name
  of their request type; the helpers of the package that are defined in other files
  (\<^verbatim>\<open>WaitClusterStateChangeComplete\<close>, \<^verbatim>\<open>UpsertClusterConfig\<close>, ...) are
  events too, named after the helper. The random \<^verbatim>\<open>RequestId\<close> is left out.
\<close>

datatype call =
    GetVmInfoReq string string module_type string
  | GetNetworkCall string
  | VolumeParamVerifyFE string fe_volume_config
  | VolumeParamVerifyBE string volume_config
  | DeployReq cluster_conf
  | WaitClusterStateChangeComplete waitStateReq
  | WaitClusterInfraActionStateChangeComplete waitInfraReq
  | UpsertClusterConfigReq string config_type string "(string \<times> string) list"
  | UpsertClusterLdapSslCertCall string "string list" bool
  | UpsertClusterRangerCertCall string string bool
  | UpdateClusterIdleConfigCall string "64 word" bool
  | UpdateClusterStateCall string cluster_state cluster_state
  | ReadCall string
  | ReleaseReq string
  | UpdateResourceTagsReq string "(string \<times> string) list"
  | UpdateDeploymentScriptsReq string "script list" bool "32 word"
  | UnlockFreeTierCall string
  | ScaleUpReq string module_type string
  | ScaleOutReq string module_type "32 word"
  | ScaleInReq string module_type "32 word"
  | ModifyClusterVolumeReq modify_volume_req
  | GetReq string
  | UpgradeAMIReq upgrade_ami_req
  | SaveWarehouseAutoScalingConfigReq string string string bool
  | DeleteWarehouseAutoScalingConfigReq string
  | CreateWarehouseReq create_warehouse_req
  | ChangeWarehouseDistributionReq string string string
  | ScaleWarehouseSizeReq string string
  | ScaleWarehouseNumReq string "32 word"
  | UpdateWarehouseIdleConfigReq string "64 word" bool
  | SuspendWarehouseReq string
  | ResumeWarehouseReq string
  | ReleaseWarehouseReq string

text \<open>
  A Go \<^verbatim>\<open>error\<close> is its message: a literal (\<^verbatim>\<open>errors.New\<close>, or the
  message of a remote error), or a format string with its arguments
  (\<^verbatim>\<open>fmt.Errorf\<close>, \<^verbatim>\<open>fmt.Sprintf\<close>), kept unrendered.
\<close>

datatype msg = Lit string | Fmt string "arg list"
  and arg = AStr string | AInt int | AMsg msg | AFeVol fe_volume_config
    | AVol volume_config | AUpgradeReq upgrade_ami_req | AModule module_type

datatype severity = Error | Warning

record diagnostic =
  Severity :: severity
  Summary :: msg
  Detail :: msg

definition FromErr :: "msg \<Rightarrow> diagnostic list" where
  "FromErr e = [\<lparr>Severity = Error, Summary = e, Detail = Lit ''''\<rparr>]"

record stateResp =
  ClusterState :: cluster_state
  AbnormalReason :: string

record infraActionResp =
  InfraActionState :: infra_action_state
  ErrMsg :: string

record deploy_resp =
  dr_ActionID :: string
  dr_ClusterID :: string
  dr_DefaultWarehouseId :: string

record create_warehouse_resp =
  cwr_WarehouseId :: string
  cwr_ActionID :: string

record cluster_info =
  ci_ClusterState :: cluster_state
  ci_Warehouses :: "(string \<times> cluster_state) list"

text \<open>
  The control plane and the package's other files are a black box: the answer to a call
  is a function of the calls made so far and of the call itself, one function per shape
  of answer. The constants of the SDK package that the file reads are parameters too,
  and so is the order in which a \<^verbatim>\<open>range\<close> loop visits the keys of a map that the
  code builds, which Go leaves unspecified: \<open>mapRange\<close> gives the order of one run.
\<close>

record env =
  vmInfoApi :: "call list \<Rightarrow> call \<Rightarrow> msg + vm_info option"
  networkApi :: "call list \<Rightarrow> call \<Rightarrow> msg + network"
  errApi :: "call list \<Rightarrow> call \<Rightarrow> msg option"
  actionApi :: "call list \<Rightarrow> call \<Rightarrow> msg + string"
  diagApi :: "call list \<Rightarrow> call \<Rightarrow> diagnostic list option"
  deployApi :: "call list \<Rightarrow> call \<Rightarrow> msg + deploy_resp"
  waitApi :: "call list \<Rightarrow> call \<Rightarrow> msg + stateResp"
  waitInfraApi :: "call list \<Rightarrow> call \<Rightarrow> msg + infraActionResp"
  createWarehouseApi :: "call list \<Rightarrow> call \<Rightarrow> msg + create_warehouse_resp"
  getApi :: "call list \<Rightarrow> call \<Rightarrow> msg + cluster_info"
  needResume :: "resource \<Rightarrow> bool"
  needSuspend :: "resource \<Rightarrow> bool"
  mapRange :: "string list \<Rightarrow> string list"
  DefaultFeVolumeMap :: fe_volume_config
  DefaultBeVolumeMap :: volume_config
  DistributionPolicySpecifyAZ :: string

section \<open>Runs: state, early return, panic\<close>

record st =
  trace :: "call list"
  rid :: string

datatype ('a, 'e) res = Val 'a | Err 'e | Panic

type_synonym ('a, 'e) prog = "st \<Rightarrow> ('a, 'e) res \<times> st"

definition ret :: "'a \<Rightarrow> ('a, 'e) prog" where
  "ret x s = (Val x, s)"

definition fail :: "'e \<Rightarrow> ('a, 'e) prog" where
  "fail e s = (Err e, s)"

definition panic :: "('a, 'e) prog" where
  "panic s = (Panic, s)"

definition bind :: "('a, 'e) prog \<Rightarrow> ('a \<Rightarrow> ('b, 'e) prog) \<Rightarrow> ('b, 'e) prog" where
  "bind m f s = (case m s of
      (Val x, s') \<Rightarrow> f x s'
    | (Err e, s') \<Rightarrow> (Err e, s')
    | (Panic, s') \<Rightarrow> (Panic, s'))"

definition andThen :: "(unit, 'e) prog \<Rightarrow> ('b, 'e) prog \<Rightarrow> ('b, 'e) prog" where
  "andThen m n = bind m (\<lambda>_. n)"

definition remote :: "(call list \<Rightarrow> call \<Rightarrow> 'r) \<Rightarrow> call \<Rightarrow> ('r, 'e) prog" where
  "remote f c s = (Val (f (trace s) c), s\<lparr>trace := trace s @ [c]\<rparr>)"

definition SetId :: "string \<Rightarrow> (unit, 'e) prog" where
  "SetId i s = (Val (), s\<lparr>rid := i\<rparr>)"

definition Id :: "(string, 'e) prog" where
  "Id s = (Val (rid s), s)"

definition whenDo :: "bool \<Rightarrow> (unit, 'e) prog \<Rightarrow> (unit, 'e) prog" where
  "whenDo b m = (if b then m else ret ())"

text \<open>A helper that returns \<^verbatim>\<open>diag.Diagnostics\<close>: non-nil diagnostics are returned at once.\<close>

definition orReturn :: "diagnostic list option \<Rightarrow> (unit, diagnostic list) prog" where
  "orReturn r = (case r of None \<Rightarrow> ret () | Some ds \<Rightarrow> fail ds)"

section \<open>The precondition validator \<^verbatim>\<open>customizeEl2Diff\<close>\<close>

definition DEFAULT_WAREHOUSE_NAME :: string where
  "DEFAULT_WAREHOUSE_NAME = ''default_warehouse''"

definition CROSSING_AZ :: string where
  "CROSSING_AZ = ''crossing_az''"

definition SPECIFY_AZ :: string where
  "SPECIFY_AZ = ''specify_az''"

text \<open>
  \<^verbatim>\<open>strings.TrimSpace\<close>. A Go string is a sequence of bytes, a \<^typ>\<open>string\<close> here;
  \<^verbatim>\<open>TrimSpace\<close> removes the leading and the trailing white space \<^emph>\<open>as defined by
  Unicode\<close>, reading the bytes as UTF-8. The white space runes (\<^verbatim>\<open>unicode.IsSpace\<close>)
  and their encodings are: the six ASCII characters tab, line feed, vertical tab, form
  feed, carriage return and space (one byte each); U+0085 and U+00A0 (\<open>C2 85\<close>,
  \<open>C2 A0\<close>); U+1680 (\<open>E1 9A 80\<close>); U+2000 to U+200A, U+2028, U+2029 and U+202F
  (\<open>E2 80\<close> followed by \<open>80\<close> to \<open>8A\<close>, \<open>A8\<close>, \<open>A9\<close>, \<open>AF\<close>); U+205F
  (\<open>E2 81 9F\<close>); U+3000 (\<open>E3 80 80\<close>). A byte sequence that is not the encoding of one
  of these runes (also one that is not valid UTF-8) is not white space. At the end of the
  string Go decodes the last rune backwards from the last byte, which finds a white space
  rune exactly when the string ends with one of the encodings.
\<close>

definition isSpace :: "char \<Rightarrow> bool" where
  "isSpace c = (c \<in> set [CHR 0x09, CHR 0x0A, CHR 0x0B, CHR 0x0C, CHR 0x0D, CHR '' ''])"

definition isSpace2 :: "char \<Rightarrow> char \<Rightarrow> bool" where
  "isSpace2 c d = (c = CHR 0xC2 \<and> d \<in> set [CHR 0x85, CHR 0xA0])"

definition isSpace3 :: "char \<Rightarrow> char \<Rightarrow> char \<Rightarrow> bool" where
  "isSpace3 c d e =
     ((c = CHR 0xE1 \<and> d = CHR 0x9A \<and> e = CHR 0x80)
      \<or> (c = CHR 0xE2 \<and> d = CHR 0x80
          \<and> e \<in> set [CHR 0x80, CHR 0x81, CHR 0x82, CHR 0x83, CHR 0x84, CHR 0x85, CHR 0x86,
                      CHR 0x87, CHR 0x88, CHR 0x89, CHR 0x8A, CHR 0xA8, CHR 0xA9, CHR 0xAF])
      \<or> (c = CHR 0xE2 \<and> d = CHR 0x81 \<and> e = CHR 0x9F)
      \<or> (c = CHR 0xE3 \<and> d = CHR 0x80 \<and> e = CHR 0x80))"

text \<open>\<^verbatim>\<open>TrimLeftFunc(s, unicode.IsSpace)\<close>: the white space runes at the start are dropped.\<close>

fun trimLeft :: "string \<Rightarrow> string" where
  "trimLeft (c # d # e # cs) =
     (if isSpace c then trimLeft (d # e # cs)
      else if isSpace2 c d then trimLeft (e # cs)
      else if isSpace3 c d e then trimLeft cs
      else c # d # e # cs)"
| "trimLeft [c, d] =
     (if isSpace c then trimLeft [d] else if isSpace2 c d then [] else [c, d])"
| "trimLeft [c] = (if isSpace c then [] else [c])"
| "trimLeft [] = []"

text \<open>
  \<^verbatim>\<open>TrimRightFunc(s, unicode.IsSpace)\<close> on the reversed string: the argument lists the
  bytes from the last one, so \<open>c\<close> is the last byte, \<open>d\<close> the one before it.
\<close>

fun trimRightRev :: "string \<Rightarrow> string" where
  "trimRightRev (c # d # e # cs) =
     (if isSpace c then trimRightRev (d # e # cs)
      else if isSpace2 d c then trimRightRev (e # cs)
      else if isSpace3 e d c then trimRightRev cs
      else c # d # e # cs)"
| "trimRightRev [c, d] =
     (if isSpace c then trimRightRev [d] else if isSpace2 d c then [] else [c, d])"
| "trimRightRev [c] = (if isSpace c then [] else [c])"
| "trimRightRev [] = []"

definition TrimSpace :: "string \<Rightarrow> string" where
  "TrimSpace s = rev (trimRightRev (rev (trimLeft s)))"


text \<open>
  \<^verbatim>\<open>clusterAPI.GetVmInfo\<close> with the two checks that follow it at each of its four
  call sites (lines 515-527, 560-572, 624-636, 716-728).
\<close>

definition queryVmInfo ::
  "env \<Rightarrow> string \<Rightarrow> string \<Rightarrow> module_type \<Rightarrow> string \<Rightarrow> (vm_info, msg) prog" where
  "queryVmInfo E c r pt vmCate =
    bind (remote (vmInfoApi E) (GetVmInfoReq c r pt vmCate)) (\<lambda>resp.
      case resp of
        Inl err \<Rightarrow> fail (Fmt ''query vm info failed, csp:%s region:%s vmCate:%s errMsg:%s''
                         [AStr c, AStr r, AStr vmCate, AMsg err])
      | Inr None \<Rightarrow> fail (Fmt ''vm info not exists, csp:%s region:%s vmCate:%s''
                         [AStr c, AStr r, AStr vmCate])
      | Inr (Some vm) \<Rightarrow> ret vm)"

definition multiAzError :: msg where
  "multiAzError = Lit ''in multi-AZ deployment mode, the number of coordinator nodes should be greater than or equal to 3''"

text \<open>Lines 529-543.\<close>

definition checkNetwork :: "env \<Rightarrow> resource \<Rightarrow> (unit, msg) prog" where
  "checkNetwork E d =
    (if length (network_id (new_cfg d)) > 0 then
       bind (remote (networkApi E) (GetNetworkCall (network_id (new_cfg d)))) (\<lambda>resp.
         case resp of
           Inl err \<Rightarrow> fail err
         | Inr netResp \<Rightarrow>
             (let coordinatorNodeCount =
                    (if HasChange coordinator_node_count d
                     then coordinator_node_count (new_cfg d)
                     else coordinator_node_count (new_cfg d))
              in if MultiAz netResp \<and> coordinatorNodeCount < 3
                 then fail multiAzError else ret ()))
     else ret ())"

text \<open>Lines 549-554.\<close>

fun checkSpecifyAz :: "warehouse_spec list \<Rightarrow> (unit, msg) prog" where
  "checkSpecifyAz [] = ret ()"
| "checkSpecifyAz (v # vs) =
    (if distribution_policy v \<noteq> SPECIFY_AZ \<and> length (specify_az v) > 0
     then fail (Lit ''specify_az parameter only takes effect when the distribution_policy value is \"specify_az\"'')
     else checkSpecifyAz vs)"

text \<open>Lines 558-576.\<close>

definition checkCoordinatorArch :: "env \<Rightarrow> resource \<Rightarrow> bool \<Rightarrow> string \<Rightarrow> (unit, msg) prog" where
  "checkCoordinatorArch E d isNewResource feArch =
    (if HasChange coordinator_node_size d \<and> \<not> isNewResource then
       (let c = new_cfg d; o_size = coordinator_node_size (old_cfg d) in
        bind (queryVmInfo E (csp c) (region c) ClusterModuleTypeFE o_size) (\<lambda>oldVm.
          if feArch \<noteq> vm_Arch oldVm
          then fail (Fmt ''the vm instance architecture can not be changed, csp:%s region:%s oldVmCate:%s  newVmCate:%s''
                       [AStr (csp c), AStr (region c), AStr o_size, AStr (coordinator_node_size c)])
          else ret ()))
     else ret ())"

definition volSizeDecreaseError :: msg where
  "volSizeDecreaseError = Fmt ''the coordinator node `vol_size` does not support decrease'' []"

text \<open>Lines 578-596.\<close>

definition checkCoordinatorVolSize :: "env \<Rightarrow> resource \<Rightarrow> bool \<Rightarrow> (unit, msg) prog" where
  "checkCoordinatorVolSize E d isNewResource =
    (if HasChange coordinator_node_volume_config d \<and> \<not> isNewResource then
       (let oldVolumeConfig = (case coordinator_node_volume_config (old_cfg d) of
                                 [] \<Rightarrow> DefaultFeVolumeMap E | v # _ \<Rightarrow> v);
            newVolumeConfig = (case coordinator_node_volume_config (new_cfg d) of
                                 [] \<Rightarrow> DefaultFeVolumeMap E | v # _ \<Rightarrow> v);
            oldVolumeSize = fe_vol_size oldVolumeConfig;
            newVolumeSize = fe_vol_size newVolumeConfig
        in if newVolumeSize < oldVolumeSize then fail volSizeDecreaseError else ret ())
     else ret ())"

text \<open>Lines 598-613. \<^verbatim>\<open>VmVolumeInfos[0]\<close> panics on an empty slice.\<close>

definition verifyCoordinatorVolume :: "env \<Rightarrow> resource \<Rightarrow> vm_info \<Rightarrow> (unit, msg) prog" where
  "verifyCoordinatorVolume E d feVm =
    (if \<not> vm_IsInstanceStore feVm then
       (case coordinator_node_volume_config (new_cfg d) of
          [] \<Rightarrow> ret ()
        | volumeConfig # _ \<Rightarrow>
            (case vm_VmVolumeInfos feVm of
               [] \<Rightarrow> panic
             | volumeCate # _ \<Rightarrow>
                 bind (remote (errApi E) (VolumeParamVerifyFE volumeCate volumeConfig)) (\<lambda>err.
                   case err of
                     None \<Rightarrow> ret ()
                   | Some e \<Rightarrow> fail (Fmt ''verify %s volume params failed, volumeCate:%s volumeConfig:%+v err:%+v''
                                 [AStr ''Coordinator node'', AStr volumeCate, AFeVol volumeConfig, AMsg e]))))
     else ret ())"

text \<open>The body of the loops at lines 620-666 and 712-759: one warehouse entry.\<close>

definition checkWarehouseItem ::
  "env \<Rightarrow> string \<Rightarrow> string \<Rightarrow> string \<Rightarrow> warehouse_spec \<Rightarrow> (vm_info, msg) prog" where
  "checkWarehouseItem E c r feArch m =
    (let whName = TrimSpace (name m); vmCateName = compute_node_size m in
     bind (queryVmInfo E c r ClusterModuleTypeBE vmCateName) (\<lambda>vm.
       if vm_Arch vm \<noteq> feArch then
         fail (Fmt ''the vm instance`s architecture of the warehouse[%s] must be the same as the coordinator node, expect:%s but found:%s''
                 [AStr whName, AStr feArch, AStr (vm_Arch vm)])
       else if vm_IsInstanceStore vm then
         (if length (compute_node_volume_config m) > 0 then
            fail (Fmt ''the vm instance type[%s] of the warehouse[%s] does not support specifying the volume config of disks, field: %+v is not supported''
                    [AStr vmCateName, AStr whName, AStr ''compute_node_volume_config''])
          else ret vm)
       else
         (case compute_node_volume_config m of
            [] \<Rightarrow> ret vm
          | volumeConfig # _ \<Rightarrow>
              (case vm_VmVolumeInfos vm of
                 [] \<Rightarrow> panic
               | volumeCate # _ \<Rightarrow>
                   bind (remote (errApi E) (VolumeParamVerifyBE volumeCate volumeConfig)) (\<lambda>err.
                     case err of
                       None \<Rightarrow> ret vm
                     | Some e \<Rightarrow> fail (Fmt ''verify %s volume params failed, volumeCate:%s volumeConfig:%+v err:%+v''
                                   [AStr ''Compute node'', AStr volumeCate, AVol volumeConfig, AMsg e]))))))"

fun collectWhVmInfo ::
  "env \<Rightarrow> string \<Rightarrow> string \<Rightarrow> string \<Rightarrow> warehouse_spec list \<Rightarrow> (string \<rightharpoonup> vm_info)
    \<Rightarrow> (string \<rightharpoonup> vm_info, msg) prog" where
  "collectWhVmInfo E c r feArch [] whVmInfoMap = ret whVmInfoMap"
| "collectWhVmInfo E c r feArch (m # ms) whVmInfoMap =
    bind (checkWarehouseItem E c r feArch m) (\<lambda>vm.
      collectWhVmInfo E c r feArch ms (whVmInfoMap(TrimSpace (name m) \<mapsto> vm)))"

text \<open>
  The keys of a map in the order in which one run of \<^verbatim>\<open>range\<close> visits them: the
  keys that \<open>mapRange\<close> lists, once each and in its order, then the keys it leaves out.
  Whatever the environment answers, every key is visited exactly once; every order of the
  keys is the order of some environment.
\<close>

definition rangeKeys :: "env \<Rightarrow> string list \<Rightarrow> string list" where
  "rangeKeys E ks =
    (let listed = remdups (filter (\<lambda>k. k \<in> set ks) (mapRange E ks))
     in listed @ filter (\<lambda>k. k \<notin> set listed) (remdups ks))"

text \<open>
  Lines 670-684 and 763-777: the loop that ranges over the persisted external-info map
  and returns at the first entry whose disk type differs from the one just looked up.
\<close>

fun checkInstanceStoreKeys ::
  "string list \<Rightarrow> (string \<rightharpoonup> wh_external_info) \<Rightarrow> (string \<rightharpoonup> vm_info) \<Rightarrow> (unit, msg) prog" where
  "checkInstanceStoreKeys [] whExternalInfoMap whVmInfoMap = ret ()"
| "checkInstanceStoreKeys (whName # rest) whExternalInfoMap whVmInfoMap =
    (case whExternalInfoMap whName of
       None \<Rightarrow> checkInstanceStoreKeys rest whExternalInfoMap whVmInfoMap
     | Some whExternalInfo \<Rightarrow>
        (case whVmInfoMap whName of
           Some v \<Rightarrow>
             (let expectStr = (if \<not> ext_IsInstanceStore whExternalInfo
                               then ''nonlocal disk vm instance type''
                               else ''local disk vm instance type'')
              in if ext_IsInstanceStore whExternalInfo \<noteq> vm_IsInstanceStore v
                 then fail (Fmt ''the disk type of the warehouse[%s] must be the same as the previous disk type, expect:%s''
                              [AStr whName, AStr expectStr])
                 else checkInstanceStoreKeys rest whExternalInfoMap whVmInfoMap)
         | None \<Rightarrow> checkInstanceStoreKeys rest whExternalInfoMap whVmInfoMap))"

definition checkInstanceStore ::
  "env \<Rightarrow> (string \<times> wh_external_info) list \<Rightarrow> (string \<rightharpoonup> vm_info) \<Rightarrow> (unit, msg) prog" where
  "checkInstanceStore E whExternalInfoMap whVmInfoMap =
     checkInstanceStoreKeys (rangeKeys E (map fst whExternalInfoMap))
       (map_of whExternalInfoMap) whVmInfoMap"

text \<open>
  Lines 692-708: the count of each trimmed name, and the search for a count above one,
  which ranges over the count map and returns at the first such key it meets.
\<close>

fun countNames :: "string list \<Rightarrow> (string \<rightharpoonup> int) \<Rightarrow> (string \<rightharpoonup> int)" where
  "countNames [] countMap = countMap"
| "countNames (whName # rest) countMap =
    countNames rest (case countMap whName of
                       Some v \<Rightarrow> countMap(whName \<mapsto> v + 1)
                     | None \<Rightarrow> countMap(whName \<mapsto> 1))"

fun findRepeated :: "string list \<Rightarrow> (string \<rightharpoonup> int) \<Rightarrow> string option" where
  "findRepeated [] countMap = None"
| "findRepeated (k # ks) countMap =
    (case countMap k of
       Some v \<Rightarrow> if v > 1 then Some k else findRepeated ks countMap
     | None \<Rightarrow> findRepeated ks countMap)"

definition checkUniqueNames :: "env \<Rightarrow> warehouse_spec list \<Rightarrow> (unit, msg) prog" where
  "checkUniqueNames E n =
    (let names = map (\<lambda>m. TrimSpace (name m)) n;
         countMap = countNames names Map.empty
     in case findRepeated (rangeKeys E names) countMap of
          Some k \<Rightarrow> fail (Fmt ''only one warehouse with name '%s' is allowed'' [AStr k])
        | None \<Rightarrow> ret ())"

text \<open>Lines 615-686.\<close>

definition checkDefaultWarehouse ::
  "env \<Rightarrow> resource \<Rightarrow> string \<Rightarrow> string \<Rightarrow> (unit, msg) prog" where
  "checkDefaultWarehouse E d clusterId feArch =
    (if HasChange default_warehouse d then
       (let c = new_cfg d in
        bind (collectWhVmInfo E (csp c) (region c) feArch (default_warehouse c) Map.empty)
          (\<lambda>whVmInfoMap.
            if length clusterId > 0
            then checkInstanceStore E (warehouse_external_info c) whVmInfoMap
            else ret ()))
     else ret ())"

text \<open>Lines 688-779.\<close>

definition checkWarehouses ::
  "env \<Rightarrow> resource \<Rightarrow> string \<Rightarrow> string \<Rightarrow> (unit, msg) prog" where
  "checkWarehouses E d clusterId feArch =
    (if HasChange warehouse d then
       (let c = new_cfg d in
        andThen (checkUniqueNames E (warehouse c))
          (bind (collectWhVmInfo E (csp c) (region c) feArch (warehouse c) Map.empty)
            (\<lambda>whVmInfoMap.
              if length clusterId > 0
              then checkInstanceStore E (warehouse_external_info c) whVmInfoMap
              else ret ())))
     else ret ())"

text \<open>
  \<^verbatim>\<open>customizeEl2Diff\<close> (lines 504-781). \<^verbatim>\<open>default_warehouse[0]\<close> panics on
  an empty list.
\<close>

definition customizeEl2Diff :: "env \<Rightarrow> resource \<Rightarrow> (unit, msg) prog" where
  "customizeEl2Diff E d =
    bind Id (\<lambda>clusterId.
      let c = new_cfg d; isNewResource = (clusterId = '''') in
      bind (queryVmInfo E (csp c) (region c) ClusterModuleTypeFE (coordinator_node_size c))
        (\<lambda>newCoordinatorVmInfo.
          andThen (checkNetwork E d)
            (case default_warehouse c of
               [] \<Rightarrow> panic
             | dw # _ \<Rightarrow>
                 andThen (checkSpecifyAz (dw # warehouse c))
                (andThen (checkCoordinatorArch E d isNewResource (vm_Arch newCoordinatorVmInfo))
                (andThen (checkCoordinatorVolSize E d isNewResource)
                (andThen (verifyCoordinatorVolume E d newCoordinatorVmInfo)
                (andThen (checkDefaultWarehouse E d clusterId (vm_Arch newCoordinatorVmInfo))
                         (checkWarehouses E d clusterId (vm_Arch newCoordinatorVmInfo)))))))))"

section \<open>Lifecycle operations on warehouses\<close>

definition liftErr :: "('e \<Rightarrow> 'f) \<Rightarrow> ('a, 'e) prog \<Rightarrow> ('a, 'f) prog" where
  "liftErr g m s = (case m s of
      (Val x, s') \<Rightarrow> (Val x, s')
    | (Err e, s') \<Rightarrow> (Err (g e), s')
    | (Panic, s') \<Rightarrow> (Panic, s'))"

text \<open>The six transient states that most waits list as pending.\<close>

definition transientStates :: "cluster_state list" where
  "transientStates = [ClusterStateDeploying, ClusterStateScaling, ClusterStateResuming,
     ClusterStateSuspending, ClusterStateReleasing, ClusterStateUpdating]"

definition infraPendingStates :: "infra_action_state list" where
  "infraPendingStates = [ClusterInfraActionStatePending, ClusterInfraActionStateOngoing]"

definition infraTargetStates :: "infra_action_state list" where
  "infraTargetStates = [ClusterInfraActionStateSucceeded, ClusterInfraActionStateCompleted,
     ClusterInfraActionStateFailed]"

text \<open>\<^verbatim>\<open>setWarehouseAutoScalingPolicy\<close> (lines 1904-1919).\<close>

definition setWarehouseAutoScalingPolicy ::
  "env \<Rightarrow> string \<Rightarrow> string \<Rightarrow> string \<Rightarrow> (unit, msg) prog" where
  "setWarehouseAutoScalingPolicy E clusterId warehouseId policyJson =
    (if length policyJson > 0 then
       bind (remote (errApi E)
               (SaveWarehouseAutoScalingConfigReq clusterId warehouseId policyJson True))
         (\<lambda>err. case err of None \<Rightarrow> ret () | Some e \<Rightarrow> fail e)
     else ret ())"

text \<open>\<^verbatim>\<open>createWarehouse\<close> (lines 1921-2108), in the order of the source.\<close>

definition createWarehouseRequest :: "string \<Rightarrow> warehouse_spec \<Rightarrow> create_warehouse_req" where
  "createWarehouseRequest clusterId whParamMap =
    (let diskNumber = (case compute_node_volume_config whParamMap of
                         [] \<Rightarrow> 2 | v # _ \<Rightarrow> vol_number v);
         perDiskSize = (case compute_node_volume_config whParamMap of
                          [] \<Rightarrow> 100 | v # _ \<Rightarrow> vol_size v);
         iops' = (case compute_node_volume_config whParamMap of
                    [] \<Rightarrow> 0 | v # _ \<Rightarrow> iops v);
         throughput' = (case compute_node_volume_config whParamMap of
                          [] \<Rightarrow> 0 | v # _ \<Rightarrow> throughput v)
     in \<lparr>cw_ClusterId = clusterId,
         cw_Name = name whParamMap,
         cw_VmCate = compute_node_size whParamMap,
         cw_VmNum = word_of_int (compute_node_count whParamMap),
         cw_VolumeSizeGB = word_of_int perDiskSize,
         cw_VolumeNum = word_of_int diskNumber,
         cw_Iops = word_of_int iops',
         cw_Throughput = word_of_int throughput',
         cw_DistributionPolicy = distribution_policy whParamMap,
         cw_SpecifyAZ = specify_az whParamMap\<rparr>)"

definition createWarehouseSuspend ::
  "env \<Rightarrow> string \<Rightarrow> string \<Rightarrow> string \<Rightarrow> (unit, diagnostic list) prog" where
  "createWarehouseSuspend E clusterId warehouseId warehouseName =
    bind (remote (actionApi E) (SuspendWarehouseReq warehouseId)) (\<lambda>suspendWhResp.
      case suspendWhResp of
        Inl err \<Rightarrow>
          fail [\<lparr>Severity = Warning,
                 Summary = Fmt ''Suspend warehouse[%s] failed'' [AStr warehouseName],
                 Detail = err\<rparr>]
      | Inr infraActionId \<Rightarrow>
          if length infraActionId > 0 then
            bind (remote (waitApi E) (WaitClusterStateChangeComplete
                    \<lparr>clusterID = clusterId, actionID = infraActionId,
                     timeout = DeployOrScaleClusterTimeout,
                     pendingStates = transientStates,
                     targetStates = [ClusterStateSuspended, ClusterStateAbnormal]\<rparr>))
              (\<lambda>w. let summary = Fmt ''suspend warehouse[%s] failed'' [AStr warehouseName] in
                case w of
                  Inl err \<Rightarrow>
                    fail [\<lparr>Severity = Warning, Summary = summary,
                           Detail = Fmt ''%s. errMsg:%s'' [AMsg summary, AMsg err]\<rparr>]
                | Inr stateResp \<Rightarrow>
                    if ClusterState stateResp = ClusterStateAbnormal then
                      fail [\<lparr>Severity = Warning, Summary = summary,
                             Detail = Fmt ''%s. errMsg:%s''
                               [AMsg summary, AStr (AbnormalReason stateResp)]\<rparr>]
                    else ret ())
          else ret ())"

definition createWarehouse ::
  "env \<Rightarrow> string \<Rightarrow> warehouse_spec \<Rightarrow> (unit, diagnostic list) prog" where
  "createWarehouse E clusterId whParamMap =
    (let warehouseName = name whParamMap in
     bind (remote (createWarehouseApi E)
             (CreateWarehouseReq (createWarehouseRequest clusterId whParamMap))) (\<lambda>r.
       case r of
         Inl err \<Rightarrow> fail (FromErr err)
       | Inr resp \<Rightarrow>
           (let warehouseId = cwr_WarehouseId resp in
            andThen
              (if length (cwr_ActionID resp) > 0 then
                 bind (remote (waitApi E) (WaitClusterStateChangeComplete
                         \<lparr>clusterID = clusterId, actionID = cwr_ActionID resp,
                          timeout = DeployOrScaleClusterTimeout,
                          pendingStates = transientStates,
                          targetStates = [ClusterStateRunning, ClusterStateAbnormal]\<rparr>))
                   (\<lambda>w. case w of
                      Inl err \<Rightarrow>
                        fail (FromErr (Fmt ''%s''
                          [AMsg (Fmt ''create warehouse[%s] of the cluster[%s] failed, errMsg:%s''
                                   [AStr warehouseName, AStr clusterId, AMsg err])]))
                    | Inr stateResp \<Rightarrow>
                        if ClusterState stateResp = ClusterStateAbnormal
                        then fail (FromErr (Lit (AbnormalReason stateResp)))
                        else ret ())
               else ret ())
           (andThen
              (liftErr (\<lambda>err.
                   [\<lparr>Severity = Warning,
                     Summary = Fmt ''Config warehouse[%s] auto-scaling configuration failed''
                                 [AStr warehouseName],
                     Detail = Fmt ''Add warehouse auto-scaling configuration failed, errMsg:%s''
                                 [AMsg err]\<rparr>])
                 (setWarehouseAutoScalingPolicy E clusterId warehouseId
                    (auto_scaling_policy whParamMap)))
           (andThen
              (if length (compute_node_configs whParamMap) > 0 then
                 bind (remote (diagApi E) (UpsertClusterConfigReq clusterId CustomConfigTypeBE
                         warehouseId (compute_node_configs whParamMap))) orReturn
               else ret ())
           (andThen
              (if expected_state whParamMap = ClusterStateSuspended
               then createWarehouseSuspend E clusterId warehouseId warehouseName
               else ret ())
              (if wh_idle_suspend_interval whParamMap > 0 then
                 bind (remote (errApi E) (UpdateWarehouseIdleConfigReq warehouseId
                         (word_of_int (wh_idle_suspend_interval whParamMap * 60 * 1000)) True))
                   (\<lambda>err. case err of
                      None \<Rightarrow> ret ()
                    | Some e \<Rightarrow>
                        fail [\<lparr>Severity = Warning,
                               Summary = Fmt ''Config warehouse[%s] idle config failed''
                                           [AStr warehouseName],
                               Detail = e\<rparr>])
               else ret ())))))))"

text \<open>\<^verbatim>\<open>DeleteWarehouse\<close> (lines 2429-2472).\<close>

definition DeleteWarehouse :: "env \<Rightarrow> string \<Rightarrow> string \<Rightarrow> (unit, diagnostic list) prog" where
  "DeleteWarehouse E clusterId warehouseId =
    bind (remote (actionApi E) (ReleaseWarehouseReq warehouseId)) (\<lambda>r.
      case r of
        Inl err \<Rightarrow> fail (FromErr err)
      | Inr infraActionId \<Rightarrow>
          if length infraActionId > 0 then
            bind (remote (waitApi E) (WaitClusterStateChangeComplete
                    \<lparr>clusterID = clusterId, actionID = infraActionId,
                     timeout = DeployOrScaleClusterTimeout,
                     pendingStates = [ClusterStateDeploying, ClusterStateRunning,
                       ClusterStateScaling, ClusterStateResuming, ClusterStateSuspending,
                       ClusterStateReleasing, ClusterStateUpdating],
                     targetStates = [ClusterStateReleased, ClusterStateAbnormal]\<rparr>))
              (\<lambda>w. case w of
                 Inl err \<Rightarrow>
                   fail (FromErr (Fmt ''release warehouse[%s] of the cluster[%s] failed, errMsg:%s''
                                    [AStr warehouseId, AStr clusterId, AMsg err]))
               | Inr stateResp \<Rightarrow>
                   if ClusterState stateResp = ClusterStateAbnormal
                   then fail (FromErr (Lit (AbnormalReason stateResp)))
                   else ret ())
          else ret ())"

text \<open>\<^verbatim>\<open>SuspendWarehouse\<close> (lines 2474-2531).\<close>

definition SuspendWarehouse ::
  "env \<Rightarrow> string \<Rightarrow> string \<Rightarrow> string \<Rightarrow> (unit, diagnostic list) prog" where
  "SuspendWarehouse E clusterId warehouseId warehouseName =
    bind (remote (actionApi E) (SuspendWarehouseReq warehouseId)) (\<lambda>r.
      case r of
        Inl err \<Rightarrow>
          fail [\<lparr>Severity = Warning, Summary = Lit ''Suspend warehouse failed'', Detail = err\<rparr>]
      | Inr infraActionId \<Rightarrow>
          if length infraActionId > 0 then
            bind (remote (waitApi E) (WaitClusterStateChangeComplete
                    \<lparr>clusterID = clusterId, actionID = infraActionId,
                     timeout = DeployOrScaleClusterTimeout,
                     pendingStates = [ClusterStateDeploying, ClusterStateRunning,
                       ClusterStateScaling, ClusterStateResuming, ClusterStateSuspending,
                       ClusterStateReleasing, ClusterStateUpdating],
                     targetStates = [ClusterStateSuspended, ClusterStateAbnormal]\<rparr>))
              (\<lambda>w. case w of
                 Inl err \<Rightarrow>
                   fail [\<lparr>Severity = Warning, Summary = Lit ''Suspend warehouse'',
                          Detail = Fmt ''suspend warehouse[%s] of the cluster[%s] failed, errMsg:%s''
                                     [AStr warehouseName, AStr clusterId, AMsg err]\<rparr>]
               | Inr stateResp \<Rightarrow>
                   if ClusterState stateResp = ClusterStateAbnormal
                   then fail [\<lparr>Severity = Warning, Summary = Lit ''Suspend warehouse'',
                                Detail = Lit (AbnormalReason stateResp)\<rparr>]
                   else ret ())
          else ret ())"

text \<open>\<^verbatim>\<open>ResumeWarehouse\<close> (lines 2533-2578).\<close>

definition ResumeWarehouse ::
  "env \<Rightarrow> string \<Rightarrow> string \<Rightarrow> string \<Rightarrow> (unit, diagnostic list) prog" where
  "ResumeWarehouse E clusterId warehouseId warehouseName =
    bind (remote (actionApi E) (ResumeWarehouseReq warehouseId)) (\<lambda>r.
      case r of
        Inl err \<Rightarrow>
          fail [\<lparr>Severity = Error, Summary = Lit ''Resume warehouse failed'', Detail = err\<rparr>]
      | Inr infraActionId \<Rightarrow>
          if length infraActionId > 0 then
            bind (remote (waitApi E) (WaitClusterStateChangeComplete
                    \<lparr>clusterID = clusterId, actionID = infraActionId,
                     timeout = DeployOrScaleClusterTimeout,
                     pendingStates = [ClusterStateDeploying, ClusterStateScaling,
                       ClusterStateResuming, ClusterStateSuspending, ClusterStateSuspended,
                       ClusterStateReleasing, ClusterStateUpdating],
                     targetStates = [ClusterStateRunning, ClusterStateAbnormal]\<rparr>))
              (\<lambda>w. case w of
                 Inl err \<Rightarrow>
                   fail (FromErr (Fmt ''resume warehouse[%s] of the cluster[%s] failed, errMsg:%s''
                                    [AStr warehouseName, AStr clusterId, AMsg err]))
               | Inr stateResp \<Rightarrow>
                   if ClusterState stateResp = ClusterStateAbnormal
                   then fail (FromErr (Lit (AbnormalReason stateResp)))
                   else ret ())
          else ret ())"

text \<open>
  \<^verbatim>\<open>updateWarehouse\<close> (lines 2110-2427), one definition per block of the source,
  run in the order of the source. \<^verbatim>\<open>cluster.Equal\<close> is equality of the two values.
\<close>

definition changeWarehouseDistribution ::
  "env \<Rightarrow> string \<Rightarrow> string \<Rightarrow> warehouse_spec \<Rightarrow> warehouse_spec
    \<Rightarrow> (unit, diagnostic list) prog" where
  "changeWarehouseDistribution E clusterId warehouseId oldParamMap newParamMap =
    (let computeNodeDistributionChanged =
           (distribution_policy oldParamMap \<noteq> distribution_policy newParamMap
            \<or> (distribution_policy newParamMap = DistributionPolicySpecifyAZ E
                \<and> specify_az oldParamMap \<noteq> specify_az newParamMap))
     in if computeNodeDistributionChanged then
          bind (remote (actionApi E) (ChangeWarehouseDistributionReq warehouseId
                  (distribution_policy newParamMap) (specify_az newParamMap))) (\<lambda>r.
            case r of
              Inl err \<Rightarrow>
                fail (FromErr (Fmt ''failed to change warehouse distribution, clusterId:%s warehouseId:%s, errMsg:%s''
                                 [AStr clusterId, AStr warehouseId, AMsg err]))
            | Inr infraActionId \<Rightarrow>
                bind (remote (waitInfraApi E) (WaitClusterInfraActionStateChangeComplete
                        \<lparr>infra_clusterID = clusterId, infra_actionID = infraActionId,
                         infra_timeout = DeployOrScaleClusterTimeout,
                         infra_pendingStates = infraPendingStates,
                         infra_targetStates = infraTargetStates\<rparr>))
                  (\<lambda>w. case w of
                     Inl err \<Rightarrow>
                       fail (FromErr (Fmt ''failed to wait change warehouse distribution[%s], clusterId:%s warehouseId:%s, errMsg:%s''
                                        [AStr infraActionId, AStr clusterId, AStr warehouseId, AMsg err]))
                   | Inr infraActionResp \<Rightarrow>
                       if InfraActionState infraActionResp = ClusterInfraActionStateFailed
                       then fail (FromErr (Fmt ''failed to wait change warehouse distribution[%s], clusterId:%s warehouseId:%s, errMsg:%s''
                                             [AStr infraActionId, AStr clusterId, AStr warehouseId,
                                              AStr (ErrMsg infraActionResp)]))
                       else ret ()))
        else ret ())"

text \<open>The wait that follows both warehouse scale requests (lines 2174-2190, 2206-2222).\<close>

definition scaleWait :: "string \<Rightarrow> string \<Rightarrow> call" where
  "scaleWait clusterId actionId = WaitClusterStateChangeComplete
     \<lparr>clusterID = clusterId, actionID = actionId, timeout = DeployOrScaleClusterTimeout,
      pendingStates = [ClusterStateRunning, ClusterStateScaling],
      targetStates = [ClusterStateRunning, ClusterStateAbnormal]\<rparr>"

definition awaitScale :: "env \<Rightarrow> string \<Rightarrow> string \<Rightarrow> (unit, diagnostic list) prog" where
  "awaitScale E clusterId actionId =
    bind (remote (waitApi E) (scaleWait clusterId actionId)) (\<lambda>w.
      case w of
        Inl err \<Rightarrow> fail (FromErr (Fmt ''waiting for cluster (%s) running: %s''
                                    [AStr clusterId, AMsg err]))
      | Inr stateResp \<Rightarrow>
          if ClusterState stateResp = ClusterStateAbnormal
          then fail (FromErr (Lit (AbnormalReason stateResp)))
          else ret ())"

definition scaleWarehouseSize ::
  "env \<Rightarrow> string \<Rightarrow> string \<Rightarrow> warehouse_spec \<Rightarrow> warehouse_spec
    \<Rightarrow> (unit, diagnostic list) prog" where
  "scaleWarehouseSize E clusterId warehouseId oldParamMap newParamMap =
    (let computeNodeSizeChanged = (compute_node_size oldParamMap \<noteq> compute_node_size newParamMap)
     in if computeNodeSizeChanged then
          bind (remote (actionApi E)
                  (ScaleWarehouseSizeReq warehouseId (compute_node_size newParamMap))) (\<lambda>r.
            case r of
              Inl err \<Rightarrow>
                fail (FromErr (Fmt ''failed to scale warehouse size, clusterId:%s warehouseId:%s, errMsg:%s''
                                 [AStr clusterId, AStr warehouseId, AMsg err]))
            | Inr actionId \<Rightarrow> awaitScale E clusterId actionId)
        else ret ())"

definition scaleWarehouseNum ::
  "env \<Rightarrow> string \<Rightarrow> string \<Rightarrow> warehouse_spec \<Rightarrow> warehouse_spec
    \<Rightarrow> (unit, diagnostic list) prog" where
  "scaleWarehouseNum E clusterId warehouseId oldParamMap newParamMap =
    (let computeNodeCountChanged =
           (compute_node_count oldParamMap \<noteq> compute_node_count newParamMap)
     in if computeNodeCountChanged then
          (let vmNum = (word_of_int (compute_node_count newParamMap) :: 32 word) in
           bind (remote (actionApi E) (ScaleWarehouseNumReq warehouseId vmNum)) (\<lambda>r.
            case r of
              Inl err \<Rightarrow>
                fail (FromErr (Fmt ''failed to scale warehouse number, clusterId:%s warehouseId:%s, errMsg:%s''
                                 [AStr clusterId, AStr warehouseId, AMsg err]))
            | Inr actionId \<Rightarrow> awaitScale E clusterId actionId))
        else ret ())"

definition volNumberError :: msg where
  "volNumberError = Fmt ''the compute node `vol_number` is not allowed to be modified'' []"

definition whVolSizeError :: msg where
  "whVolSizeError = Fmt ''the compute node `vol_size` does not support decrease'' []"

definition effectiveVolume :: "env \<Rightarrow> warehouse_spec \<Rightarrow> volume_config" where
  "effectiveVolume E paramMap =
    (case compute_node_volume_config paramMap of
       [] \<Rightarrow> DefaultBeVolumeMap E | v # _ \<Rightarrow> v)"

definition awaitInfra ::
  "env \<Rightarrow> string \<Rightarrow> string \<Rightarrow> msg \<Rightarrow> (unit, diagnostic list) prog" where
  "awaitInfra E clusterId infraActionId summary =
    (if length infraActionId > 0 then
       bind (remote (waitInfraApi E) (WaitClusterInfraActionStateChangeComplete
               \<lparr>infra_clusterID = clusterId, infra_actionID = infraActionId,
                infra_timeout = Minutes 30,
                infra_pendingStates = infraPendingStates,
                infra_targetStates = infraTargetStates\<rparr>))
         (\<lambda>w. case w of
            Inl err \<Rightarrow> fail [\<lparr>Severity = Error, Summary = summary, Detail = err\<rparr>]
          | Inr infraActionResp \<Rightarrow>
              if InfraActionState infraActionResp = ClusterInfraActionStateFailed
              then fail [\<lparr>Severity = Error, Summary = summary,
                           Detail = Lit (ErrMsg infraActionResp)\<rparr>]
              else ret ())
     else ret ())"

definition modifyWarehouseVolume ::
  "env \<Rightarrow> string \<Rightarrow> string \<Rightarrow> bool \<Rightarrow> warehouse_spec \<Rightarrow> warehouse_spec
    \<Rightarrow> (unit, diagnostic list) prog" where
  "modifyWarehouseVolume E clusterId warehouseId computeNodeIsInstanceStore oldParamMap newParamMap =
    (let oldVolumeConfig = effectiveVolume E oldParamMap;
         newVolumeConfig = effectiveVolume E newParamMap;
         VolumeConfigChanged = (oldVolumeConfig \<noteq> newVolumeConfig)
     in if \<not> computeNodeIsInstanceStore \<and> VolumeConfigChanged then
          (if vol_number oldVolumeConfig \<noteq> vol_number newVolumeConfig then
             fail (FromErr volNumberError)
           else if vol_size oldVolumeConfig > vol_size newVolumeConfig then
             fail (FromErr whVolSizeError)
           else
             bind (remote (actionApi E) (ModifyClusterVolumeReq
                     \<lparr>mv_ClusterId = clusterId, mv_WarehouseID = warehouseId,
                      mv_Type = ClusterModuleTypeWarehouse,
                      mv_VmVolSize = (if vol_size newVolumeConfig \<noteq> vol_size oldVolumeConfig
                                      then word_of_int (vol_size newVolumeConfig) else 0),
                      mv_Iops = (if iops newVolumeConfig \<noteq> iops oldVolumeConfig
                                 then word_of_int (iops newVolumeConfig) else 0),
                      mv_Throughput = (if throughput newVolumeConfig \<noteq> throughput oldVolumeConfig
                                       then word_of_int (throughput newVolumeConfig) else 0)\<rparr>)) (\<lambda>r.
               case r of
                 Inl err \<Rightarrow> fail (FromErr err)
               | Inr infraActionId \<Rightarrow>
                   awaitInfra E clusterId infraActionId
                     (Fmt ''Modify warehouse[%s] volume config failed'' [AStr (name newParamMap)])))
        else ret ())"

definition updateWarehouseIdle ::
  "env \<Rightarrow> string \<Rightarrow> bool \<Rightarrow> warehouse_spec \<Rightarrow> warehouse_spec
    \<Rightarrow> (unit, diagnostic list) prog" where
  "updateWarehouseIdle E warehouseId isDefaultWarehouse oldParamMap newParamMap =
    (if \<not> isDefaultWarehouse
        \<and> wh_idle_suspend_interval oldParamMap \<noteq> wh_idle_suspend_interval newParamMap then
       (let idleSuspendInterval = wh_idle_suspend_interval newParamMap in
        bind (remote (errApi E) (UpdateWarehouseIdleConfigReq warehouseId
                (word_of_int (idleSuspendInterval * 60 * 1000)) (idleSuspendInterval > 0)))
          (\<lambda>err. case err of
             None \<Rightarrow> ret ()
           | Some e \<Rightarrow> fail [\<lparr>Severity = Warning,
                               Summary = Lit ''Config warehouse idle config failed'',
                               Detail = e\<rparr>]))
     else ret ())"

definition updateWarehouseAutoScaling ::
  "env \<Rightarrow> string \<Rightarrow> string \<Rightarrow> warehouse_spec \<Rightarrow> warehouse_spec
    \<Rightarrow> (unit, diagnostic list) prog" where
  "updateWarehouseAutoScaling E clusterId warehouseId oldParamMap newParamMap =
    (if auto_scaling_policy oldParamMap \<noteq> auto_scaling_policy newParamMap then
       (let policyJson = auto_scaling_policy newParamMap in
        if length policyJson > 0 then
          bind (remote (errApi E)
                  (SaveWarehouseAutoScalingConfigReq clusterId warehouseId policyJson True))
            (\<lambda>err. case err of
               None \<Rightarrow> ret ()
             | Some e \<Rightarrow>
                 fail (FromErr (Fmt ''%s''
                   [AMsg (Fmt ''Update warehouse auto-scaling configuration failed, errMsg:%s''
                            [AMsg e])])))
        else
          bind (remote (errApi E) (DeleteWarehouseAutoScalingConfigReq warehouseId))
            (\<lambda>err. case err of
               None \<Rightarrow> ret ()
             | Some e \<Rightarrow> fail [\<lparr>Severity = Warning,
                                 Summary = Lit ''Delete warehouse auto scaling config failed'',
                                 Detail = e\<rparr>]))
     else ret ())"

definition updateWarehouse ::
  "env \<Rightarrow> string \<Rightarrow> warehouse_spec \<Rightarrow> warehouse_spec \<Rightarrow> wh_external_info
    \<Rightarrow> (unit, diagnostic list) prog" where
  "updateWarehouse E clusterId oldParamMap newParamMap whExternalInfo =
    (let warehouseId = ext_Id whExternalInfo;
         isDefaultWarehouse = ext_IsDefaultWarehouse whExternalInfo;
         computeNodeIsInstanceStore = ext_IsInstanceStore whExternalInfo;
         warehouseName = name newParamMap;
         srConfigChanged = (compute_node_configs oldParamMap \<noteq> compute_node_configs newParamMap);
         expectedStateChanged = (expected_state oldParamMap \<noteq> expected_state newParamMap)
     in
       andThen (changeWarehouseDistribution E clusterId warehouseId oldParamMap newParamMap)
      (andThen (scaleWarehouseSize E clusterId warehouseId oldParamMap newParamMap)
      (andThen (scaleWarehouseNum E clusterId warehouseId oldParamMap newParamMap)
      (andThen (modifyWarehouseVolume E clusterId warehouseId computeNodeIsInstanceStore
                  oldParamMap newParamMap)
      (andThen (updateWarehouseIdle E warehouseId isDefaultWarehouse oldParamMap newParamMap)
      (andThen (if \<not> isDefaultWarehouse \<and> expectedStateChanged
                   \<and> expected_state newParamMap = ClusterStateRunning
                then ResumeWarehouse E clusterId warehouseId warehouseName else ret ())
      (andThen (if srConfigChanged then
                  bind (remote (diagApi E) (UpsertClusterConfigReq clusterId CustomConfigTypeBE
                          warehouseId (compute_node_configs newParamMap))) orReturn
                else ret ())
      (andThen (if \<not> isDefaultWarehouse \<and> expectedStateChanged
                   \<and> expected_state newParamMap = ClusterStateSuspended
                then SuspendWarehouse E clusterId warehouseId warehouseName else ret ())
               (updateWarehouseAutoScaling E clusterId warehouseId oldParamMap newParamMap)))))))))"

section \<open>The cluster reconciler\<close>

text \<open>\<^verbatim>\<open>upgradeAMI\<close> (lines 1872-1902) and \<^verbatim>\<open>IsAllRunning\<close> (lines 2580-2592).\<close>

definition upgradeAMI :: "env \<Rightarrow> upgrade_ami_req \<Rightarrow> (unit, msg) prog" where
  "upgradeAMI E req =
    bind (remote (actionApi E) (UpgradeAMIReq req)) (\<lambda>r.
      case r of
        Inl err \<Rightarrow> fail (Fmt ''failed to update custom ami, %s. %s'' [AMsg err, AUpgradeReq req])
      | Inr infraActionId \<Rightarrow>
          bind (remote (waitInfraApi E) (WaitClusterInfraActionStateChangeComplete
                  \<lparr>infra_clusterID = ua_ClusterId req, infra_actionID = infraActionId,
                   infra_timeout = DeployOrScaleClusterTimeout,
                   infra_pendingStates = infraPendingStates,
                   infra_targetStates = infraTargetStates\<rparr>))
            (\<lambda>w. case w of
               Inl err \<Rightarrow> fail (Fmt ''failed to wait upgrade ami, %s. action:%s,%s''
                                [AMsg err, AStr infraActionId, AUpgradeReq req])
             | Inr infraActionResp \<Rightarrow>
                 if InfraActionState infraActionResp = ClusterInfraActionStateFailed
                 then fail (Fmt ''failed to wait upgrade ami, %s. action:%s,%s''
                              [AStr (ErrMsg infraActionResp), AStr infraActionId, AUpgradeReq req])
                 else ret ()))"

definition IsAllRunning :: "cluster_info \<Rightarrow> bool" where
  "IsAllRunning c =
    (if ci_ClusterState c \<noteq> ClusterStateRunning then False
     else list_all (\<lambda>wh. snd wh = ClusterStateRunning) (ci_Warehouses c))"

text \<open>\<^verbatim>\<open>elasticClusterV2NeedUnlock\<close> (lines 1405-1414).\<close>

definition elasticClusterV2NeedUnlock :: "resource \<Rightarrow> bool" where
  "elasticClusterV2NeedUnlock d =
    (let result = (\<not> is_new d \<and> free_tier (new_cfg d)
                   \<and> (HasChange coordinator_node_size d \<or> HasChange coordinator_node_count d))
     in if \<not> result \<and> (HasChange warehouse d \<or> HasChange default_warehouse d)
        then True else result)"

text \<open>The cluster-level wait used on entry by update and delete (30 minutes).\<close>

definition quiescenceWait :: "string \<Rightarrow> call" where
  "quiescenceWait clusterId = WaitClusterStateChangeComplete
     \<lparr>clusterID = clusterId, actionID = [], timeout = Minutes 30,
      pendingStates = transientStates,
      targetStates = [ClusterStateRunning, ClusterStateSuspended, ClusterStateAbnormal,
                      ClusterStateReleased]\<rparr>"

text \<open>Lines 1417-1422.\<close>

definition immutableFields :: "(string \<times> (resource \<Rightarrow> bool)) list" where
  "immutableFields =
    [(''csp'', HasChange csp), (''region'', HasChange region),
     (''cluster_name'', HasChange cluster_name),
     (''default_admin_password'', HasChange default_admin_password),
     (''data_credential_id'', HasChange data_credential_id),
     (''deployment_credential_id'', HasChange deployment_credential_id),
     (''network_id'', HasChange network_id), (''query_port'', HasChange query_port)]"

fun checkImmutableFields ::
  "(string \<times> (resource \<Rightarrow> bool)) list \<Rightarrow> resource \<Rightarrow> (unit, diagnostic list) prog" where
  "checkImmutableFields [] d = ret ()"
| "checkImmutableFields ((f, changed) # fs) d =
    (if changed d \<and> \<not> is_new d
     then fail (FromErr (Fmt ''the `%s` field is not allowed to be modified'' [AStr f]))
     else checkImmutableFields fs d)"

text \<open>Lines 1430-1461.\<close>

definition updateAwaitQuiescence :: "env \<Rightarrow> string \<Rightarrow> (unit, diagnostic list) prog" where
  "updateAwaitQuiescence E clusterId =
    bind (remote (waitApi E) (quiescenceWait clusterId)) (\<lambda>w.
      case w of
        Inl err \<Rightarrow> fail (FromErr (Fmt ''waiting for cluster (%s) change complete: %s''
                                    [AStr clusterId, AMsg err]))
      | Inr stateResp \<Rightarrow>
          if ClusterState stateResp = ClusterStateReleased then
            andThen (SetId [])
              (fail (FromErr (Fmt ''cluster (%s) not found'' [AStr clusterId])))
          else if ClusterState stateResp = ClusterStateAbnormal then
            fail (FromErr (Lit (AbnormalReason stateResp)))
          else ret ())"

text \<open>Lines 1463-1476.\<close>

definition updateIdleConfig :: "env \<Rightarrow> resource \<Rightarrow> string \<Rightarrow> (unit, diagnostic list) prog" where
  "updateIdleConfig E d clusterId =
    (if HasChange idle_suspend_interval d \<and> \<not> is_new d then
       (let o_v = idle_suspend_interval (old_cfg d);
            n_v = idle_suspend_interval (new_cfg d);
            enable = (n_v > 0);
            v = (if \<not> enable then o_v else n_v);
            intervalTimeMills = (word_of_int (v * 60 * 1000) :: 64 word)
        in bind (remote (diagApi E) (UpdateClusterIdleConfigCall clusterId intervalTimeMills enable))
             orReturn)
     else ret ())"

text \<open>Lines 1480-1486 and 1810-1816.\<close>

definition updateClusterState :: "env \<Rightarrow> resource \<Rightarrow> (unit, diagnostic list) prog" where
  "updateClusterState E d =
    bind Id (\<lambda>i.
      bind (remote (diagApi E) (UpdateClusterStateCall i
              (expected_cluster_state (old_cfg d)) (expected_cluster_state (new_cfg d))))
        orReturn)"

text \<open>Lines 1488-1548.\<close>

definition updateCertsTagsScripts ::
  "env \<Rightarrow> resource \<Rightarrow> string \<Rightarrow> (unit, diagnostic list) prog" where
  "updateCertsTagsScripts E d clusterId =
    andThen
      (if HasChange ldap_ssl_certs d \<and> \<not> is_new d then
         bind (remote (diagApi E)
                 (UpsertClusterLdapSslCertCall clusterId (ldap_ssl_certs (new_cfg d)) True))
           orReturn
       else ret ())
   (andThen
      (if HasChange resource_tags d \<and> \<not> is_new d then
         bind (remote (errApi E) (UpdateResourceTagsReq clusterId (resource_tags (new_cfg d))))
           (\<lambda>err. case err of
              None \<Rightarrow> ret ()
            | Some e \<Rightarrow> fail (FromErr (Fmt ''cluster (%s) failed to update resource tags: %s''
                                         [AStr clusterId, AMsg e])))
       else ret ())
   (andThen
      (if HasChange init_scripts d \<and> \<not> is_new d then
         bind (remote (errApi E) (UpdateDeploymentScriptsReq clusterId (init_scripts (new_cfg d))
                 (run_scripts_parallel (new_cfg d))
                 (word_of_int (run_scripts_timeout (new_cfg d)))))
           (\<lambda>err. case err of
              None \<Rightarrow> ret ()
            | Some e \<Rightarrow> fail (FromErr (Fmt ''failed to update cluster(%s) init-scripts: %s''
                                         [AStr clusterId, AMsg e])))
       else ret ())
      (if HasChange ranger_certs_dir d \<and> \<not> is_new d then
         bind (remote (diagApi E)
                 (UpsertClusterRangerCertCall clusterId (ranger_certs_dir (new_cfg d)) True))
           orReturn
       else ret ())))"

text \<open>Lines 1550-1555.\<close>

definition unlockFreeTier :: "env \<Rightarrow> resource \<Rightarrow> string \<Rightarrow> (unit, diagnostic list) prog" where
  "unlockFreeTier E d clusterId =
    (if elasticClusterV2NeedUnlock d then
       bind (remote (errApi E) (UnlockFreeTierCall clusterId))
         (\<lambda>err. case err of
            None \<Rightarrow> ret ()
          | Some e \<Rightarrow> fail (FromErr (Fmt ''cluster (%s) failed to unlock free tier: %s''
                                       [AStr clusterId, AMsg e])))
     else ret ())"

text \<open>The wait after a coordinator scale request (lines 1569-1583, 1616-1630).\<close>

definition awaitCoordinatorScale ::
  "env \<Rightarrow> string \<Rightarrow> string \<Rightarrow> string \<Rightarrow> (unit, diagnostic list) prog" where
  "awaitCoordinatorScale E clusterId actionId fmt =
    bind (remote (waitApi E) (WaitClusterStateChangeComplete
            \<lparr>clusterID = clusterId, actionID = actionId, timeout = DeployOrScaleClusterTimeout,
             pendingStates = [ClusterStateScaling],
             targetStates = [ClusterStateRunning, ClusterStateAbnormal]\<rparr>)) (\<lambda>w.
      case w of
        Inl err \<Rightarrow> fail (FromErr (Fmt fmt [AStr clusterId, AMsg err]))
      | Inr stateResp \<Rightarrow>
          if ClusterState stateResp = ClusterStateAbnormal
          then fail (FromErr (Lit (AbnormalReason stateResp)))
          else ret ())"

text \<open>Lines 1557-1584.\<close>

definition updateCoordinatorSize :: "env \<Rightarrow> resource \<Rightarrow> string \<Rightarrow> (unit, diagnostic list) prog" where
  "updateCoordinatorSize E d clusterId =
    (if HasChange coordinator_node_size d \<and> \<not> is_new d then
       bind (remote (actionApi E) (ScaleUpReq clusterId ClusterModuleTypeFE
               (coordinator_node_size (new_cfg d)))) (\<lambda>r.
         case r of
           Inl err \<Rightarrow> fail (FromErr (Fmt ''cluster (%s) failed to scale up fe nodes: %s''
                                       [AStr clusterId, AMsg err]))
         | Inr actionId \<Rightarrow>
             awaitCoordinatorScale E clusterId actionId ''waiting for cluster (%s) running %s'')
     else ret ())"

text \<open>Lines 1586-1631. With equal counts no request is made and the wait has an empty action id.\<close>

definition updateCoordinatorCount :: "env \<Rightarrow> resource \<Rightarrow> string \<Rightarrow> (unit, diagnostic list) prog" where
  "updateCoordinatorCount E d clusterId =
    (if HasChange coordinator_node_count d \<and> \<not> is_new d then
       (let o_n = coordinator_node_count (old_cfg d); n_n = coordinator_node_count (new_cfg d) in
        bind
          (if n_n > o_n then
             bind (remote (actionApi E) (ScaleOutReq clusterId ClusterModuleTypeFE
                     (word_of_int n_n))) (\<lambda>r.
               case r of
                 Inl err \<Rightarrow> fail (FromErr (Fmt ''cluster (%s) failed to scale out fe nodes: %s''
                                             [AStr clusterId, AMsg err]))
               | Inr actionId \<Rightarrow> ret actionId)
           else if n_n < o_n then
             bind (remote (actionApi E) (ScaleInReq clusterId ClusterModuleTypeFE
                     (word_of_int n_n))) (\<lambda>r.
               case r of
                 Inl err \<Rightarrow> fail (FromErr (Fmt ''cluster (%s) failed to scale in fe nodes: %s''
                                             [AStr clusterId, AMsg err]))
               | Inr actionId \<Rightarrow> ret actionId)
           else ret [])
          (\<lambda>actionID.
             awaitCoordinatorScale E clusterId actionID ''waiting for cluster (%s) running: %s''))
     else ret ())"

text \<open>Lines 1633-1707.\<close>

definition updateCoordinatorVolume :: "env \<Rightarrow> resource \<Rightarrow> string \<Rightarrow> (unit, diagnostic list) prog" where
  "updateCoordinatorVolume E d clusterId =
    (if HasChange coordinator_node_volume_config d then
       (let oldVolumeConfig = (case coordinator_node_volume_config (old_cfg d) of
                                 [] \<Rightarrow> DefaultFeVolumeMap E | v # _ \<Rightarrow> v);
            newVolumeConfig = (case coordinator_node_volume_config (new_cfg d) of
                                 [] \<Rightarrow> DefaultFeVolumeMap E | v # _ \<Rightarrow> v);
            nodeType = ClusterModuleTypeFE
        in bind (remote (actionApi E) (ModifyClusterVolumeReq
                   \<lparr>mv_ClusterId = clusterId, mv_WarehouseID = [], mv_Type = nodeType,
                    mv_VmVolSize = (if fe_vol_size newVolumeConfig \<noteq> fe_vol_size oldVolumeConfig
                                    then word_of_int (fe_vol_size newVolumeConfig) else 0),
                    mv_Iops = (if fe_iops newVolumeConfig \<noteq> fe_iops oldVolumeConfig
                               then word_of_int (fe_iops newVolumeConfig) else 0),
                    mv_Throughput = (if fe_throughput newVolumeConfig \<noteq> fe_throughput oldVolumeConfig
                                     then word_of_int (fe_throughput newVolumeConfig) else 0)\<rparr>)) (\<lambda>r.
             case r of
               Inl err \<Rightarrow> fail (FromErr err)
             | Inr infraActionId \<Rightarrow>
                 awaitInfra E clusterId infraActionId
                   (Fmt ''Modify %s node volume detail of the cluster[%s] failed''
                      [AModule nodeType, AStr clusterId])))
     else ret ())"

text \<open>Lines 1709-1723.\<close>

definition updateCoordinatorConfigs :: "env \<Rightarrow> resource \<Rightarrow> string \<Rightarrow> (unit, diagnostic list) prog" where
  "updateCoordinatorConfigs E d clusterId =
    (if HasChange coordinator_node_configs d then
       bind (remote (diagApi E) (UpsertClusterConfigReq clusterId CustomConfigTypeFE []
               (coordinator_node_configs (new_cfg d)))) orReturn
     else ret ())"

text \<open>
  Lines 1725-1746. Indexing element 0 of an empty list panics, and so does the type
  assertion on a name that the external-info map does not hold.
\<close>

definition updateDefaultWarehouse :: "env \<Rightarrow> resource \<Rightarrow> string \<Rightarrow> (unit, diagnostic list) prog" where
  "updateDefaultWarehouse E d clusterId =
    (if HasChange default_warehouse d then
       (case default_warehouse (old_cfg d) of
          [] \<Rightarrow> panic
        | oldWh # _ \<Rightarrow>
            (case default_warehouse (new_cfg d) of
               [] \<Rightarrow> panic
             | newWh # _ \<Rightarrow>
                 (case map_of (warehouse_external_info (new_cfg d)) DEFAULT_WAREHOUSE_NAME of
                    None \<Rightarrow> panic
                  | Some whExternalInfo \<Rightarrow>
                      updateWarehouse E clusterId oldWh newWh whExternalInfo)))
     else ret ())"

text \<open>
  Lines 1748-1808: the warehouse diff. \<open>whMapOf\<close> is the map from name to entry that the
  two first loops build (a later entry with the same name replaces an earlier one).
\<close>

fun whMapOf ::
  "warehouse_spec list \<Rightarrow> (string \<rightharpoonup> warehouse_spec) \<Rightarrow> (string \<rightharpoonup> warehouse_spec)" where
  "whMapOf [] m = m"
| "whMapOf (v # vs) m = whMapOf vs (m(name v \<mapsto> v))"

fun updateOrCreateWarehouses ::
  "env \<Rightarrow> string \<Rightarrow> (string \<times> wh_external_info) list \<Rightarrow> (string \<rightharpoonup> warehouse_spec)
    \<Rightarrow> warehouse_spec list \<Rightarrow> (unit, diagnostic list) prog" where
  "updateOrCreateWarehouses E clusterId whExternalInfoMap oldWhMap [] = ret ()"
| "updateOrCreateWarehouses E clusterId whExternalInfoMap oldWhMap (newWh # rest) =
    andThen
      (case oldWhMap (name newWh) of
         Some oldWh \<Rightarrow>
           (case map_of whExternalInfoMap (name newWh) of
              None \<Rightarrow> panic
            | Some whExternalInfo \<Rightarrow> updateWarehouse E clusterId oldWh newWh whExternalInfo)
       | None \<Rightarrow> createWarehouse E clusterId newWh)
      (updateOrCreateWarehouses E clusterId whExternalInfoMap oldWhMap rest)"

fun deleteRemovedWarehouses ::
  "env \<Rightarrow> string \<Rightarrow> (string \<times> wh_external_info) list \<Rightarrow> (string \<rightharpoonup> warehouse_spec)
    \<Rightarrow> warehouse_spec list \<Rightarrow> (unit, diagnostic list) prog" where
  "deleteRemovedWarehouses E clusterId whExternalInfoMap newWhMap [] = ret ()"
| "deleteRemovedWarehouses E clusterId whExternalInfoMap newWhMap (oldWh # rest) =
    andThen
      (case newWhMap (name oldWh) of
         None \<Rightarrow>
           (case map_of whExternalInfoMap (name oldWh) of
              None \<Rightarrow> panic
            | Some whExternalInfo \<Rightarrow> DeleteWarehouse E clusterId (ext_Id whExternalInfo))
       | Some _ \<Rightarrow> ret ())
      (deleteRemovedWarehouses E clusterId whExternalInfoMap newWhMap rest)"

definition updateWarehouses :: "env \<Rightarrow> resource \<Rightarrow> string \<Rightarrow> (unit, diagnostic list) prog" where
  "updateWarehouses E d clusterId =
    (if HasChange warehouse d then
       (let old = warehouse (old_cfg d);
            new = warehouse (new_cfg d);
            whExternalInfoMap = warehouse_external_info (new_cfg d);
            oldWhMap = whMapOf old Map.empty;
            newWhMap = whMapOf new Map.empty
        in andThen (updateOrCreateWarehouses E clusterId whExternalInfoMap oldWhMap new)
                   (deleteRemovedWarehouses E clusterId whExternalInfoMap newWhMap old))
     else ret ())"

text \<open>Lines 1818-1867. \<open>amiField\<close> reads \<^verbatim>\<open>custom_ami.0.os\<close> and \<^verbatim>\<open>custom_ami.0.ami\<close>.\<close>

definition amiField :: "(ami_spec \<Rightarrow> string) \<Rightarrow> config \<Rightarrow> string" where
  "amiField f c = (case custom_ami c of [] \<Rightarrow> [] | a # _ \<Rightarrow> f a)"

fun upgradeWarehouseAMIs ::
  "env \<Rightarrow> string \<Rightarrow> string \<Rightarrow> string \<Rightarrow> (string \<times> cluster_state) list \<Rightarrow> (unit, msg) prog" where
  "upgradeWarehouseAMIs E clusterId nOs nAmi [] = ret ()"
| "upgradeWarehouseAMIs E clusterId nOs nAmi (wh # whs) =
    andThen (upgradeAMI E \<lparr>ua_ClusterId = clusterId, ua_Os = nOs, ua_Ami = nAmi,
                           ua_WarehouseId = fst wh, ua_ModuleType = ClusterModuleTypeWarehouse\<rparr>)
            (upgradeWarehouseAMIs E clusterId nOs nAmi whs)"

definition updateCustomAmi :: "env \<Rightarrow> resource \<Rightarrow> string \<Rightarrow> (unit, diagnostic list) prog" where
  "updateCustomAmi E d clusterId =
    (if HasChange custom_ami d \<and> \<not> is_new d then
       (if length (custom_ami (old_cfg d)) = 0 then
          fail (FromErr (Lit ''custom ami can only be specified when creating cluster''))
        else
          andThen
            (if HasChange (amiField os) d \<and> \<not> is_new d then
               (let oOs = amiField os (old_cfg d); nOs = amiField os (new_cfg d) in
                if length oOs > 0 \<and> oOs \<noteq> nOs
                then fail (FromErr (Lit ''custom ami os can not be changed''))
                else ret ())
             else ret ())
            (if HasChange (amiField ami) d \<and> \<not> is_new d then
               (let nAmi = amiField ami (new_cfg d); nOs = amiField os (new_cfg d) in
                bind (remote (getApi E) (GetReq clusterId)) (\<lambda>r.
                  case r of
                    Inl err \<Rightarrow> fail (FromErr err)
                  | Inr clusterResp \<Rightarrow>
                      if \<not> IsAllRunning clusterResp then
                        fail (FromErr (Lit ''custom ami can only be upgraded when the cluster and all warehouse states are running''))
                      else
                        liftErr FromErr
                          (andThen
                             (upgradeWarehouseAMIs E clusterId nOs nAmi (ci_Warehouses clusterResp))
                             (upgradeAMI E \<lparr>ua_ClusterId = clusterId, ua_Os = nOs, ua_Ami = nAmi,
                                            ua_WarehouseId = [],
                                            ua_ModuleType = ClusterModuleTypeFE\<rparr>))))
             else ret ()))
     else ret ())"

text \<open>
  \<^verbatim>\<open>resourceElasticClusterV2Update\<close> (lines 1416-1870): the field groups in the order
  of the source. \<open>needResume\<close> and \<open>needSuspend\<close> are helpers of another file.
\<close>

definition resourceElasticClusterV2Update :: "env \<Rightarrow> resource \<Rightarrow> (unit, diagnostic list) prog" where
  "resourceElasticClusterV2Update E d =
    andThen (checkImmutableFields immutableFields d)
      (bind Id (\<lambda>clusterId.
         andThen (updateAwaitQuiescence E clusterId)
        (andThen (updateIdleConfig E d clusterId)
        (andThen (if needResume E d then updateClusterState E d else ret ())
        (andThen (updateCertsTagsScripts E d clusterId)
        (andThen (unlockFreeTier E d clusterId)
        (andThen (updateCoordinatorSize E d clusterId)
        (andThen (updateCoordinatorCount E d clusterId)
        (andThen (updateCoordinatorVolume E d clusterId)
        (andThen (updateCoordinatorConfigs E d clusterId)
        (andThen (updateDefaultWarehouse E d clusterId)
        (andThen (updateWarehouses E d clusterId)
        (andThen (if needSuspend E d then updateClusterState E d else ret ())
                 (updateCustomAmi E d clusterId))))))))))))))"



text \<open>
  \<^verbatim>\<open>resourceElasticClusterV2Create\<close> (lines 783-1065). The read-back that ends a
  successful create (\<^verbatim>\<open>resourceElasticClusterV2Read\<close>) is one event whose outcome the
  environment gives.
\<close>

definition coordinatorItem :: "config \<Rightarrow> cluster_item" where
  "coordinatorItem c =
    \<lparr>item_Type = ClusterModuleTypeFE, item_Name = ''FE'',
     item_Num = word_of_int (coordinator_node_count c),
     item_InstanceType = coordinator_node_size c,
     item_DistributionPolicy = [], item_SpecifyAZ = [],
     item_DiskInfo = (case coordinator_node_volume_config c of
         [] \<Rightarrow> \<lparr>Number = 1, PerSize = 150, Iops = 0, Throughput = 0\<rparr>
       | v # _ \<Rightarrow> \<lparr>Number = 1, PerSize = word_of_int (fe_vol_size v),
                   Iops = word_of_int (fe_iops v),
                   Throughput = word_of_int (fe_throughput v)\<rparr>)\<rparr>"

definition defaultWarehouseItem :: "warehouse_spec \<Rightarrow> cluster_item" where
  "defaultWarehouseItem defaultWhMap =
    \<lparr>item_Type = ClusterModuleTypeWarehouse, item_Name = DEFAULT_WAREHOUSE_NAME,
     item_Num = word_of_int (compute_node_count defaultWhMap),
     item_InstanceType = compute_node_size defaultWhMap,
     item_DistributionPolicy = distribution_policy defaultWhMap,
     item_SpecifyAZ = specify_az defaultWhMap,
     item_DiskInfo = (case compute_node_volume_config defaultWhMap of
         [] \<Rightarrow> \<lparr>Number = 2, PerSize = 100, Iops = 0, Throughput = 0\<rparr>
       | v # _ \<Rightarrow> \<lparr>Number = word_of_int (vol_number v), PerSize = word_of_int (vol_size v),
                   Iops = word_of_int (iops v), Throughput = word_of_int (throughput v)\<rparr>)\<rparr>"

text \<open>
  The request of the deploy (lines 790-911). The tags are appended while ranging over
  the map \<^verbatim>\<open>resource_tags\<close> (lines 815-822), so their order is the order of that loop.
\<close>

definition clusterConfOf :: "env \<Rightarrow> config \<Rightarrow> warehouse_spec \<Rightarrow> cluster_conf" where
  "clusterConfOf E c defaultWhMap =
    \<lparr>ClusterName = cluster_name c, Csp = csp c, Region = region c,
     ClusterType = ClusterTypeElasic, Password = default_admin_password c,
     SslConnEnable = True, NetIfaceId = network_id c,
     DeployCredlId = deployment_credential_id c, DataCredId = data_credential_id c,
     RunScriptsParallel = run_scripts_parallel c,
     QueryPort = word_of_int (query_port c),
     RunScriptsTimeout = word_of_int (run_scripts_timeout c),
     Tags = List.map_filter (\<lambda>k. map_option (Pair k) (map_of (resource_tags c) k))
              (rangeKeys E (map fst (resource_tags c))),
     Scripts = init_scripts c,
     CustomAmi = (case custom_ami c of [] \<Rightarrow> None | a # _ \<Rightarrow> Some a),
     ClusterItems = [coordinatorItem c, defaultWarehouseItem defaultWhMap]\<rparr>"

text \<open>Lines 1045-1056: \<^verbatim>\<open>errDiag[0]\<close> panics on diagnostics that are non-nil and empty.\<close>

fun createNormalWarehouses ::
  "env \<Rightarrow> string \<Rightarrow> warehouse_spec list \<Rightarrow> (unit, diagnostic list) prog" where
  "createNormalWarehouses E clusterId [] = ret ()"
| "createNormalWarehouses E clusterId (v # vs) =
    (\<lambda>s. case createWarehouse E clusterId v s of
       (Val _, s') \<Rightarrow> createNormalWarehouses E clusterId vs s'
     | (Err [], s') \<Rightarrow> (Panic, s')
     | (Err (e0 # _), s') \<Rightarrow>
         (Err [\<lparr>Severity = Warning,
                Summary = Fmt ''Create warehouse[%s] failed. %s'' [AStr (name v), AMsg (Summary e0)],
                Detail = Detail e0\<rparr>], s')
     | (Panic, s') \<Rightarrow> (Panic, s'))"

text \<open>Lines 960-1064: what follows a deploy that reached the running state.\<close>

definition createAfterDeploy ::
  "env \<Rightarrow> resource \<Rightarrow> deploy_resp \<Rightarrow> warehouse_spec \<Rightarrow> (unit, diagnostic list) prog" where
  "createAfterDeploy E d resp defaultWhMap =
    (let c = new_cfg d;
         clusterId = dr_ClusterID resp;
         defaultWarehouseId = dr_DefaultWarehouseId resp;
         normalWhMaps = map (\<lambda>whMap. whMap\<lparr>name := TrimSpace (name whMap)\<rparr>) (warehouse c)
     in
       andThen (if length (coordinator_node_configs c) > 0 then
                  bind (remote (diagApi E) (UpsertClusterConfigReq clusterId CustomConfigTypeFE []
                          (coordinator_node_configs c))) orReturn
                else ret ())
      (andThen (if length (compute_node_configs defaultWhMap) > 0 then
                  bind (remote (diagApi E) (UpsertClusterConfigReq clusterId CustomConfigTypeBE
                          defaultWarehouseId (compute_node_configs defaultWhMap))) orReturn
                else ret ())
      (andThen (if length (ldap_ssl_certs c) > 0 then
                  bind Id (\<lambda>i. bind (remote (diagApi E)
                          (UpsertClusterLdapSslCertCall i (ldap_ssl_certs c) False)) orReturn)
                else ret ())
      (andThen (if length (ranger_certs_dir c) > 0 then
                  bind Id (\<lambda>i. bind (remote (diagApi E)
                          (UpsertClusterRangerCertCall i (ranger_certs_dir c) False)) orReturn)
                else ret ())
      (andThen (if idle_suspend_interval c > 0 then
                  bind (remote (diagApi E) (UpdateClusterIdleConfigCall clusterId
                          (word_of_int (idle_suspend_interval c * 60 * 1000)) True)) orReturn
                else ret ())
      (andThen (liftErr (\<lambda>err.
                    [\<lparr>Severity = Warning,
                      Summary = Fmt ''Config warehouse[%s] auto-scaling configuration failed''
                                  [AStr DEFAULT_WAREHOUSE_NAME],
                      Detail = Fmt ''Add warehouse auto-scaling configuration failed, errMsg:%s''
                                  [AMsg err]\<rparr>])
                  (setWarehouseAutoScalingPolicy E clusterId defaultWarehouseId
                     (auto_scaling_policy defaultWhMap)))
      (andThen (createNormalWarehouses E clusterId normalWhMaps)
      (andThen (if expected_cluster_state c = ClusterStateSuspended then
                  bind Id (\<lambda>i. bind (remote (diagApi E)
                          (UpdateClusterStateCall i ClusterStateRunning ClusterStateSuspended))
                     orReturn)
                else ret ())
               (bind Id (\<lambda>i. bind (remote (diagApi E) (ReadCall i)) orReturn))))))))))"

definition deployWait :: "deploy_resp \<Rightarrow> call" where
  "deployWait resp = WaitClusterStateChangeComplete
     \<lparr>clusterID = dr_ClusterID resp, actionID = dr_ActionID resp,
      timeout = DeployOrScaleClusterTimeout,
      pendingStates = transientStates,
      targetStates = [ClusterStateRunning, ClusterStateAbnormal]\<rparr>"

definition resourceElasticClusterV2Create :: "env \<Rightarrow> resource \<Rightarrow> (unit, diagnostic list) prog" where
  "resourceElasticClusterV2Create E d =
    (let c = new_cfg d in
     bind (remote (networkApi E) (GetNetworkCall (network_id c))) (\<lambda>n.
       case n of
         Inl err \<Rightarrow> fail (FromErr err)
       | Inr netResp \<Rightarrow>
           if MultiAz netResp \<and> coordinator_node_count c < 3 then fail (FromErr multiAzError)
           else
             (case default_warehouse c of
                [] \<Rightarrow> panic
              | dw # _ \<Rightarrow>
                  (let defaultWhMap = dw\<lparr>name := DEFAULT_WAREHOUSE_NAME\<rparr> in
                   bind (remote (deployApi E) (DeployReq (clusterConfOf E c defaultWhMap))) (\<lambda>r.
                     case r of
                       Inl err \<Rightarrow> fail (FromErr err)
                     | Inr resp \<Rightarrow>
                         andThen (SetId (dr_ClusterID resp))
                           (bind (remote (waitApi E) (deployWait resp)) (\<lambda>w.
                              case w of
                                Inl err \<Rightarrow>
                                  bind Id (\<lambda>i.
                                    fail [\<lparr>Severity = Warning,
                                           Summary = Lit ''Operation state not complete'',
                                           Detail = Fmt ''waiting for cluster (%s) change complete failed errMsg: %s''
                                                      [AStr i, AMsg err]\<rparr>])
                              | Inr stateResp \<Rightarrow>
                                  if ClusterState stateResp = ClusterStateAbnormal then
                                    andThen (SetId [])
                                      (fail (FromErr (Lit (AbnormalReason stateResp))))
                                  else createAfterDeploy E d resp defaultWhMap)))))))"

section \<open>Traces and example values\<close>

text \<open>
  \<open>emits P m\<close>: whatever the state, a run of \<open>m\<close> only appends events to the trace, and
  every event it appends satisfies \<open>P\<close>. \<open>keepsId m\<close>: a run of \<open>m\<close> leaves the resource
  id as it is.
\<close>

definition emits :: "(call \<Rightarrow> bool) \<Rightarrow> ('a, 'e) prog \<Rightarrow> bool" where
  "emits P m = (\<forall>s. \<exists>t. trace (snd (m s)) = trace s @ t \<and> list_all P t)"

definition keepsId :: "('a, 'e) prog \<Rightarrow> bool" where
  "keepsId m = (\<forall>s. rid (snd (m s)) = rid s)"

text \<open>The events a run appended: the trace after it, without the trace before it.\<close>

definition issued :: "st \<Rightarrow> st \<Rightarrow> call list" where
  "issued s s' = drop (length (trace s)) (trace s')"

text \<open>A configuration, an environment in which every call succeeds, and a start state.\<close>

definition wh0 :: warehouse_spec where
  "wh0 = \<lparr>name = ''default_warehouse'', compute_node_size = ''m6i.xlarge'',
          compute_node_count = 3, distribution_policy = ''crossing_az'', specify_az = [],
          compute_node_volume_config = [], wh_idle_suspend_interval = 0,
          auto_scaling_policy = [], expected_state = ClusterStateRunning,
          compute_node_configs = []\<rparr>"

definition wh1 :: warehouse_spec where
  "wh1 = wh0\<lparr>name := ''wh1'', compute_node_count := 1\<rparr>"

definition cfg0 :: config where
  "cfg0 = \<lparr>csp = ''aws'', region = ''us-west-2'', cluster_name = ''c'',
           coordinator_node_size = ''m6i.large'', coordinator_node_count = 1,
           coordinator_node_volume_config = [], custom_ami = [],
           default_warehouse = [wh0], warehouse = [],
           warehouse_external_info =
             [(''default_warehouse'',
               \<lparr>ext_Id = ''w0'', ext_IsInstanceStore = False, ext_IsDefaultWarehouse = True\<rparr>),
              (''wh1'',
               \<lparr>ext_Id = ''w1'', ext_IsInstanceStore = False, ext_IsDefaultWarehouse = False\<rparr>)],
           resource_tags = [], default_admin_password = ''p'',
           data_credential_id = ''dc'', deployment_credential_id = ''pc'',
           network_id = ''n1'', expected_cluster_state = ClusterStateRunning,
           free_tier = False, init_scripts = [], run_scripts_parallel = False,
           query_port = 9030, idle_suspend_interval = 0, ldap_ssl_certs = [],
           run_scripts_timeout = 3600, coordinator_node_configs = [],
           ranger_certs_dir = []\<rparr>"

definition env0 :: env where
  "env0 = \<lparr>vmInfoApi = (\<lambda>h c. Inr (Some \<lparr>vm_Arch = ''x86'', vm_IsInstanceStore = False,
                                         vm_VmVolumeInfos = [''gp3'']\<rparr>)),
           networkApi = (\<lambda>h c. Inr \<lparr>MultiAz = False\<rparr>),
           errApi = (\<lambda>h c. None),
           actionApi = (\<lambda>h c. Inr ''a1''),
           diagApi = (\<lambda>h c. None),
           deployApi = (\<lambda>h c. Inr \<lparr>dr_ActionID = ''a0'', dr_ClusterID = ''c1'',
                                    dr_DefaultWarehouseId = ''w0''\<rparr>),
           waitApi = (\<lambda>h c. Inr \<lparr>ClusterState = ClusterStateRunning, AbnormalReason = []\<rparr>),
           waitInfraApi = (\<lambda>h c. Inr \<lparr>InfraActionState = ClusterInfraActionStateSucceeded,
                                       ErrMsg = []\<rparr>),
           createWarehouseApi = (\<lambda>h c. Inr \<lparr>cwr_WarehouseId = ''w2'', cwr_ActionID = ''a2''\<rparr>),
           getApi = (\<lambda>h c. Inr \<lparr>ci_ClusterState = ClusterStateRunning, ci_Warehouses = []\<rparr>),
           needResume = (\<lambda>d. False),
           needSuspend = (\<lambda>d. False),
           mapRange = (\<lambda>ks. ks),
           DefaultFeVolumeMap = \<lparr>fe_vol_size = 150, fe_iops = 0, fe_throughput = 0\<rparr>,
           DefaultBeVolumeMap = \<lparr>vol_number = 2, vol_size = 100, iops = 0, throughput = 0\<rparr>,
           DistributionPolicySpecifyAZ = ''specify_az''\<rparr>"


definition s0 :: st where
  "s0 = \<lparr>trace = [], rid = ''c1''\<rparr>"


text \<open>
  \<open>errs Q m\<close>: every error a run of \<open>m\<close> returns satisfies \<open>Q\<close>.
  \<open>neverOk m\<close>: no run of \<open>m\<close> returns normally.
\<close>

definition errs :: "('e \<Rightarrow> bool) \<Rightarrow> ('a, 'e) prog \<Rightarrow> bool" where
  "errs Q m = (\<forall>s e. fst (m s) = Err e \<longrightarrow> Q e)"

definition neverOk :: "('a, 'e) prog \<Rightarrow> bool" where
  "neverOk m = (\<forall>s x. fst (m s) \<noteq> Val x)"

text \<open>The configuration before a create, a network in multi-AZ mode, and two resources.\<close>

definition cfgZero :: config where
  "cfgZero = \<lparr>csp = [], region = [], cluster_name = [],
           coordinator_node_size = [], coordinator_node_count = 0,
           coordinator_node_volume_config = [], custom_ami = [],
           default_warehouse = [], warehouse = [],
           warehouse_external_info = [],
           resource_tags = [], default_admin_password = [],
           data_credential_id = [], deployment_credential_id = [],
           network_id = [], expected_cluster_state = ClusterStateRunning,
           free_tier = False, init_scripts = [], run_scripts_parallel = False,
           query_port = 0, idle_suspend_interval = 0, ldap_ssl_certs = [],
           run_scripts_timeout = 0, coordinator_node_configs = [],
           ranger_certs_dir = []\<rparr>"

definition envMultiAz :: env where
  "envMultiAz = env0\<lparr>networkApi := (\<lambda>h c. Inr \<lparr>MultiAz = True\<rparr>)\<rparr>"

definition dCreate :: resource where
  "dCreate = \<lparr>old_cfg = cfgZero, new_cfg = cfg0, is_new = True\<rparr>"

definition sNew :: st where
  "sNew = \<lparr>trace = [], rid = []\<rparr>"

text \<open>More example values: an environment whose instance types all use local disks, an update
  that changes the size of the warehouse \<open>wh1\<close>, and a create with two names that
  differ by a leading space.\<close>

definition envLocalDisk :: env where
  "envLocalDisk = env0\<lparr>vmInfoApi := (\<lambda>h c. Inr (Some \<lparr>vm_Arch = ''x86'',
      vm_IsInstanceStore = True, vm_VmVolumeInfos = []\<rparr>))\<rparr>"

definition cfg1 :: config where
  "cfg1 = cfg0\<lparr>warehouse := [wh1]\<rparr>"

definition dResize :: resource where
  "dResize = \<lparr>old_cfg = cfg1,
               new_cfg = cfg1\<lparr>warehouse := [wh1\<lparr>compute_node_size := ''i3.xlarge''\<rparr>]\<rparr>,
               is_new = False\<rparr>"




text \<open>The volume modification and the custom-config upsert.\<close>

fun volumeOrConfigCall :: "call \<Rightarrow> bool" where
  "volumeOrConfigCall (ModifyClusterVolumeReq _) = True"
| "volumeOrConfigCall (UpsertClusterConfigReq _ _ _ _) = True"
| "volumeOrConfigCall _ = False"

text \<open>
  The coordinator volume configuration that the code compares: the first element of the
  list, or \<^verbatim>\<open>cluster.DefaultFeVolumeMap()\<close> when the list is empty (lines 581-589).
\<close>

definition feVolumeOf :: "env \<Rightarrow> config \<Rightarrow> fe_volume_config" where
  "feVolumeOf E c = (case coordinator_node_volume_config c of
                       [] \<Rightarrow> DefaultFeVolumeMap E | v # _ \<Rightarrow> v)"

text \<open>Example warehouses with a volume block, and an update that shrinks the coordinator volume.\<close>

definition whVol :: "int \<Rightarrow> int \<Rightarrow> warehouse_spec" where
  "whVol n sz = wh1\<lparr>compute_node_volume_config :=
                     [\<lparr>vol_number = n, vol_size = sz, iops = 0, throughput = 0\<rparr>]\<rparr>"

definition info1 :: wh_external_info where
  "info1 = \<lparr>ext_Id = ''w1'', ext_IsInstanceStore = False, ext_IsDefaultWarehouse = False\<rparr>"

definition dShrink :: resource where
  "dShrink = \<lparr>old_cfg = cfg0\<lparr>coordinator_node_volume_config :=
                           [\<lparr>fe_vol_size = 200, fe_iops = 0, fe_throughput = 0\<rparr>]\<rparr>,
               new_cfg = cfg0\<lparr>coordinator_node_volume_config :=
                           [\<lparr>fe_vol_size = 100, fe_iops = 5000, fe_throughput = 0\<rparr>]\<rparr>,
               is_new = False\<rparr>"



text \<open>
  The steps of \<^verbatim>\<open>updateWarehouse\<close> that follow the two scalings (lines 2224-2426): the
  volume block, the idle configuration, resume, the configuration upsert, suspend and the
  auto-scaling policy.
\<close>

definition afterScale ::
  "env \<Rightarrow> string \<Rightarrow> warehouse_spec \<Rightarrow> warehouse_spec \<Rightarrow> wh_external_info
    \<Rightarrow> (unit, diagnostic list) prog" where
  "afterScale E cid old new info =
     andThen (modifyWarehouseVolume E cid (ext_Id info) (ext_IsInstanceStore info) old new)
    (andThen (updateWarehouseIdle E (ext_Id info) (ext_IsDefaultWarehouse info) old new)
    (andThen (if \<not> ext_IsDefaultWarehouse info \<and> expected_state old \<noteq> expected_state new
                 \<and> expected_state new = ClusterStateRunning
              then ResumeWarehouse E cid (ext_Id info) (name new) else ret ())
    (andThen (if compute_node_configs old \<noteq> compute_node_configs new then
                bind (remote (diagApi E) (UpsertClusterConfigReq cid CustomConfigTypeBE
                        (ext_Id info) (compute_node_configs new))) orReturn
              else ret ())
    (andThen (if \<not> ext_IsDefaultWarehouse info \<and> expected_state old \<noteq> expected_state new
                 \<and> expected_state new = ClusterStateSuspended
              then SuspendWarehouse E cid (ext_Id info) (name new) else ret ())
             (updateWarehouseAutoScaling E cid (ext_Id info) old new)))))"


text \<open>The cluster-level idle configuration call \<^verbatim>\<open>UpdateClusterIdleConfig\<close>.\<close>

fun idleConfigCall :: "call \<Rightarrow> bool" where
  "idleConfigCall (UpdateClusterIdleConfigCall _ _ _) = True"
| "idleConfigCall _ = False"

text \<open>
  The field groups of \<^verbatim>\<open>resourceElasticClusterV2Update\<close> that follow the idle
  configuration (lines 1478-1869).
\<close>

definition updateAfterIdle :: "env \<Rightarrow> resource \<Rightarrow> string \<Rightarrow> (unit, diagnostic list) prog" where
  "updateAfterIdle E d clusterId =
     andThen (if needResume E d then updateClusterState E d else ret ())
    (andThen (updateCertsTagsScripts E d clusterId)
    (andThen (unlockFreeTier E d clusterId)
    (andThen (updateCoordinatorSize E d clusterId)
    (andThen (updateCoordinatorCount E d clusterId)
    (andThen (updateCoordinatorVolume E d clusterId)
    (andThen (updateCoordinatorConfigs E d clusterId)
    (andThen (updateDefaultWarehouse E d clusterId)
    (andThen (updateWarehouses E d clusterId)
    (andThen (if needSuspend E d then updateClusterState E d else ret ())
             (updateCustomAmi E d clusterId))))))))))"

text \<open>An update of \<^verbatim>\<open>idle_suspend_interval\<close> alone, from \<open>v\<close> to \<open>n\<close>.\<close>

definition dIdle :: "int \<Rightarrow> int \<Rightarrow> resource" where
  "dIdle v n = \<lparr>old_cfg = cfg0\<lparr>idle_suspend_interval := v\<rparr>,
                new_cfg = cfg0\<lparr>idle_suspend_interval := n\<rparr>, is_new = False\<rparr>"

text \<open>
  An update that sets \<^verbatim>\<open>specify_az\<close> on the default warehouse while its distribution
  policy stays \<^verbatim>\<open>crossing_az\<close>; the network of \<open>env0\<close> is not multi-AZ.
\<close>

definition dSpecAz :: resource where
  "dSpecAz = \<lparr>old_cfg = cfg0,
               new_cfg = cfg0\<lparr>default_warehouse := [wh0\<lparr>specify_az := ''us-west-2a''\<rparr>]\<rparr>,
               is_new = False\<rparr>"



text \<open>
  A warehouse whose name carries a leading blank, as \<^verbatim>\<open>createWarehouse\<close> sends it for
  a warehouse added by an update (line 1786; the create path trims the name, line 879), with
  its persisted record under that name (the key the update itself reads, line 1770), and an
  update that moves it to an instance type with local disks.
\<close>

definition whPad :: warehouse_spec where
  "whPad = wh1\<lparr>name := '' wh1''\<rparr>"

definition cfgPad :: config where
  "cfgPad = cfg0\<lparr>warehouse := [whPad],
                  warehouse_external_info :=
                    [(''default_warehouse'',
                      \<lparr>ext_Id = ''w0'', ext_IsInstanceStore = False, ext_IsDefaultWarehouse = True\<rparr>),
                     ('' wh1'',
                      \<lparr>ext_Id = ''w1'', ext_IsInstanceStore = False, ext_IsDefaultWarehouse = False\<rparr>)]\<rparr>"

definition dPad :: resource where
  "dPad = \<lparr>old_cfg = cfgPad,
            new_cfg = cfgPad\<lparr>warehouse := [whPad\<lparr>compute_node_size := ''i3.xlarge''\<rparr>]\<rparr>,
            is_new = False\<rparr>"








section \<open>Properties of the runs\<close>

lemma ret_apply: "ret x s = (Val x, s)"
  by (simp add: ret_def)

lemma fail_apply: "fail e s = (Err e, s)"
  by (simp add: fail_def)


lemma andThen_apply:
  "andThen m n s = (case m s of
      (Val x, s') \<Rightarrow> n s' | (Err e, s') \<Rightarrow> (Err e, s') | (Panic, s') \<Rightarrow> (Panic, s'))"
  by (simp add: andThen_def bind_def)

subsection \<open>Immutable fields\<close>

lemma checkImmutableFields_pass:
  "\<forall>(f, changed) \<in> set fs. \<not> (changed d \<and> \<not> is_new d) \<Longrightarrow>
   checkImmutableFields fs d s = (Val (), s)"
  by (induction fs) (auto simp: ret_apply)

lemma checkImmutableFields_reject:
  "\<exists>(f, changed) \<in> set fs. changed d \<and> \<not> is_new d \<Longrightarrow>
   \<exists>f \<in> fst ` set fs. checkImmutableFields fs d s =
     (Err (FromErr (Fmt ''the `%s` field is not allowed to be modified'' [AStr f])), s)"
proof (induction fs)
  case Nil
  then show ?case by simp
next
  case (Cons a fs)
  obtain f changed where a: "a = (f, changed)" by (cases a)
  show ?case
  proof (cases "changed d \<and> \<not> is_new d")
    case True
    then show ?thesis using a by (simp add: fail_apply)
  next
    case False
    with Cons.prems a have "\<exists>(f, changed) \<in> set fs. changed d \<and> \<not> is_new d" by auto
    from Cons.IH[OF this] obtain g where "g \<in> fst ` set fs"
      "checkImmutableFields fs d s =
        (Err (FromErr (Fmt ''the `%s` field is not allowed to be modified'' [AStr g])), s)"
      by blast
    then show ?thesis using a False by auto
  qed
qed

text \<open>
  Claim C10. On an update of an existing cluster (\<^verbatim>\<open>IsNewResource()\<close> false), a change
  of csp, region, cluster_name, default_admin_password, data_credential_id,
  deployment_credential_id, network_id or query_port makes
  \<^verbatim>\<open>resourceElasticClusterV2Update\<close> return the error "the `f` field is not allowed to
  be modified" for one of these eight names, in the state it started from: no wait and no
  remote call has been recorded, and the resource id is as before.
\<close>

theorem immutable_fields_rejected:
  assumes "\<not> is_new d"
    and "csp (old_cfg d) \<noteq> csp (new_cfg d)
       \<or> region (old_cfg d) \<noteq> region (new_cfg d)
       \<or> cluster_name (old_cfg d) \<noteq> cluster_name (new_cfg d)
       \<or> default_admin_password (old_cfg d) \<noteq> default_admin_password (new_cfg d)
       \<or> data_credential_id (old_cfg d) \<noteq> data_credential_id (new_cfg d)
       \<or> deployment_credential_id (old_cfg d) \<noteq> deployment_credential_id (new_cfg d)
       \<or> network_id (old_cfg d) \<noteq> network_id (new_cfg d)
       \<or> query_port (old_cfg d) \<noteq> query_port (new_cfg d)"
  shows "\<exists>f \<in> set [''csp'', ''region'', ''cluster_name'', ''default_admin_password'',
                    ''data_credential_id'', ''deployment_credential_id'', ''network_id'',
                    ''query_port''].
           resourceElasticClusterV2Update E d s =
             (Err (FromErr (Fmt ''the `%s` field is not allowed to be modified'' [AStr f])), s)"
proof -
  have "\<exists>(f, changed) \<in> set immutableFields. changed d \<and> \<not> is_new d"
    using assms by (auto simp: immutableFields_def HasChange_def)
  from checkImmutableFields_reject[OF this, of s] obtain f where
    f: "f \<in> fst ` set immutableFields" and
    r: "checkImmutableFields immutableFields d s =
        (Err (FromErr (Fmt ''the `%s` field is not allowed to be modified'' [AStr f])), s)"
    by blast
  have "resourceElasticClusterV2Update E d s =
        (Err (FromErr (Fmt ''the `%s` field is not allowed to be modified'' [AStr f])), s)"
    unfolding resourceElasticClusterV2Update_def by (simp add: andThen_apply r)
  moreover have "f \<in> set [''csp'', ''region'', ''cluster_name'', ''default_admin_password'',
                    ''data_credential_id'', ''deployment_credential_id'', ''network_id'',
                    ''query_port'']"
    using f by (simp add: immutableFields_def)
  ultimately show ?thesis by blast
qed

theorem immutable_fields_rejected_witness:
  "\<not> is_new \<lparr>old_cfg = cfg0, new_cfg = cfg0\<lparr>query_port := 9031\<rparr>, is_new = False\<rparr>
   \<and> query_port cfg0 \<noteq> query_port (cfg0\<lparr>query_port := 9031\<rparr>)
   \<and> (\<exists>f \<in> set [''csp'', ''region'', ''cluster_name'', ''default_admin_password'',
                    ''data_credential_id'', ''deployment_credential_id'', ''network_id'',
                    ''query_port''].
           resourceElasticClusterV2Update env0
              \<lparr>old_cfg = cfg0, new_cfg = cfg0\<lparr>query_port := 9031\<rparr>, is_new = False\<rparr> s0 =
             (Err (FromErr (Fmt ''the `%s` field is not allowed to be modified'' [AStr f])), s0))"
proof -
  have a: "\<not> is_new \<lparr>old_cfg = cfg0, new_cfg = cfg0\<lparr>query_port := 9031\<rparr>, is_new = False\<rparr>"
    by simp
  have b: "query_port cfg0 \<noteq> query_port (cfg0\<lparr>query_port := 9031\<rparr>)"
    by (simp add: cfg0_def)
  show ?thesis
    using a b immutable_fields_rejected
      [of "\<lparr>old_cfg = cfg0, new_cfg = cfg0\<lparr>query_port := 9031\<rparr>, is_new = False\<rparr>" env0 s0]
    by simp
qed

subsection \<open>Rules for traces, ids and errors\<close>

named_theorems emits_intros
named_theorems keeps_intros
named_theorems errs_intros

lemma bind_cases:
  "bind m f s = (case fst (m s) of
      Val x \<Rightarrow> f x (snd (m s))
    | Err e \<Rightarrow> (Err e, snd (m s))
    | Panic \<Rightarrow> (Panic, snd (m s)))"
  by (simp add: bind_def split: prod.split res.split)

lemma snd_liftErr: "snd (liftErr g m s) = snd (m s)"
  by (simp add: liftErr_def split: prod.split res.split)

lemma emits_ret [emits_intros]: "emits P (ret x)"
  by (simp add: emits_def ret_def)
lemma emits_fail [emits_intros]: "emits P (fail e)"
  by (simp add: emits_def fail_def)
lemma emits_panic [emits_intros]: "emits P panic"
  by (simp add: emits_def panic_def)
lemma emits_Id [emits_intros]: "emits P Id"
  by (simp add: emits_def Id_def)
lemma emits_SetId [emits_intros]: "emits P (SetId i)"
  by (simp add: emits_def SetId_def)
lemma emits_orReturn [emits_intros]: "emits P (orReturn r)"
  by (cases r) (simp_all add: orReturn_def emits_ret emits_fail)
lemma emits_remote [emits_intros]: "P c \<Longrightarrow> emits P (remote f c)"
  by (simp add: emits_def remote_def)

lemma emits_bind [emits_intros]:
  assumes "emits P m" and "\<And>x. emits P (f x)"
  shows "emits P (bind m f)"
  unfolding emits_def
proof
  fix s
  from assms(1) obtain t1 where t1: "trace (snd (m s)) = trace s @ t1" "list_all P t1"
    unfolding emits_def by blast
  show "\<exists>t. trace (snd (bind m f s)) = trace s @ t \<and> list_all P t"
  proof (cases "fst (m s)")
    case (Val x)
    from assms(2)[of x] obtain t2 where
      t2: "trace (snd (f x (snd (m s)))) = trace (snd (m s)) @ t2" "list_all P t2"
      unfolding emits_def by blast
    have "bind m f s = f x (snd (m s))" using Val by (simp add: bind_cases)
    then show ?thesis using t1 t2 by (intro exI[of _ "t1 @ t2"]) simp
  next
    case (Err e)
    then have "snd (bind m f s) = snd (m s)" by (simp add: bind_cases)
    then show ?thesis using t1 by auto
  next
    case Panic
    then have "snd (bind m f s) = snd (m s)" by (simp add: bind_cases)
    then show ?thesis using t1 by auto
  qed
qed

lemma emits_andThen [emits_intros]: "emits P m \<Longrightarrow> emits P n \<Longrightarrow> emits P (andThen m n)"
  by (simp add: andThen_def emits_bind)

lemma emits_liftErr [emits_intros]: "emits P m \<Longrightarrow> emits P (liftErr g m)"
  by (simp add: emits_def snd_liftErr)

lemma list_all_mono: "list_all Q t \<Longrightarrow> (\<And>c. Q c \<Longrightarrow> P c) \<Longrightarrow> list_all P t"
  by (induction t) auto

lemma emits_mono:
  assumes "emits Q m" and "\<And>c. Q c \<Longrightarrow> P c"
  shows "emits P m"
  unfolding emits_def
proof
  fix s
  from assms(1) obtain t where t: "trace (snd (m s)) = trace s @ t" "list_all Q t"
    unfolding emits_def by blast
  have "list_all P t"
    using t(2) by (rule list_all_mono) (rule assms(2))
  with t show "\<exists>t. trace (snd (m s)) = trace s @ t \<and> list_all P t"
    by blast
qed

lemma keepsId_ret [keeps_intros]: "keepsId (ret x)"
  by (simp add: keepsId_def ret_def)
lemma keepsId_fail [keeps_intros]: "keepsId (fail e)"
  by (simp add: keepsId_def fail_def)
lemma keepsId_panic [keeps_intros]: "keepsId panic"
  by (simp add: keepsId_def panic_def)
lemma keepsId_Id [keeps_intros]: "keepsId Id"
  by (simp add: keepsId_def Id_def)
lemma keepsId_remote [keeps_intros]: "keepsId (remote f c)"
  by (simp add: keepsId_def remote_def)

lemma errs_ret [errs_intros]: "errs Q (ret x)"
  by (simp add: errs_def ret_def)
lemma errs_fail [errs_intros]: "Q e \<Longrightarrow> errs Q (fail e)"
  by (simp add: errs_def fail_def)
lemma errs_panic [errs_intros]: "errs Q panic"
  by (simp add: errs_def panic_def)
lemma errs_Id [errs_intros]: "errs Q Id"
  by (simp add: errs_def Id_def)
lemma errs_remote [errs_intros]: "errs Q (remote f c)"
  by (simp add: errs_def remote_def)
lemma errs_bind [errs_intros]:
  "errs Q m \<Longrightarrow> (\<And>x. errs Q (f x)) \<Longrightarrow> errs Q (bind m f)"
  unfolding errs_def by (simp add: bind_cases split: res.split)
lemma errs_andThen [errs_intros]: "errs Q m \<Longrightarrow> errs Q n \<Longrightarrow> errs Q (andThen m n)"
  by (simp add: andThen_def errs_bind)















subsection \<open>The events of the warehouse operations\<close>

lemma emits_setWarehouseAutoScalingPolicy:
  assumes "\<And>a b c d. P (SaveWarehouseAutoScalingConfigReq a b c d)"
  shows "emits P (setWarehouseAutoScalingPolicy E cid wid pj)"
  unfolding setWarehouseAutoScalingPolicy_def
  by (auto intro!: emits_intros assms split: option.split)

lemma emits_createWarehouseSuspend:
  assumes "\<And>a. P (SuspendWarehouseReq a)" "\<And>r. P (WaitClusterStateChangeComplete r)"
  shows "emits P (createWarehouseSuspend E cid wid n)"
  unfolding createWarehouseSuspend_def Let_def
  by (auto intro!: emits_intros assms split: sum.split)

lemma emits_createWarehouse:
  assumes "P (CreateWarehouseReq (createWarehouseRequest cid w))"
    "\<And>r. P (WaitClusterStateChangeComplete r)"
    "\<And>a b c d. P (SaveWarehouseAutoScalingConfigReq a b c d)"
    "\<And>a b c d. P (UpsertClusterConfigReq a b c d)"
    "\<And>a. P (SuspendWarehouseReq a)"
    "\<And>a b c. P (UpdateWarehouseIdleConfigReq a b c)"
  shows "emits P (createWarehouse E cid w)"
  unfolding createWarehouse_def Let_def
  by (auto intro!: emits_intros emits_setWarehouseAutoScalingPolicy emits_createWarehouseSuspend
        assms split: sum.split option.split)

lemma emits_DeleteWarehouse:
  assumes "P (ReleaseWarehouseReq wid)" "\<And>r. P (WaitClusterStateChangeComplete r)"
  shows "emits P (DeleteWarehouse E cid wid)"
  unfolding DeleteWarehouse_def
  by (auto intro!: emits_intros assms split: sum.split)

lemma emits_SuspendWarehouse:
  assumes "\<And>a. P (SuspendWarehouseReq a)" "\<And>r. P (WaitClusterStateChangeComplete r)"
  shows "emits P (SuspendWarehouse E cid wid n)"
  unfolding SuspendWarehouse_def
  by (auto intro!: emits_intros assms split: sum.split)

lemma emits_ResumeWarehouse:
  assumes "\<And>a. P (ResumeWarehouseReq a)" "\<And>r. P (WaitClusterStateChangeComplete r)"
  shows "emits P (ResumeWarehouse E cid wid n)"
  unfolding ResumeWarehouse_def
  by (auto intro!: emits_intros assms split: sum.split)

lemma emits_changeWarehouseDistribution:
  assumes "\<And>a b c. P (ChangeWarehouseDistributionReq a b c)"
    "\<And>r. P (WaitClusterInfraActionStateChangeComplete r)"
  shows "emits P (changeWarehouseDistribution E cid wid old new)"
  unfolding changeWarehouseDistribution_def Let_def
  by (auto intro!: emits_intros assms split: sum.split)

lemma emits_awaitScale:
  assumes "\<And>r. P (WaitClusterStateChangeComplete r)"
  shows "emits P (awaitScale E cid a)"
  unfolding awaitScale_def scaleWait_def
  by (auto intro!: emits_intros assms split: sum.split)

lemma emits_scaleWarehouseSize:
  assumes "\<And>a b. P (ScaleWarehouseSizeReq a b)" "\<And>r. P (WaitClusterStateChangeComplete r)"
  shows "emits P (scaleWarehouseSize E cid wid old new)"
  unfolding scaleWarehouseSize_def Let_def
  by (auto intro!: emits_intros emits_awaitScale assms split: sum.split)

lemma emits_scaleWarehouseNum:
  assumes "\<And>a b. P (ScaleWarehouseNumReq a b)" "\<And>r. P (WaitClusterStateChangeComplete r)"
  shows "emits P (scaleWarehouseNum E cid wid old new)"
  unfolding scaleWarehouseNum_def Let_def
  by (auto intro!: emits_intros emits_awaitScale assms split: sum.split)

lemma emits_awaitInfra:
  assumes "\<And>r. P (WaitClusterInfraActionStateChangeComplete r)"
  shows "emits P (awaitInfra E cid a sm)"
  unfolding awaitInfra_def
  by (auto intro!: emits_intros assms split: sum.split)

lemma emits_modifyWarehouseVolume:
  assumes "\<And>r. P (ModifyClusterVolumeReq r)"
    "\<And>r. P (WaitClusterInfraActionStateChangeComplete r)"
  shows "emits P (modifyWarehouseVolume E cid wid b old new)"
  unfolding modifyWarehouseVolume_def Let_def
  by (auto intro!: emits_intros emits_awaitInfra assms split: sum.split)

lemma emits_updateWarehouseIdle:
  assumes "\<And>a b c. P (UpdateWarehouseIdleConfigReq a b c)"
  shows "emits P (updateWarehouseIdle E wid b old new)"
  unfolding updateWarehouseIdle_def Let_def
  by (auto intro!: emits_intros assms split: option.split)

lemma emits_updateWarehouseAutoScaling:
  assumes "\<And>a b c d. P (SaveWarehouseAutoScalingConfigReq a b c d)"
    "\<And>a. P (DeleteWarehouseAutoScalingConfigReq a)"
  shows "emits P (updateWarehouseAutoScaling E cid wid old new)"
  unfolding updateWarehouseAutoScaling_def Let_def
  by (auto intro!: emits_intros assms split: option.split)

lemma emits_updateWarehouse:
  assumes "\<And>a b c. P (ChangeWarehouseDistributionReq a b c)"
    "\<And>r. P (WaitClusterInfraActionStateChangeComplete r)"
    "\<And>a b. P (ScaleWarehouseSizeReq a b)"
    "\<And>a b. P (ScaleWarehouseNumReq a b)"
    "\<And>r. P (WaitClusterStateChangeComplete r)"
    "\<And>r. P (ModifyClusterVolumeReq r)"
    "\<And>a b c. P (UpdateWarehouseIdleConfigReq a b c)"
    "\<And>a. P (ResumeWarehouseReq a)"
    "\<And>a b c d. P (UpsertClusterConfigReq a b c d)"
    "\<And>a. P (SuspendWarehouseReq a)"
    "\<And>a b c d. P (SaveWarehouseAutoScalingConfigReq a b c d)"
    "\<And>a. P (DeleteWarehouseAutoScalingConfigReq a)"
  shows "emits P (updateWarehouse E cid old new info)"
  unfolding updateWarehouse_def Let_def
  by (intro emits_intros emits_changeWarehouseDistribution emits_scaleWarehouseSize
        emits_scaleWarehouseNum emits_modifyWarehouseVolume emits_updateWarehouseIdle
        emits_updateWarehouseAutoScaling)
     (auto intro!: emits_intros emits_ResumeWarehouse emits_SuspendWarehouse assms)

subsection \<open>The validator: calls, id and errors\<close>















lemma queryVmInfo_found:
  "\<forall>h. vmInfoApi E h (GetVmInfoReq c r pt v) = Inr (Some vm) \<Longrightarrow>
   queryVmInfo E c r pt v s = (Val vm, s\<lparr>trace := trace s @ [GetVmInfoReq c r pt v]\<rparr>)"
  by (simp add: queryVmInfo_def bind_def remote_def ret_def)

lemma checkNetwork_found:
  "network_id (new_cfg d) \<noteq> [] \<Longrightarrow>
   \<forall>h. networkApi E h (GetNetworkCall (network_id (new_cfg d))) = Inr net \<Longrightarrow>
   checkNetwork E d s =
     ((if MultiAz net \<and> coordinator_node_count (new_cfg d) < 3 then Err multiAzError else Val ()),
      s\<lparr>trace := trace s @ [GetNetworkCall (network_id (new_cfg d))]\<rparr>)"
  by (simp add: checkNetwork_def bind_def remote_def ret_def fail_def)

lemma errs_queryVmInfo:
  assumes "\<And>f as. Q (Fmt f as)"
  shows "errs Q (queryVmInfo E c r pt v)"
  unfolding queryVmInfo_def
  by (auto intro!: errs_intros assms split: sum.split option.split)

lemma errs_checkWarehouseItem:
  assumes "\<And>f as. Q (Fmt f as)"
  shows "errs Q (checkWarehouseItem E c r a m)"
  unfolding checkWarehouseItem_def Let_def
  by (intro errs_intros errs_queryVmInfo assms)
     (auto intro!: errs_intros assms split: sum.split option.split list.split)

lemma errs_collectWhVmInfo:
  assumes "\<And>f as. Q (Fmt f as)"
  shows "errs Q (collectWhVmInfo E c r a ms m)"
  by (induction ms arbitrary: m) (auto intro!: errs_intros errs_checkWarehouseItem assms)

lemma errs_checkInstanceStoreKeys:
  assumes "\<And>f as. Q (Fmt f as)"
  shows "errs Q (checkInstanceStoreKeys ks ext m)"
  by (induction ks) (auto intro!: errs_intros assms simp: Let_def split: option.split)

lemma errs_checkInstanceStore:
  assumes "\<And>f as. Q (Fmt f as)"
  shows "errs Q (checkInstanceStore E ext m)"
  unfolding checkInstanceStore_def by (rule errs_checkInstanceStoreKeys) (rule assms)

lemma errs_checkSpecifyAz:
  assumes "\<And>t. Q (Lit (''specify_az parameter only takes effect'' @ t))"
  shows "errs Q (checkSpecifyAz vs)"
proof (induction vs)
  case Nil
  show ?case by (simp add: errs_ret)
next
  case (Cons v vs)
  have "Q (Lit ''specify_az parameter only takes effect when the distribution_policy value is \"specify_az\"'')"
    using assms[of "'' when the distribution_policy value is \"specify_az\"''"] by simp
  then show ?case using Cons by (auto intro!: errs_intros)
qed

lemma errs_checkCoordinatorArch:
  assumes "\<And>f as. Q (Fmt f as)"
  shows "errs Q (checkCoordinatorArch E d b a)"
  unfolding checkCoordinatorArch_def Let_def
  by (auto intro!: errs_intros errs_queryVmInfo assms)

lemma errs_checkCoordinatorVolSize:
  assumes "Q volSizeDecreaseError"
  shows "errs Q (checkCoordinatorVolSize E d b)"
  unfolding checkCoordinatorVolSize_def Let_def
  by (auto intro!: errs_intros assms)

lemma errs_verifyCoordinatorVolume:
  assumes "\<And>f as. Q (Fmt f as)"
  shows "errs Q (verifyCoordinatorVolume E d vm)"
  unfolding verifyCoordinatorVolume_def
  by (auto intro!: errs_intros assms split: list.split option.split)

lemma errs_checkUniqueNames:
  assumes "\<And>f as. Q (Fmt f as)"
  shows "errs Q (checkUniqueNames E n)"
  unfolding checkUniqueNames_def Let_def
  by (auto intro!: errs_intros assms split: option.split)

lemma errs_checkDefaultWarehouse:
  assumes "\<And>f as. Q (Fmt f as)"
  shows "errs Q (checkDefaultWarehouse E d i a)"
  unfolding checkDefaultWarehouse_def Let_def
  by (auto intro!: errs_intros errs_collectWhVmInfo errs_checkInstanceStore assms)

lemma errs_checkWarehouses:
  assumes "\<And>f as. Q (Fmt f as)"
  shows "errs Q (checkWarehouses E d i a)"
  unfolding checkWarehouses_def Let_def
  by (auto intro!: errs_intros errs_collectWhVmInfo errs_checkInstanceStore
        errs_checkUniqueNames assms)

lemma errs_afterNetwork:
  assumes "\<And>f as. Q (Fmt f as)"
    and "\<And>t. Q (Lit (''specify_az parameter only takes effect'' @ t))"
  shows "errs Q
     (case default_warehouse c of
        [] \<Rightarrow> panic
      | dw # _ \<Rightarrow>
          andThen (checkSpecifyAz (dw # warehouse c))
         (andThen (checkCoordinatorArch E d b a)
         (andThen (checkCoordinatorVolSize E d b)
         (andThen (verifyCoordinatorVolume E d vm)
         (andThen (checkDefaultWarehouse E d i a)
                  (checkWarehouses E d i a))))))"
proof (cases "default_warehouse c")
  case Nil
  then show ?thesis by (simp add: errs_panic)
next
  case (Cons dw rest)
  have "Q volSizeDecreaseError" by (simp add: volSizeDecreaseError_def assms(1))
  then show ?thesis
    unfolding Cons list.case
    by (intro errs_andThen errs_checkSpecifyAz errs_checkCoordinatorArch
          errs_checkCoordinatorVolSize errs_verifyCoordinatorVolume
          errs_checkDefaultWarehouse errs_checkWarehouses assms)
qed

lemma multiAzError_not_Fmt: "Fmt f as \<noteq> multiAzError"
  by (simp add: multiAzError_def)

lemma multiAzError_not_specify:
  "Lit (''specify_az parameter only takes effect'' @ t) \<noteq> multiAzError"
  by (simp add: multiAzError_def)

subsection \<open>Create: the calls after the network lookup\<close>

lemma emits_createNormalWarehouses:
  assumes "\<And>v. emits P (createWarehouse E cid v)"
  shows "emits P (createNormalWarehouses E cid vs)"
proof (induction vs)
  case Nil
  show ?case by (simp add: emits_ret)
next
  case (Cons v vs)
  show ?case
    unfolding emits_def
  proof
    fix s
    from assms[of v] obtain t1 where
      t1: "trace (snd (createWarehouse E cid v s)) = trace s @ t1" "list_all P t1"
      unfolding emits_def by blast
    obtain r s1 where rs: "createWarehouse E cid v s = (r, s1)"
      by (cases "createWarehouse E cid v s")
    show "\<exists>t. trace (snd (createNormalWarehouses E cid (v # vs) s)) = trace s @ t \<and> list_all P t"
    proof (cases r)
      case (Val x)
      from Cons obtain t2 where
        t2: "trace (snd (createNormalWarehouses E cid vs s1)) = trace s1 @ t2" "list_all P t2"
        unfolding emits_def by blast
      have "createNormalWarehouses E cid (v # vs) s = createNormalWarehouses E cid vs s1"
        using rs Val by simp
      then show ?thesis using t1 t2 rs by (intro exI[of _ "t1 @ t2"]) simp
    next
      case (Err e)
      then have "snd (createNormalWarehouses E cid (v # vs) s) = s1"
        using rs by (cases e) simp_all
      then show ?thesis using t1 rs by auto
    next
      case Panic
      then have "snd (createNormalWarehouses E cid (v # vs) s) = s1"
        using rs by simp
      then show ?thesis using t1 rs by auto
    qed
  qed
qed

lemma emits_createAfterDeploy: "emits (\<lambda>c. True) (createAfterDeploy E d resp dw)"
  unfolding createAfterDeploy_def Let_def
  by (intro emits_andThen emits_liftErr emits_setWarehouseAutoScalingPolicy
        emits_createNormalWarehouses emits_createWarehouse)
     (auto intro!: emits_intros)

lemma emits_afterDeployReq:
  "emits (\<lambda>c. True)
     (\<lambda>s. (case r of
        Inl err \<Rightarrow> fail (FromErr err)
      | Inr resp \<Rightarrow>
          andThen (SetId (dr_ClusterID resp))
            (bind (remote (waitApi E) (deployWait resp)) (\<lambda>w.
               case w of
                 Inl err \<Rightarrow>
                   bind Id (\<lambda>i.
                     fail [\<lparr>Severity = Warning,
                            Summary = Lit ''Operation state not complete'',
                            Detail = Fmt ''waiting for cluster (%s) change complete failed errMsg: %s''
                                       [AStr i, AMsg err]\<rparr>])
               | Inr stateResp \<Rightarrow>
                   if ClusterState stateResp = ClusterStateAbnormal then
                     andThen (SetId []) (fail (FromErr (Lit (AbnormalReason stateResp))))
                   else createAfterDeploy E d resp dw))) s)"
  by (cases r) (auto intro!: emits_intros emits_createAfterDeploy split: sum.split)

subsection \<open>The multi-AZ rule\<close>

lemma customizeEl2Diff_afterNetwork:
  assumes vm: "\<forall>h. vmInfoApi E h (GetVmInfoReq (csp (new_cfg d)) (region (new_cfg d))
                 ClusterModuleTypeFE (coordinator_node_size (new_cfg d))) = Inr (Some vm)"
    and nid: "network_id (new_cfg d) \<noteq> []"
    and net: "\<forall>h. networkApi E h (GetNetworkCall (network_id (new_cfg d))) = Inr net"
  shows "customizeEl2Diff E d s =
    (let s2 = s\<lparr>trace := trace s @ [GetVmInfoReq (csp (new_cfg d)) (region (new_cfg d))
                  ClusterModuleTypeFE (coordinator_node_size (new_cfg d)),
                GetNetworkCall (network_id (new_cfg d))]\<rparr>
     in if MultiAz net \<and> coordinator_node_count (new_cfg d) < 3 then (Err multiAzError, s2)
        else (case default_warehouse (new_cfg d) of
                [] \<Rightarrow> panic
              | dw # _ \<Rightarrow>
                  andThen (checkSpecifyAz (dw # warehouse (new_cfg d)))
                 (andThen (checkCoordinatorArch E d (rid s = []) (vm_Arch vm))
                 (andThen (checkCoordinatorVolSize E d (rid s = []))
                 (andThen (verifyCoordinatorVolume E d vm)
                 (andThen (checkDefaultWarehouse E d (rid s) (vm_Arch vm))
                          (checkWarehouses E d (rid s) (vm_Arch vm))))))) s2)"
proof -
  let ?s1 = "s\<lparr>trace := trace s @ [GetVmInfoReq (csp (new_cfg d)) (region (new_cfg d))
                  ClusterModuleTypeFE (coordinator_node_size (new_cfg d))]\<rparr>"
  have q: "queryVmInfo E (csp (new_cfg d)) (region (new_cfg d)) ClusterModuleTypeFE
             (coordinator_node_size (new_cfg d)) s = (Val vm, ?s1)"
    by (rule queryVmInfo_found[OF vm])
  have n: "checkNetwork E d ?s1 =
     ((if MultiAz net \<and> coordinator_node_count (new_cfg d) < 3 then Err multiAzError else Val ()),
      ?s1\<lparr>trace := trace ?s1 @ [GetNetworkCall (network_id (new_cfg d))]\<rparr>)"
    by (rule checkNetwork_found[OF nid net])
  show ?thesis
    unfolding customizeEl2Diff_def
    by (simp add: bind_cases Id_def Let_def q n andThen_def)
qed

text \<open>
  Claim C3, as amended. When the coordinator instance type is found and the referenced
  network is found (a non-empty \<^verbatim>\<open>network_id\<close>), the validator fails with the multi-AZ
  error exactly when the network is multi-AZ and the coordinator node count is below 3, for
  every count; and \<^verbatim>\<open>resourceElasticClusterV2Create\<close> returns that error, having
  issued nothing but the network lookup, exactly under the same condition. (The validator
  has other checks, which fail for their own reasons.)
\<close>

theorem multi_az_rule:
  assumes vm: "\<forall>h. vmInfoApi E h (GetVmInfoReq (csp (new_cfg d)) (region (new_cfg d))
                 ClusterModuleTypeFE (coordinator_node_size (new_cfg d))) = Inr (Some vm)"
    and nid: "network_id (new_cfg d) \<noteq> []"
    and net: "\<forall>h. networkApi E h (GetNetworkCall (network_id (new_cfg d))) = Inr net"
  shows "(fst (customizeEl2Diff E d s) = Err multiAzError)
           = (MultiAz net \<and> coordinator_node_count (new_cfg d) < 3)
       \<and> (resourceElasticClusterV2Create E d s =
            (Err (FromErr multiAzError),
             s\<lparr>trace := trace s @ [GetNetworkCall (network_id (new_cfg d))]\<rparr>))
           = (MultiAz net \<and> coordinator_node_count (new_cfg d) < 3)"
proof
  show "(fst (customizeEl2Diff E d s) = Err multiAzError)
           = (MultiAz net \<and> coordinator_node_count (new_cfg d) < 3)"
  proof (cases "MultiAz net \<and> coordinator_node_count (new_cfg d) < 3")
    case True
    then show ?thesis
      by (simp add: customizeEl2Diff_afterNetwork[OF vm nid net] Let_def)
  next
    case False
    have "errs (\<lambda>e. e \<noteq> multiAzError)
      (case default_warehouse (new_cfg d) of
                [] \<Rightarrow> panic
              | dw # _ \<Rightarrow>
                  andThen (checkSpecifyAz (dw # warehouse (new_cfg d)))
                 (andThen (checkCoordinatorArch E d (rid s = []) (vm_Arch vm))
                 (andThen (checkCoordinatorVolSize E d (rid s = []))
                 (andThen (verifyCoordinatorVolume E d vm)
                 (andThen (checkDefaultWarehouse E d (rid s) (vm_Arch vm))
                          (checkWarehouses E d (rid s) (vm_Arch vm)))))))"
      by (rule errs_afterNetwork) (rule multiAzError_not_Fmt multiAzError_not_specify)+
    then show ?thesis
      using False unfolding errs_def
      by (auto simp add: customizeEl2Diff_afterNetwork[OF vm nid net] Let_def)
  qed
next
  let ?g = "GetNetworkCall (network_id (new_cfg d))"
  let ?s1 = "s\<lparr>trace := trace s @ [?g]\<rparr>"
  show "(resourceElasticClusterV2Create E d s = (Err (FromErr multiAzError), ?s1))
           = (MultiAz net \<and> coordinator_node_count (new_cfg d) < 3)"
  proof (cases "MultiAz net \<and> coordinator_node_count (new_cfg d) < 3")
    case True
    then show ?thesis
      using net
      by (simp add: resourceElasticClusterV2Create_def Let_def bind_cases remote_def fail_def)
  next
    case False
    show ?thesis
    proof (cases "default_warehouse (new_cfg d)")
      case Nil
      then show ?thesis
        using net False
        by (auto simp add: resourceElasticClusterV2Create_def Let_def bind_cases remote_def
            panic_def fail_def)
    next
      case (Cons dw rest)
      let ?dq = "DeployReq (clusterConfOf E (new_cfg d) (dw\<lparr>name := DEFAULT_WAREHOUSE_NAME\<rparr>))"
      let ?s2 = "?s1\<lparr>trace := trace ?s1 @ [?dq]\<rparr>"
      let ?k = "\<lambda>r. (\<lambda>s. (case r of
        Inl err \<Rightarrow> fail (FromErr err)
      | Inr resp \<Rightarrow>
          andThen (SetId (dr_ClusterID resp))
            (bind (remote (waitApi E) (deployWait resp)) (\<lambda>w.
               case w of
                 Inl err \<Rightarrow>
                   bind Id (\<lambda>i.
                     fail [\<lparr>Severity = Warning,
                            Summary = Lit ''Operation state not complete'',
                            Detail = Fmt ''waiting for cluster (%s) change complete failed errMsg: %s''
                                       [AStr i, AMsg err]\<rparr>])
               | Inr stateResp \<Rightarrow>
                   if ClusterState stateResp = ClusterStateAbnormal then
                     andThen (SetId []) (fail (FromErr (Lit (AbnormalReason stateResp))))
                   else createAfterDeploy E d resp (dw\<lparr>name := DEFAULT_WAREHOUSE_NAME\<rparr>)))) s)"
      have run: "resourceElasticClusterV2Create E d s = ?k (deployApi E (trace ?s1) ?dq) ?s2"
        using net False Cons
        by (auto simp add: resourceElasticClusterV2Create_def Let_def bind_cases remote_def)
      from emits_afterDeployReq[where r = "deployApi E (trace ?s1) ?dq" and E = E and d = d
          and dw = "dw\<lparr>name := DEFAULT_WAREHOUSE_NAME\<rparr>"]
      obtain t where "trace (snd (?k (deployApi E (trace ?s1) ?dq) ?s2)) = trace ?s2 @ t"
        unfolding emits_def by blast
      then have "trace (snd (resourceElasticClusterV2Create E d s)) \<noteq> trace ?s1"
        using run by simp
      then show ?thesis using False by auto
    qed
  qed
qed

subsection \<open>Instances of the validator theorems\<close>

theorem multi_az_rule_witness:
  "network_id (new_cfg dCreate) \<noteq> []
   \<and> MultiAz \<lparr>MultiAz = True\<rparr> \<and> coordinator_node_count (new_cfg dCreate) < 3
   \<and> fst (customizeEl2Diff envMultiAz dCreate sNew) = Err multiAzError
   \<and> resourceElasticClusterV2Create envMultiAz dCreate sNew =
       (Err (FromErr multiAzError), sNew\<lparr>trace := trace sNew @ [GetNetworkCall ''n1'']\<rparr>)"
proof -
  have vm: "\<forall>h. vmInfoApi envMultiAz h (GetVmInfoReq (csp (new_cfg dCreate)) (region (new_cfg dCreate))
                 ClusterModuleTypeFE (coordinator_node_size (new_cfg dCreate)))
            = Inr (Some \<lparr>vm_Arch = ''x86'', vm_IsInstanceStore = False, vm_VmVolumeInfos = [''gp3'']\<rparr>)"
    by (simp add: envMultiAz_def env0_def)
  have nid: "network_id (new_cfg dCreate) \<noteq> []"
    by (simp add: dCreate_def cfg0_def)
  have net: "\<forall>h. networkApi envMultiAz h (GetNetworkCall (network_id (new_cfg dCreate)))
            = Inr \<lparr>MultiAz = True\<rparr>"
    by (simp add: envMultiAz_def env0_def)
  have c: "coordinator_node_count (new_cfg dCreate) < 3"
    by (simp add: dCreate_def cfg0_def)
  have n1: "network_id (new_cfg dCreate) = ''n1''"
    by (simp add: dCreate_def cfg0_def)
  show ?thesis
    using multi_az_rule[OF vm nid net, of sNew] nid c n1 by simp
qed

theorem multi_az_counterexample:
  "networkApi env0 [GetVmInfoReq ''aws'' ''us-west-2'' ClusterModuleTypeFE ''m6i.large'']
     (GetNetworkCall ''n1'') = Inr \<lparr>MultiAz = False\<rparr>
   \<and> customizeEl2Diff env0 dSpecAz s0 =
       (Err (Lit ''specify_az parameter only takes effect when the distribution_policy value is \"specify_az\"''),
        s0\<lparr>trace := [GetVmInfoReq ''aws'' ''us-west-2'' ClusterModuleTypeFE ''m6i.large'',
                      GetNetworkCall ''n1'']\<rparr>)"
proof -
  have q: "queryVmInfo env0 cs r pt v t =
      (Val \<lparr>vm_Arch = ''x86'', vm_IsInstanceStore = False, vm_VmVolumeInfos = [''gp3'']\<rparr>,
       t\<lparr>trace := trace t @ [GetVmInfoReq cs r pt v]\<rparr>)" for cs r pt v t
    by (simp add: queryVmInfo_def bind_def remote_def ret_def env0_def)
  have n: "checkNetwork env0 dSpecAz t = (Val (), t\<lparr>trace := trace t @ [GetNetworkCall ''n1'']\<rparr>)"
    for t
    by (simp add: checkNetwork_def dSpecAz_def cfg0_def bind_def remote_def ret_def env0_def
        Let_def)
  have net: "networkApi env0 h c = Inr \<lparr>MultiAz = False\<rparr>" for h c
    by (simp add: env0_def)
  have c: "csp (new_cfg dSpecAz) = ''aws''" "region (new_cfg dSpecAz) = ''us-west-2''"
    "coordinator_node_size (new_cfg dSpecAz) = ''m6i.large''"
    "default_warehouse (new_cfg dSpecAz) = [wh0\<lparr>specify_az := ''us-west-2a''\<rparr>]"
    "warehouse (new_cfg dSpecAz) = []"
    by (simp_all add: dSpecAz_def cfg0_def)
  have az: "checkSpecifyAz [wh0\<lparr>specify_az := ''us-west-2a''\<rparr>] t =
     (Err (Lit ''specify_az parameter only takes effect when the distribution_policy value is \"specify_az\"''), t)"
    for t
    by (simp add: wh0_def SPECIFY_AZ_def fail_def)
  have "customizeEl2Diff env0 dSpecAz s0 =
       (Err (Lit ''specify_az parameter only takes effect when the distribution_policy value is \"specify_az\"''),
        s0\<lparr>trace := [GetVmInfoReq ''aws'' ''us-west-2'' ClusterModuleTypeFE ''m6i.large'',
                      GetNetworkCall ''n1'']\<rparr>)"
    by (simp add: customizeEl2Diff_def Id_def Let_def c bind_def q andThen_apply n az s0_def
        del: checkSpecifyAz.simps)
  with net show ?thesis by simp
qed

subsection \<open>Warehouse names and disk types in the validator\<close>

lemma checkWarehouseItem_Val:
  "checkWarehouseItem E c r a w s = (Val v, s') \<Longrightarrow>
   \<exists>h. vmInfoApi E h (GetVmInfoReq c r ClusterModuleTypeBE (compute_node_size w)) = Inr (Some v)"
  unfolding checkWarehouseItem_def queryVmInfo_def Let_def
  by (auto simp add: bind_cases remote_def ret_def fail_def panic_def
      split: sum.splits option.splits if_splits list.splits)

lemma collectWhVmInfo_preserves:
  "collectWhVmInfo E c r a ws m0 s = (Val m, s') \<Longrightarrow>
   k \<notin> set (map (\<lambda>w. TrimSpace (name w)) ws) \<Longrightarrow> m k = m0 k"
proof (induction ws arbitrary: m0 s)
  case Nil
  then show ?case by (simp add: ret_def)
next
  case (Cons x xs)
  from Cons.prems(1) obtain v s1 where
    1: "checkWarehouseItem E c r a x s = (Val v, s1)" and
    2: "collectWhVmInfo E c r a xs (m0(TrimSpace (name x) \<mapsto> v)) s1 = (Val m, s')"
    by (cases "checkWarehouseItem E c r a x s")
       (auto simp add: bind_cases split: res.splits)
  from Cons.IH[OF 2] Cons.prems(2) show ?case by simp
qed

lemma collectWhVmInfo_holds:
  assumes "collectWhVmInfo E c r a ws m0 s = (Val m, s')"
    and "distinct (map (\<lambda>w. TrimSpace (name w)) ws)"
    and "w \<in> set ws"
    and "\<forall>h. vmInfoApi E h (GetVmInfoReq c r ClusterModuleTypeBE (compute_node_size w)) = Inr (Some vm)"
  shows "m (TrimSpace (name w)) = Some vm"
  using assms(1-3)
proof (induction ws arbitrary: m0 s)
  case Nil
  then show ?case by simp
next
  case (Cons x xs)
  from Cons.prems(1) obtain v s1 where
    1: "checkWarehouseItem E c r a x s = (Val v, s1)" and
    2: "collectWhVmInfo E c r a xs (m0(TrimSpace (name x) \<mapsto> v)) s1 = (Val m, s')"
    by (cases "checkWarehouseItem E c r a x s")
       (auto simp add: bind_cases split: res.splits)
  show ?case
  proof (cases "w = x")
    case True
    from checkWarehouseItem_Val[OF 1] assms(4) True have "v = vm" by auto
    moreover have "TrimSpace (name x) \<notin> set (map (\<lambda>w. TrimSpace (name w)) xs)"
      using Cons.prems(2) by simp
    from collectWhVmInfo_preserves[OF 2 this] have "m (TrimSpace (name x)) = Some v" by simp
    ultimately show ?thesis using True by simp
  next
    case False
    then have "w \<in> set xs" using Cons.prems(3) by simp
    moreover have "distinct (map (\<lambda>w. TrimSpace (name w)) xs)" using Cons.prems(2) by simp
    ultimately show ?thesis using Cons.IH[OF 2] by blast
  qed
qed

lemma set_rangeKeys: "set (rangeKeys E ks) = set ks"
  by (auto simp add: rangeKeys_def Let_def)

lemma checkInstanceStoreKeys_mismatch:
  "k \<in> set ks \<Longrightarrow> ext k = Some info \<Longrightarrow> m k = Some v \<Longrightarrow>
   ext_IsInstanceStore info \<noteq> vm_IsInstanceStore v \<Longrightarrow>
   \<exists>e. checkInstanceStoreKeys ks ext m s = (Err e, s)"
proof (induction ks)
  case Nil
  then show ?case by simp
next
  case (Cons a ks)
  show ?case
  proof (cases "a = k")
    case True
    then show ?thesis using Cons.prems by (simp add: fail_def Let_def)
  next
    case False
    then have "k \<in> set ks" using Cons.prems(1) by simp
    from Cons.IH[OF this Cons.prems(2,3,4)] obtain e where
      "checkInstanceStoreKeys ks ext m s = (Err e, s)" by blast
    then show ?thesis by (auto simp add: fail_def Let_def split: option.split)
  qed
qed

lemma checkInstanceStore_mismatch:
  assumes "map_of ext k = Some info" and "m k = Some v"
    and "ext_IsInstanceStore info \<noteq> vm_IsInstanceStore v"
  shows "\<exists>e. checkInstanceStore E ext m s = (Err e, s)"
proof -
  from assms(1) have "k \<in> fst ` set ext" by (rule map_of_SomeD[THEN imageI, of _ _ _ fst, simplified])
  then have "k \<in> set (rangeKeys E (map fst ext))" by (simp add: set_rangeKeys)
  from checkInstanceStoreKeys_mismatch[where ext = "map_of ext" and m = m and s = s,
      OF this assms]
  show ?thesis by (simp add: checkInstanceStore_def)
qed

lemma countNames_count:
  "countNames ns cm k =
    (if k \<in> set ns then Some (int (count_list ns k) + (case cm k of None \<Rightarrow> 0 | Some v \<Rightarrow> v))
     else cm k)"
proof (induction ns arbitrary: cm)
  case Nil
  show ?case by simp
next
  case (Cons n ns)
  show ?case
    by (auto simp add: Cons.IH split: option.split)
qed

lemma findRepeated_None:
  "findRepeated ks cm = None \<Longrightarrow> k \<in> set ks \<Longrightarrow> cm k = Some v \<Longrightarrow> v \<le> 1"
  by (induction ks) (auto split: option.splits if_splits)

lemma findRepeated_Some:
  "findRepeated ks cm = Some k \<Longrightarrow> k \<in> set ks \<and> (\<exists>v. cm k = Some v \<and> v > 1)"
  by (induction ks) (auto split: option.splits if_splits)

lemma count_list_le1_distinct: "(\<forall>k \<in> set ns. count_list ns k \<le> 1) \<Longrightarrow> distinct ns"
proof (induction ns)
  case Nil
  show ?case by simp
next
  case (Cons n ns)
  have "n \<notin> set ns"
  proof
    assume "n \<in> set ns"
    then have "count_list ns n \<ge> 1" by (metis count_list_0_iff Suc_le_eq zero_less_iff_neq_zero One_nat_def)
    with Cons.prems show False by auto
  qed
  moreover have "\<forall>k \<in> set ns. count_list ns k \<le> 1"
  proof
    fix k assume "k \<in> set ns"
    with Cons.prems have "count_list (n # ns) k \<le> 1" by simp
    then show "count_list ns k \<le> 1" by (simp split: if_splits)
  qed
  ultimately show ?case using Cons.IH by simp
qed

lemma distinct_count_list: "distinct ns \<Longrightarrow> k \<in> set ns \<Longrightarrow> count_list ns k = 1"
  by (induction ns) (auto simp: count_list_0_iff)

lemma checkUniqueNames_iff:
  "(checkUniqueNames E n s = (Val (), s)) = distinct (map (\<lambda>m. TrimSpace (name m)) n)"
proof -
  let ?ns = "map (\<lambda>m. TrimSpace (name m)) n"
  let ?cm = "countNames ?ns Map.empty"
  have cm: "\<And>k. ?cm k = (if k \<in> set ?ns then Some (int (count_list ?ns k)) else None)"
    by (simp add: countNames_count)
  show ?thesis
  proof (cases "findRepeated (rangeKeys E ?ns) ?cm")
    case None
    have "\<forall>k \<in> set ?ns. count_list ?ns k \<le> 1"
    proof
      fix k assume k: "k \<in> set ?ns"
      then have "?cm k = Some (int (count_list ?ns k))" using cm by simp
      from findRepeated_None[OF None _ this] k show "count_list ?ns k \<le> 1"
        by (simp add: set_rangeKeys)
    qed
    then have "distinct ?ns" by (rule count_list_le1_distinct)
    then show ?thesis using None by (simp add: checkUniqueNames_def Let_def ret_def)
  next
    case (Some k)
    from findRepeated_Some[OF Some] obtain v where
      k: "k \<in> set ?ns" and v: "?cm k = Some v" "v > 1" by (auto simp add: set_rangeKeys)
    then have "count_list ?ns k > 1" using cm by (auto split: if_splits)
    then have "\<not> distinct ?ns" using distinct_count_list[OF _ k] by auto
    then show ?thesis using Some by (simp add: checkUniqueNames_def Let_def fail_def)
  qed
qed

lemma bind_Id: "bind Id f s = f (rid s) s"
  by (simp add: bind_def Id_def)

lemma bind_ValE:
  assumes "bind m f s = (Val y, s')"
  obtains x s1 where "m s = (Val x, s1)" "f x s1 = (Val y, s')"
  using assms by (cases "m s") (auto simp add: bind_def split: res.splits)

lemma andThen_ValE:
  assumes "andThen m n s = (Val y, s')"
  obtains x s1 where "m s = (Val x, s1)" "n s1 = (Val y, s')"
  using assms unfolding andThen_def by (rule bind_ValE)

lemma checkUniqueNames_Val:
  assumes "checkUniqueNames E n s = (Val x, s1)"
  shows "distinct (map (\<lambda>m. TrimSpace (name m)) n) \<and> s1 = s"
proof -
  from assms have "s1 = s"
    by (auto simp add: checkUniqueNames_def Let_def ret_def fail_def split: option.splits)
  with assms show ?thesis using checkUniqueNames_iff[of E n s] by simp
qed

lemma checkWarehouses_reject:
  assumes "i \<noteq> []"
    and "warehouse (old_cfg d) \<noteq> warehouse (new_cfg d)"
    and "w \<in> set (warehouse (new_cfg d))"
    and "map_of (warehouse_external_info (new_cfg d)) (TrimSpace (name w)) = Some info"
    and "\<forall>h. vmInfoApi E h (GetVmInfoReq (csp (new_cfg d)) (region (new_cfg d))
            ClusterModuleTypeBE (compute_node_size w)) = Inr (Some vm)"
    and "vm_IsInstanceStore vm \<noteq> ext_IsInstanceStore info"
  shows "fst (checkWarehouses E d i a s) \<noteq> Val ()"
proof
  assume "fst (checkWarehouses E d i a s) = Val ()"
  then obtain s' where "checkWarehouses E d i a s = (Val (), s')"
    by (cases "checkWarehouses E d i a s") simp
  then have run: "andThen (checkUniqueNames E (warehouse (new_cfg d)))
          (bind (collectWhVmInfo E (csp (new_cfg d)) (region (new_cfg d)) a
                   (warehouse (new_cfg d)) Map.empty)
            (\<lambda>whVmInfoMap. checkInstanceStore E (warehouse_external_info (new_cfg d)) whVmInfoMap))
          s = (Val (), s')"
    using assms(1,2) by (simp add: checkWarehouses_def HasChange_def Let_def)
  from run obtain x s1 where
    u: "checkUniqueNames E (warehouse (new_cfg d)) s = (Val x, s1)" and
    r2: "bind (collectWhVmInfo E (csp (new_cfg d)) (region (new_cfg d)) a
                   (warehouse (new_cfg d)) Map.empty)
            (\<lambda>whVmInfoMap. checkInstanceStore E (warehouse_external_info (new_cfg d)) whVmInfoMap)
          s1 = (Val (), s')"
    by (rule andThen_ValE)
  from r2 obtain m s2 where
    c: "collectWhVmInfo E (csp (new_cfg d)) (region (new_cfg d)) a
          (warehouse (new_cfg d)) Map.empty s1 = (Val m, s2)" and
    k: "checkInstanceStore E (warehouse_external_info (new_cfg d)) m s2 = (Val (), s')"
    by (rule bind_ValE)
  from checkUniqueNames_Val[OF u]
  have dist: "distinct (map (\<lambda>m. TrimSpace (name m)) (warehouse (new_cfg d)))" by simp
  from collectWhVmInfo_holds[OF c dist assms(3) assms(5)]
  have "m (TrimSpace (name w)) = Some vm" .
  from checkInstanceStore_mismatch[where k = "TrimSpace (name w)" and info = info
      and ext = "warehouse_external_info (new_cfg d)" and m = m and v = vm and s = s2
      and E = E, OF assms(4) this] assms(6)
  obtain e where "checkInstanceStore E (warehouse_external_info (new_cfg d)) m s2 = (Err e, s2)"
    by auto
  with k show False by simp
qed

lemma checkDefaultWarehouse_reject:
  assumes "i \<noteq> []"
    and "default_warehouse (old_cfg d) \<noteq> default_warehouse (new_cfg d)"
    and "default_warehouse (new_cfg d) = [w]"
    and "map_of (warehouse_external_info (new_cfg d)) (TrimSpace (name w)) = Some info"
    and "\<forall>h. vmInfoApi E h (GetVmInfoReq (csp (new_cfg d)) (region (new_cfg d))
            ClusterModuleTypeBE (compute_node_size w)) = Inr (Some vm)"
    and "vm_IsInstanceStore vm \<noteq> ext_IsInstanceStore info"
  shows "fst (checkDefaultWarehouse E d i a s) \<noteq> Val ()"
proof
  assume "fst (checkDefaultWarehouse E d i a s) = Val ()"
  then obtain s' where "checkDefaultWarehouse E d i a s = (Val (), s')"
    by (cases "checkDefaultWarehouse E d i a s") simp
  then have run: "bind (collectWhVmInfo E (csp (new_cfg d)) (region (new_cfg d)) a [w] Map.empty)
            (\<lambda>whVmInfoMap. checkInstanceStore E (warehouse_external_info (new_cfg d)) whVmInfoMap)
          s = (Val (), s')"
    using assms(1,2,3) by (simp add: checkDefaultWarehouse_def HasChange_def Let_def)
  from run obtain m s2 where
    c: "collectWhVmInfo E (csp (new_cfg d)) (region (new_cfg d)) a [w] Map.empty s = (Val m, s2)" and
    k: "checkInstanceStore E (warehouse_external_info (new_cfg d)) m s2 = (Val (), s')"
    by (rule bind_ValE)
  have "m (TrimSpace (name w)) = Some vm"
    by (rule collectWhVmInfo_holds[OF c _ _ assms(5)]) simp_all
  from checkInstanceStore_mismatch[where k = "TrimSpace (name w)" and info = info
      and ext = "warehouse_external_info (new_cfg d)" and m = m and v = vm and s = s2
      and E = E, OF assms(4) this] assms(6)
  obtain e where "checkInstanceStore E (warehouse_external_info (new_cfg d)) m s2 = (Err e, s2)"
    by auto
  with k show False by simp
qed

lemma customizeEl2Diff_Val:
  assumes "customizeEl2Diff E d s = (Val (), s')"
  shows "\<exists>(vm :: vm_info) (s1 :: st) (s2 :: st) (s3 :: st).
    fst (checkCoordinatorVolSize E d (rid s = []) s1) = Val ()
    \<and> fst (checkDefaultWarehouse E d (rid s) (vm_Arch vm) s2) = Val ()
    \<and> fst (checkWarehouses E d (rid s) (vm_Arch vm) s3) = Val ()"
proof -
  from assms have "bind (queryVmInfo E (csp (new_cfg d)) (region (new_cfg d))
       ClusterModuleTypeFE (coordinator_node_size (new_cfg d)))
        (\<lambda>newCoordinatorVmInfo.
          andThen (checkNetwork E d)
            (case default_warehouse (new_cfg d) of
               [] \<Rightarrow> panic
             | dw # _ \<Rightarrow>
                 andThen (checkSpecifyAz (dw # warehouse (new_cfg d)))
                (andThen (checkCoordinatorArch E d (rid s = []) (vm_Arch newCoordinatorVmInfo))
                (andThen (checkCoordinatorVolSize E d (rid s = []))
                (andThen (verifyCoordinatorVolume E d newCoordinatorVmInfo)
                (andThen (checkDefaultWarehouse E d (rid s) (vm_Arch newCoordinatorVmInfo))
                         (checkWarehouses E d (rid s) (vm_Arch newCoordinatorVmInfo)))))))) s
      = (Val (), s')"
    by (simp add: customizeEl2Diff_def bind_Id Let_def)
  then obtain vm t1 where
    "andThen (checkNetwork E d)
            (case default_warehouse (new_cfg d) of
               [] \<Rightarrow> panic
             | dw # _ \<Rightarrow>
                 andThen (checkSpecifyAz (dw # warehouse (new_cfg d)))
                (andThen (checkCoordinatorArch E d (rid s = []) (vm_Arch vm))
                (andThen (checkCoordinatorVolSize E d (rid s = []))
                (andThen (verifyCoordinatorVolume E d vm)
                (andThen (checkDefaultWarehouse E d (rid s) (vm_Arch vm))
                         (checkWarehouses E d (rid s) (vm_Arch vm))))))) t1 = (Val (), s')"
    by (rule bind_ValE)
  then obtain x2 :: unit and t2 where r2:
    "(case default_warehouse (new_cfg d) of
               [] \<Rightarrow> panic
             | dw # _ \<Rightarrow>
                 andThen (checkSpecifyAz (dw # warehouse (new_cfg d)))
                (andThen (checkCoordinatorArch E d (rid s = []) (vm_Arch vm))
                (andThen (checkCoordinatorVolSize E d (rid s = []))
                (andThen (verifyCoordinatorVolume E d vm)
                (andThen (checkDefaultWarehouse E d (rid s) (vm_Arch vm))
                         (checkWarehouses E d (rid s) (vm_Arch vm))))))) t2 = (Val (), s')"
    by (rule andThen_ValE)
  then obtain dw rest where dw: "default_warehouse (new_cfg d) = dw # rest"
    by (cases "default_warehouse (new_cfg d)") (simp_all add: panic_def)
  from r2 dw have
    "andThen (checkSpecifyAz (dw # warehouse (new_cfg d)))
                (andThen (checkCoordinatorArch E d (rid s = []) (vm_Arch vm))
                (andThen (checkCoordinatorVolSize E d (rid s = []))
                (andThen (verifyCoordinatorVolume E d vm)
                (andThen (checkDefaultWarehouse E d (rid s) (vm_Arch vm))
                         (checkWarehouses E d (rid s) (vm_Arch vm)))))) t2 = (Val (), s')"
    by simp
  then obtain x3 :: unit and t3 where
    "(andThen (checkCoordinatorArch E d (rid s = []) (vm_Arch vm))
                (andThen (checkCoordinatorVolSize E d (rid s = []))
                (andThen (verifyCoordinatorVolume E d vm)
                (andThen (checkDefaultWarehouse E d (rid s) (vm_Arch vm))
                         (checkWarehouses E d (rid s) (vm_Arch vm)))))) t3 = (Val (), s')"
    by (rule andThen_ValE)
  then obtain x4 :: unit and t4 where
    "(andThen (checkCoordinatorVolSize E d (rid s = []))
                (andThen (verifyCoordinatorVolume E d vm)
                (andThen (checkDefaultWarehouse E d (rid s) (vm_Arch vm))
                         (checkWarehouses E d (rid s) (vm_Arch vm))))) t4 = (Val (), s')"
    by (rule andThen_ValE)
  then obtain x5 :: unit and t5 where
    v: "checkCoordinatorVolSize E d (rid s = []) t4 = (Val x5, t5)" and
    r5: "(andThen (verifyCoordinatorVolume E d vm)
                (andThen (checkDefaultWarehouse E d (rid s) (vm_Arch vm))
                         (checkWarehouses E d (rid s) (vm_Arch vm)))) t5 = (Val (), s')"
    by (rule andThen_ValE)
  from r5 obtain x6 :: unit and t6 where
    "(andThen (checkDefaultWarehouse E d (rid s) (vm_Arch vm))
                         (checkWarehouses E d (rid s) (vm_Arch vm))) t6 = (Val (), s')"
    by (rule andThen_ValE)
  then obtain x7 :: unit and t7 where
    dwh: "checkDefaultWarehouse E d (rid s) (vm_Arch vm) t6 = (Val x7, t7)" and
    wh: "checkWarehouses E d (rid s) (vm_Arch vm) t7 = (Val (), s')"
    by (rule andThen_ValE)
  from v have "fst (checkCoordinatorVolSize E d (rid s = []) t4) = Val ()" by simp
  moreover from dwh have "fst (checkDefaultWarehouse E d (rid s) (vm_Arch vm) t6) = Val ()" by simp
  moreover from wh have "fst (checkWarehouses E d (rid s) (vm_Arch vm) t7) = Val ()" by simp
  ultimately show ?thesis by blast
qed

text \<open>
  Where the disk-type check of the validator does apply: on an update (the resource has an
  id), for a warehouse entry of the new configuration whose block changed and whose name,
  once trimmed, is a key of the persisted external-info map. When the instance type the
  entry asks for is classified by \<^verbatim>\<open>GetVmInfo\<close> differently (instance store or not)
  from the persisted record, the validator does not pass.
\<close>

theorem disk_type_checked_under_trimmed_key:
  assumes "rid s \<noteq> []"
    and "(warehouse (old_cfg d) \<noteq> warehouse (new_cfg d) \<and> w \<in> set (warehouse (new_cfg d)))
       \<or> (default_warehouse (old_cfg d) \<noteq> default_warehouse (new_cfg d)
           \<and> default_warehouse (new_cfg d) = [w])"
    and "map_of (warehouse_external_info (new_cfg d)) (TrimSpace (name w)) = Some info"
    and "\<forall>h. vmInfoApi E h (GetVmInfoReq (csp (new_cfg d)) (region (new_cfg d))
            ClusterModuleTypeBE (compute_node_size w)) = Inr (Some vm)"
    and "vm_IsInstanceStore vm \<noteq> ext_IsInstanceStore info"
  shows "fst (customizeEl2Diff E d s) \<noteq> Val ()"
proof
  assume "fst (customizeEl2Diff E d s) = Val ()"
  then obtain s' where "customizeEl2Diff E d s = (Val (), s')"
    by (cases "customizeEl2Diff E d s") simp
  from customizeEl2Diff_Val[OF this] obtain vm0 :: vm_info and s2 :: st and s3 :: st where
    dwh: "fst (checkDefaultWarehouse E d (rid s) (vm_Arch vm0) s2) = Val ()" and
    s3: "fst (checkWarehouses E d (rid s) (vm_Arch vm0) s3) = Val ()"
    by blast
  from assms(2) show False
  proof
    assume a: "warehouse (old_cfg d) \<noteq> warehouse (new_cfg d) \<and> w \<in> set (warehouse (new_cfg d))"
    from a have a1: "warehouse (old_cfg d) \<noteq> warehouse (new_cfg d)"
      by (rule conjunct1)
    from a have a2: "w \<in> set (warehouse (new_cfg d))"
      by (rule conjunct2)
    from checkWarehouses_reject[OF assms(1) a1 a2 assms(3,4,5), of "vm_Arch vm0" s3] s3
    show False by simp
  next
    assume a: "default_warehouse (old_cfg d) \<noteq> default_warehouse (new_cfg d)
           \<and> default_warehouse (new_cfg d) = [w]"
    from a have a1: "default_warehouse (old_cfg d) \<noteq> default_warehouse (new_cfg d)"
      by (rule conjunct1)
    from a have a2: "default_warehouse (new_cfg d) = [w]"
      by (rule conjunct2)
    from checkDefaultWarehouse_reject[OF assms(1) a1 a2 assms(3,4,5), of "vm_Arch vm0" s2] dwh
    show False by simp
  qed
qed

theorem disk_type_checked_under_trimmed_key_witness:
  "rid s0 \<noteq> []
   \<and> warehouse (old_cfg dResize) \<noteq> warehouse (new_cfg dResize)
   \<and> wh1\<lparr>compute_node_size := ''i3.xlarge''\<rparr> \<in> set (warehouse (new_cfg dResize))
   \<and> map_of (warehouse_external_info (new_cfg dResize)) ''wh1''
        = Some \<lparr>ext_Id = ''w1'', ext_IsInstanceStore = False, ext_IsDefaultWarehouse = False\<rparr>
   \<and> fst (customizeEl2Diff envLocalDisk dResize s0) \<noteq> Val ()"
proof -
  let ?w = "wh1\<lparr>compute_node_size := ''i3.xlarge''\<rparr>"
  let ?info = "\<lparr>ext_Id = ''w1'', ext_IsInstanceStore = False, ext_IsDefaultWarehouse = False\<rparr>"
  let ?vm = "\<lparr>vm_Arch = ''x86'', vm_IsInstanceStore = True, vm_VmVolumeInfos = []\<rparr>"
  have 1: "rid s0 \<noteq> []" by (simp add: s0_def)
  have 2: "warehouse (old_cfg dResize) \<noteq> warehouse (new_cfg dResize)"
    by (simp add: dResize_def cfg1_def wh1_def wh0_def)
  have 3: "?w \<in> set (warehouse (new_cfg dResize))"
    by (simp add: dResize_def cfg1_def)
  have t: "TrimSpace (name ?w) = ''wh1''"
    by (simp add: wh1_def TrimSpace_def isSpace_def isSpace2_def isSpace3_def)
  have 4: "map_of (warehouse_external_info (new_cfg dResize)) (TrimSpace (name ?w)) = Some ?info"
    unfolding t by (simp add: dResize_def cfg1_def cfg0_def)
  have 5: "\<forall>h. vmInfoApi envLocalDisk h (GetVmInfoReq (csp (new_cfg dResize)) (region (new_cfg dResize))
            ClusterModuleTypeBE (compute_node_size ?w)) = Inr (Some ?vm)"
    by (simp add: envLocalDisk_def env0_def)
  have 6: "vm_IsInstanceStore ?vm \<noteq> ext_IsInstanceStore ?info" by simp
  have "fst (customizeEl2Diff envLocalDisk dResize s0) \<noteq> Val ()"
    by (rule disk_type_checked_under_trimmed_key[OF 1 _ 4 5 6]) (simp add: 2 3)
  with 1 2 3 4 t show ?thesis by simp
qed





subsection \<open>Volume resize\<close>

lemma checkCoordinatorVolSize_update:
  "checkCoordinatorVolSize E d False s =
    ((if fe_vol_size (feVolumeOf E (new_cfg d)) < fe_vol_size (feVolumeOf E (old_cfg d))
      then Err volSizeDecreaseError else Val ()), s)"
  by (auto simp add: checkCoordinatorVolSize_def feVolumeOf_def Let_def HasChange_def
      fail_def ret_def)

lemma checkCoordinatorVolSize_create:
  "checkCoordinatorVolSize E d True s = (Val (), s)"
  by (simp add: checkCoordinatorVolSize_def ret_def)

lemma modifyWarehouseVolume_number:
  "vol_number (effectiveVolume E old) \<noteq> vol_number (effectiveVolume E new) \<Longrightarrow>
   modifyWarehouseVolume E cid wid False old new s = (Err (FromErr volNumberError), s)"
  by (auto simp add: modifyWarehouseVolume_def Let_def fail_def)

lemma snd_bind_remote:
  "trace (snd (bind (remote f c) k s)) \<noteq> trace s" if "emits P (bind (remote f c) k)"
    and "\<And>x. emits P (k x)"
proof -
  let ?s1 = "s\<lparr>trace := trace s @ [c]\<rparr>"
  have "bind (remote f c) k s = k (f (trace s) c) ?s1"
    by (simp add: bind_def remote_def)
  moreover from that(2)[of "f (trace s) c"] obtain t where
    "trace (snd (k (f (trace s) c) ?s1)) = trace ?s1 @ t"
    unfolding emits_def by blast
  ultimately show ?thesis by simp
qed

lemma modifyWarehouseVolume_size:
  assumes "vol_number (effectiveVolume E old) = vol_number (effectiveVolume E new)"
  shows "(modifyWarehouseVolume E cid wid False old new s = (Err (FromErr whVolSizeError), s))
       = (vol_size (effectiveVolume E new) < vol_size (effectiveVolume E old))"
proof (cases "vol_size (effectiveVolume E new) < vol_size (effectiveVolume E old)")
  case True
  then have "effectiveVolume E old \<noteq> effectiveVolume E new" by auto
  then show ?thesis using True assms
    by (simp add: modifyWarehouseVolume_def Let_def fail_def)
next
  case False
  show ?thesis
  proof (cases "effectiveVolume E old = effectiveVolume E new")
    case True
    then show ?thesis using False
      by (simp add: modifyWarehouseVolume_def Let_def ret_def)
  next
    case ne: False
    let ?req = "ModifyClusterVolumeReq
                     \<lparr>mv_ClusterId = cid, mv_WarehouseID = wid,
                      mv_Type = ClusterModuleTypeWarehouse,
                      mv_VmVolSize = (if vol_size (effectiveVolume E new) \<noteq> vol_size (effectiveVolume E old)
                                      then word_of_int (vol_size (effectiveVolume E new)) else 0),
                      mv_Iops = (if iops (effectiveVolume E new) \<noteq> iops (effectiveVolume E old)
                                 then word_of_int (iops (effectiveVolume E new)) else 0),
                      mv_Throughput = (if throughput (effectiveVolume E new) \<noteq> throughput (effectiveVolume E old)
                                       then word_of_int (throughput (effectiveVolume E new)) else 0)\<rparr>"
    let ?k = "\<lambda>r. case r of
                 Inl err \<Rightarrow> fail (FromErr err)
               | Inr infraActionId \<Rightarrow>
                   awaitInfra E cid infraActionId
                     (Fmt ''Modify warehouse[%s] volume config failed'' [AStr (name new)])"
    have run: "modifyWarehouseVolume E cid wid False old new s = bind (remote (actionApi E) ?req) ?k s"
      using ne False assms by (simp add: modifyWarehouseVolume_def Let_def)
    have k: "\<And>x. emits (\<lambda>c. True) (?k x)"
      by (auto intro!: emits_intros emits_awaitInfra split: sum.split)
    have "emits (\<lambda>c. True) (bind (remote (actionApi E) ?req) ?k)"
      by (intro emits_bind emits_remote k) simp
    from snd_bind_remote[OF this k, of s]
    have "trace (snd (modifyWarehouseVolume E cid wid False old new s)) \<noteq> trace s"
      using run by simp
    then show ?thesis using False by auto
  qed
qed

lemma modifyWarehouseVolume_instance_store:
  "modifyWarehouseVolume E cid wid True old new s = (Val (), s)"
  by (simp add: modifyWarehouseVolume_def Let_def ret_def)

lemma andThen_Val_right: "andThen m n s = (Val y, s') \<Longrightarrow> \<exists>t. n t = (Val y, s')"
  by (erule andThen_ValE) blast

lemma andThen_Val_left: "andThen m n s = (Val y, s') \<Longrightarrow> \<exists>x t. m s = (Val x, t)"
  by (erule andThen_ValE) blast

lemma emits_andThen_stop:
  assumes "\<And>t. m t = (Err e, t)"
  shows "emits P (andThen m n)"
  unfolding emits_def by (simp add: andThen_apply assms)

lemma updateWarehouse_volume_rejected:
  assumes "\<not> ext_IsInstanceStore info"
    and "vol_number (effectiveVolume E old) \<noteq> vol_number (effectiveVolume E new)
         \<or> vol_size (effectiveVolume E new) < vol_size (effectiveVolume E old)"
  shows "fst (updateWarehouse E cid old new info s) \<noteq> Val ()"
    and "emits (\<lambda>c. \<not> volumeOrConfigCall c) (updateWarehouse E cid old new info)"
proof -
  obtain e where stop: "\<And>t. modifyWarehouseVolume E cid (ext_Id info) (ext_IsInstanceStore info)
                          old new t = (Err e, t)"
  proof (cases "vol_number (effectiveVolume E old) \<noteq> vol_number (effectiveVolume E new)")
    case True
    then show ?thesis
      using that[of "FromErr volNumberError"] assms(1) modifyWarehouseVolume_number by simp
  next
    case False
    then have "vol_size (effectiveVolume E new) < vol_size (effectiveVolume E old)"
      using assms(2) by simp
    then show ?thesis
      using that[of "FromErr whVolSizeError"] assms(1) False modifyWarehouseVolume_size by simp
  qed
  have "updateWarehouse E cid old new info s = (Val (), s') \<Longrightarrow> False" for s'
    unfolding updateWarehouse_def Let_def
    apply (drule andThen_Val_right, erule exE)
    apply (drule andThen_Val_right, erule exE)
    apply (drule andThen_Val_right, erule exE)
    apply (drule andThen_Val_left, (erule exE)+)
    apply (simp add: stop)
    done
  then show "fst (updateWarehouse E cid old new info s) \<noteq> Val ()"
    by (cases "updateWarehouse E cid old new info s") auto
  show "emits (\<lambda>c. \<not> volumeOrConfigCall c) (updateWarehouse E cid old new info)"
    unfolding updateWarehouse_def Let_def
    by (intro emits_andThen emits_changeWarehouseDistribution emits_scaleWarehouseSize
          emits_scaleWarehouseNum emits_andThen_stop[where e = e] stop) simp_all
qed

lemma issued_emits: "emits P m \<Longrightarrow> list_all P (issued s (snd (m s)))"
proof -
  assume "emits P m"
  then obtain t where "trace (snd (m s)) = trace s @ t" "list_all P t"
    unfolding emits_def by blast
  then show ?thesis by (simp add: issued_def)
qed

lemma customizeEl2Diff_volume_rejected:
  assumes "rid s \<noteq> []"
    and "fe_vol_size (feVolumeOf E (new_cfg d)) < fe_vol_size (feVolumeOf E (old_cfg d))"
  shows "fst (customizeEl2Diff E d s) \<noteq> Val ()"
proof
  assume "fst (customizeEl2Diff E d s) = Val ()"
  then obtain s' where "customizeEl2Diff E d s = (Val (), s')"
    by (cases "customizeEl2Diff E d s") simp
  from customizeEl2Diff_Val[OF this] obtain s1 :: st where
    "fst (checkCoordinatorVolSize E d (rid s = []) s1) = Val ()" by blast
  then show False using assms by (simp add: checkCoordinatorVolSize_update)
qed

text \<open>
  Claim C2, as amended. Coordinator: on an update the volume-size check of the validator
  (lines 578-596) fails exactly when the new \<^verbatim>\<open>vol_size\<close> is smaller than the old one
  (defaults applied), whatever iops and throughput are; a smaller new size makes the whole
  validator fail (the validator has other checks, which fail for their own reasons).
  Warehouse with network volumes (not instance store): with an unchanged disk count the
  volume step of \<^verbatim>\<open>updateWarehouse\<close> (lines 2224-2262) returns the size error, issuing
  nothing, exactly when the new size is smaller than the old one; with a changed disk count
  it returns the \<^verbatim>\<open>vol_number\<close> error whatever the sizes are; in both cases
  \<^verbatim>\<open>updateWarehouse\<close> does not succeed and issues no volume modification. For an
  instance-store warehouse the volume step makes no check.
\<close>

theorem volume_resize_rule:
  "(fst (checkCoordinatorVolSize E d False s) \<noteq> Val ())
      = (fe_vol_size (feVolumeOf E (new_cfg d)) < fe_vol_size (feVolumeOf E (old_cfg d)))
   \<and> (rid s \<noteq> []
        \<and> fe_vol_size (feVolumeOf E (new_cfg d)) < fe_vol_size (feVolumeOf E (old_cfg d))
       \<longrightarrow> fst (customizeEl2Diff E d s) \<noteq> Val ())
   \<and> (vol_number (effectiveVolume E old) = vol_number (effectiveVolume E new)
       \<longrightarrow> (modifyWarehouseVolume E cid wid False old new s = (Err (FromErr whVolSizeError), s))
            = (vol_size (effectiveVolume E new) < vol_size (effectiveVolume E old)))
   \<and> (vol_number (effectiveVolume E old) \<noteq> vol_number (effectiveVolume E new)
       \<longrightarrow> modifyWarehouseVolume E cid wid False old new s = (Err (FromErr volNumberError), s))
   \<and> (\<not> ext_IsInstanceStore info
        \<and> (vol_number (effectiveVolume E old) \<noteq> vol_number (effectiveVolume E new)
            \<or> vol_size (effectiveVolume E new) < vol_size (effectiveVolume E old))
       \<longrightarrow> fst (updateWarehouse E cid old new info s) \<noteq> Val ()
           \<and> list_all (\<lambda>c. \<not> volumeOrConfigCall c)
                (issued s (snd (updateWarehouse E cid old new info s))))
   \<and> modifyWarehouseVolume E cid wid True old new s = (Val (), s)"
proof (intro conjI impI)
  show "(fst (checkCoordinatorVolSize E d False s) \<noteq> Val ())
      = (fe_vol_size (feVolumeOf E (new_cfg d)) < fe_vol_size (feVolumeOf E (old_cfg d)))"
    by (simp add: checkCoordinatorVolSize_update)
next
  assume "rid s \<noteq> []
        \<and> fe_vol_size (feVolumeOf E (new_cfg d)) < fe_vol_size (feVolumeOf E (old_cfg d))"
  then show "fst (customizeEl2Diff E d s) \<noteq> Val ()"
    using customizeEl2Diff_volume_rejected by blast
next
  assume "vol_number (effectiveVolume E old) = vol_number (effectiveVolume E new)"
  then show "(modifyWarehouseVolume E cid wid False old new s = (Err (FromErr whVolSizeError), s))
            = (vol_size (effectiveVolume E new) < vol_size (effectiveVolume E old))"
    by (rule modifyWarehouseVolume_size)
next
  assume "vol_number (effectiveVolume E old) \<noteq> vol_number (effectiveVolume E new)"
  then show "modifyWarehouseVolume E cid wid False old new s = (Err (FromErr volNumberError), s)"
    by (rule modifyWarehouseVolume_number)
next
  assume a: "\<not> ext_IsInstanceStore info
        \<and> (vol_number (effectiveVolume E old) \<noteq> vol_number (effectiveVolume E new)
            \<or> vol_size (effectiveVolume E new) < vol_size (effectiveVolume E old))"
  from a have 1: "\<not> ext_IsInstanceStore info" by (rule conjunct1)
  from a have 2: "vol_number (effectiveVolume E old) \<noteq> vol_number (effectiveVolume E new)
            \<or> vol_size (effectiveVolume E new) < vol_size (effectiveVolume E old)"
    by (rule conjunct2)
  show "fst (updateWarehouse E cid old new info s) \<noteq> Val ()"
    by (rule updateWarehouse_volume_rejected(1)[OF 1 2])
  show "list_all (\<lambda>c. \<not> volumeOrConfigCall c)
                (issued s (snd (updateWarehouse E cid old new info s)))"
    by (rule issued_emits) (rule updateWarehouse_volume_rejected(2)[OF 1 2])
next
  show "modifyWarehouseVolume E cid wid True old new s = (Val (), s)"
    by (rule modifyWarehouseVolume_instance_store)
qed

theorem volume_resize_counterexample:
  "\<not> (vol_size (effectiveVolume env0 (whVol 3 100)) < vol_size (effectiveVolume env0 (whVol 2 100)))
   \<and> updateWarehouse env0 ''c1'' (whVol 2 100) (whVol 3 100) info1 s0
       = (Err (FromErr volNumberError), s0)"
  by (simp add: updateWarehouse_def Let_def andThen_apply changeWarehouseDistribution_def
      scaleWarehouseSize_def scaleWarehouseNum_def modifyWarehouseVolume_def effectiveVolume_def
      whVol_def wh1_def wh0_def info1_def ret_def fail_def)

theorem volume_resize_rule_witness:
  "rid s0 \<noteq> []
   \<and> fe_vol_size (feVolumeOf env0 (new_cfg dShrink)) < fe_vol_size (feVolumeOf env0 (old_cfg dShrink))
   \<and> fst (checkCoordinatorVolSize env0 dShrink False s0) \<noteq> Val ()
   \<and> fst (customizeEl2Diff env0 dShrink s0) \<noteq> Val ()
   \<and> vol_size (effectiveVolume env0 (whVol 2 100)) < vol_size (effectiveVolume env0 (whVol 2 200))
   \<and> modifyWarehouseVolume env0 ''c1'' ''w1'' False (whVol 2 200) (whVol 2 100) s0
       = (Err (FromErr whVolSizeError), s0)
   \<and> fst (updateWarehouse env0 ''c1'' (whVol 2 200) (whVol 2 100) info1 s0) \<noteq> Val ()"
proof -
  have 1: "rid s0 \<noteq> []" by (simp add: s0_def)
  have 2: "fe_vol_size (feVolumeOf env0 (new_cfg dShrink))
            < fe_vol_size (feVolumeOf env0 (old_cfg dShrink))"
    by (simp add: feVolumeOf_def dShrink_def)
  have 3: "vol_size (effectiveVolume env0 (whVol 2 100))
            < vol_size (effectiveVolume env0 (whVol 2 200))"
    by (simp add: effectiveVolume_def whVol_def)
  have 4: "vol_number (effectiveVolume env0 (whVol 2 200))
            = vol_number (effectiveVolume env0 (whVol 2 100))"
    by (simp add: effectiveVolume_def whVol_def)
  have 5: "\<not> ext_IsInstanceStore info1" by (simp add: info1_def)
  from volume_resize_rule[of env0 dShrink s0 "whVol 2 200" "whVol 2 100" "''c1''" "''w1''" info1]
    1 2 3 4 5
  show ?thesis by simp
qed


subsection \<open>Scaling a warehouse: size before count\<close>

lemma andThen_stop:
  "fst (m s) \<noteq> Val () \<Longrightarrow> andThen m (n :: (unit, 'e) prog) s = m s"
  by (cases "m s"; cases "fst (m s)") (auto simp add: andThen_apply)

lemma andThen_go: "fst (m s) = Val () \<Longrightarrow> andThen m n s = n (snd (m s))"
  by (cases "m s") (auto simp add: andThen_apply)

lemma awaitScale_trace:
  "trace (snd (awaitScale E cid a t)) = trace t @ [scaleWait cid a]"
  by (simp add: awaitScale_def bind_cases remote_def fail_def ret_def split: sum.split)

lemma updateWarehouse_split:
  "updateWarehouse E cid old new info =
     andThen (changeWarehouseDistribution E cid (ext_Id info) old new)
    (andThen (scaleWarehouseSize E cid (ext_Id info) old new)
    (andThen (scaleWarehouseNum E cid (ext_Id info) old new)
             (afterScale E cid old new info)))"
  by (simp add: updateWarehouse_def afterScale_def Let_def)


lemma emits_trace:
  assumes "emits P m"
  shows "\<exists>l. trace (snd (m s)) = trace s @ l \<and> list_all P l"
proof -
  from assms have "\<forall>s. \<exists>t. trace (snd (m s)) = trace s @ t \<and> list_all P t"
    by (simp add: emits_def)
  then show ?thesis by (rule spec)
qed


lemma awaitScale_run:
  "awaitScale E cid a t =
     ((case waitApi E (trace t) (scaleWait cid a) of
         Inl err \<Rightarrow> Err (FromErr (Fmt ''waiting for cluster (%s) running: %s''
                                      [AStr cid, AMsg err]))
       | Inr st \<Rightarrow> if ClusterState st = ClusterStateAbnormal
                   then Err (FromErr (Lit (AbnormalReason st))) else Val ()),
      t\<lparr>trace := trace t @ [scaleWait cid a]\<rparr>)"
  by (simp add: awaitScale_def bind_def remote_def fail_def ret_def split: sum.split)

lemma scaleWarehouseSize_run:
  assumes "compute_node_size old \<noteq> compute_node_size new"
  shows "scaleWarehouseSize E cid wid old new t =
     (case actionApi E (trace t) (ScaleWarehouseSizeReq wid (compute_node_size new)) of
        Inl err \<Rightarrow>
          (Err (FromErr (Fmt ''failed to scale warehouse size, clusterId:%s warehouseId:%s, errMsg:%s''
                           [AStr cid, AStr wid, AMsg err])),
           t\<lparr>trace := trace t @ [ScaleWarehouseSizeReq wid (compute_node_size new)]\<rparr>)
      | Inr a \<Rightarrow>
          awaitScale E cid a
            (t\<lparr>trace := trace t @ [ScaleWarehouseSizeReq wid (compute_node_size new)]\<rparr>))"
  using assms
  by (simp add: scaleWarehouseSize_def bind_def remote_def fail_def split: sum.split)





subsection \<open>The idle configuration of the cluster\<close>

lemma resourceElasticClusterV2Update_split:
  "resourceElasticClusterV2Update E d =
     andThen (checkImmutableFields immutableFields d)
       (bind Id (\<lambda>clusterId.
          andThen (updateAwaitQuiescence E clusterId)
         (andThen (updateIdleConfig E d clusterId) (updateAfterIdle E d clusterId))))"
  by (simp add: resourceElasticClusterV2Update_def updateAfterIdle_def)

lemma emits_upgradeAMI:
  assumes "\<And>r. P (UpgradeAMIReq r)" "\<And>r. P (WaitClusterInfraActionStateChangeComplete r)"
  shows "emits P (upgradeAMI E req)"
  unfolding upgradeAMI_def
  by (auto intro!: emits_intros assms split: sum.split)

lemma emits_upgradeWarehouseAMIs:
  assumes "\<And>r. P (UpgradeAMIReq r)" "\<And>r. P (WaitClusterInfraActionStateChangeComplete r)"
  shows "emits P (upgradeWarehouseAMIs E cid nOs nAmi whs)"
  by (induction whs) (auto intro!: emits_intros emits_upgradeAMI assms)

lemma emits_updateCustomAmi:
  assumes "\<And>r. P (UpgradeAMIReq r)" "\<And>r. P (WaitClusterInfraActionStateChangeComplete r)"
    "\<And>r. P (GetReq r)"
  shows "emits P (updateCustomAmi E d cid)"
  unfolding updateCustomAmi_def Let_def
  by (auto intro!: emits_intros emits_upgradeAMI emits_upgradeWarehouseAMIs assms
        split: sum.split)

lemma emits_updateClusterState:
  assumes "\<And>a b c. P (UpdateClusterStateCall a b c)"
  shows "emits P (updateClusterState E d)"
  unfolding updateClusterState_def
  by (auto intro!: emits_intros assms)

lemma emits_updateCertsTagsScripts:
  assumes "\<And>a b c. P (UpsertClusterLdapSslCertCall a b c)"
    "\<And>a b. P (UpdateResourceTagsReq a b)"
    "\<And>a b c d. P (UpdateDeploymentScriptsReq a b c d)"
    "\<And>a b c. P (UpsertClusterRangerCertCall a b c)"
  shows "emits P (updateCertsTagsScripts E d cid)"
  unfolding updateCertsTagsScripts_def
  by (auto intro!: emits_intros assms split: option.split)

lemma emits_unlockFreeTier:
  assumes "\<And>a. P (UnlockFreeTierCall a)"
  shows "emits P (unlockFreeTier E d cid)"
  unfolding unlockFreeTier_def
  by (auto intro!: emits_intros assms split: option.split)

lemma emits_awaitCoordinatorScale:
  assumes "\<And>r. P (WaitClusterStateChangeComplete r)"
  shows "emits P (awaitCoordinatorScale E cid a f)"
  unfolding awaitCoordinatorScale_def
  by (auto intro!: emits_intros assms split: sum.split)

lemma emits_updateCoordinatorSize:
  assumes "\<And>r. P (WaitClusterStateChangeComplete r)" "\<And>a b c. P (ScaleUpReq a b c)"
  shows "emits P (updateCoordinatorSize E d cid)"
  unfolding updateCoordinatorSize_def
  by (auto intro!: emits_intros emits_awaitCoordinatorScale assms split: sum.split)

lemma emits_updateCoordinatorCount:
  assumes "\<And>r. P (WaitClusterStateChangeComplete r)" "\<And>a b c. P (ScaleOutReq a b c)"
    "\<And>a b c. P (ScaleInReq a b c)"
  shows "emits P (updateCoordinatorCount E d cid)"
  unfolding updateCoordinatorCount_def Let_def
  by (auto intro!: emits_intros emits_awaitCoordinatorScale assms split: sum.split)

lemma emits_updateCoordinatorVolume:
  assumes "\<And>r. P (ModifyClusterVolumeReq r)"
    "\<And>r. P (WaitClusterInfraActionStateChangeComplete r)"
  shows "emits P (updateCoordinatorVolume E d cid)"
  unfolding updateCoordinatorVolume_def Let_def
  by (auto intro!: emits_intros emits_awaitInfra assms split: sum.split)

lemma emits_updateCoordinatorConfigs:
  assumes "\<And>a b c d. P (UpsertClusterConfigReq a b c d)"
  shows "emits P (updateCoordinatorConfigs E d cid)"
  unfolding updateCoordinatorConfigs_def
  by (auto intro!: emits_intros assms)

lemma emits_updateDefaultWarehouse:
  assumes "\<And>old new info. emits P (updateWarehouse E cid old new info)"
  shows "emits P (updateDefaultWarehouse E d cid)"
  unfolding updateDefaultWarehouse_def
  by (auto intro!: emits_intros assms split: list.split option.split)

lemma emits_updateOrCreateWarehouses:
  assumes "\<And>old new info. emits P (updateWarehouse E cid old new info)"
    "\<And>w. w \<in> set new \<Longrightarrow> oldWhMap (name w) = None \<Longrightarrow> emits P (createWarehouse E cid w)"
  shows "emits P (updateOrCreateWarehouses E cid ext oldWhMap new)"
  using assms(2)
  by (induction new) (auto intro!: emits_intros assms(1) split: option.split)

lemma emits_deleteRemovedWarehouses:
  assumes "\<And>w info. w \<in> set old \<Longrightarrow> newWhMap (name w) = None
             \<Longrightarrow> map_of ext (name w) = Some info \<Longrightarrow> emits P (DeleteWarehouse E cid (ext_Id info))"
  shows "emits P (deleteRemovedWarehouses E cid ext newWhMap old)"
  using assms
  by (induction old) (auto intro!: emits_intros split: option.split)

lemma emits_updateWarehouses_idle:
  "emits (\<lambda>c. \<not> idleConfigCall c) (updateWarehouses E d cid)"
  unfolding updateWarehouses_def Let_def
  by (auto intro!: emits_intros emits_updateOrCreateWarehouses emits_deleteRemovedWarehouses
        emits_updateWarehouse emits_createWarehouse emits_DeleteWarehouse)

lemma emits_updateAfterIdle:
  "emits (\<lambda>c. \<not> idleConfigCall c) (updateAfterIdle E d cid)"
  unfolding updateAfterIdle_def
  by (intro emits_andThen emits_updateWarehouses_idle emits_updateCertsTagsScripts
        emits_unlockFreeTier emits_updateCoordinatorSize emits_updateCoordinatorCount
        emits_updateCoordinatorVolume emits_updateCoordinatorConfigs
        emits_updateDefaultWarehouse emits_updateWarehouse emits_updateCustomAmi)
     (auto intro!: emits_intros emits_updateClusterState)

lemma updateAwaitQuiescence_ok:
  assumes "waitApi E (trace s) (quiescenceWait cid) = Inr r"
    and "ClusterState r \<noteq> ClusterStateReleased" and "ClusterState r \<noteq> ClusterStateAbnormal"
  shows "updateAwaitQuiescence E cid s = (Val (), s\<lparr>trace := trace s @ [quiescenceWait cid]\<rparr>)"
  using assms by (simp add: updateAwaitQuiescence_def bind_def remote_def ret_def)

lemma updateIdleConfig_changed:
  assumes "\<not> is_new d"
    and "idle_suspend_interval (old_cfg d) \<noteq> idle_suspend_interval (new_cfg d)"
  shows "trace (snd (updateIdleConfig E d cid t))
           = trace t @ [UpdateClusterIdleConfigCall cid
                (word_of_int ((if 0 < idle_suspend_interval (new_cfg d)
                               then idle_suspend_interval (new_cfg d)
                               else idle_suspend_interval (old_cfg d)) * 60 * 1000))
                (0 < idle_suspend_interval (new_cfg d))]"
  using assms
  by (simp add: updateIdleConfig_def HasChange_def Let_def bind_cases remote_def orReturn_def
      ret_def fail_def split: option.split)

lemma millis_no_wrap:
  assumes "0 \<le> m" "m \<le> 999999"
  shows "unat (word_of_int (m * 60 * 1000) :: 64 word) = nat m * 60000"
proof -
  define x where "x = m * 60 * 1000"
  have x: "0 \<le> x" "x < 2 ^ 64" using assms by (simp_all add: x_def)
  have "uint (word_of_int x :: 64 word) = take_bit 64 x"
    by (simp add: uint_word_of_int_eq)
  also have "\<dots> = x" using x by (rule take_bit_int_eq_self)
  finally have "unat (word_of_int x :: 64 word) = nat x"
    by (simp only: unat_eq_nat_uint)
  also have "nat x = nat m * 60000" using assms by (simp add: x_def nat_mult_distrib)
  finally show ?thesis unfolding x_def .
qed

text \<open>
  Claim C6. An update of an existing cluster whose immutable fields are unchanged and whose
  first wait reports a state other than \<^verbatim>\<open>Released\<close> and \<^verbatim>\<open>Abnormal\<close>, and that changes
  \<^verbatim>\<open>idle_suspend_interval\<close> from \<open>v\<close> to \<open>n\<close>, issues exactly one idle configuration
  call, whatever happens afterwards. For \<open>n = 0\<close> the call carries the state \<open>False\<close> and
  the old interval \<open>v\<close>; for \<open>n > 0\<close> it carries the state \<open>True\<close> and the interval \<open>n\<close>.
  The interval is sent in milliseconds as a 64-bit unsigned integer; for the values that
  the schema admits (0, or 15 to 999999 minutes) the conversion does not wrap.
\<close>

theorem idle_config_call:
  assumes new: "\<not> is_new d"
    and imm: "checkImmutableFields immutableFields d s = (Val (), s)"
    and wait: "waitApi E (trace s) (quiescenceWait (rid s)) = Inr r"
    and st: "ClusterState r \<noteq> ClusterStateReleased" "ClusterState r \<noteq> ClusterStateAbnormal"
    and old: "idle_suspend_interval (old_cfg d) = v"
    and n: "idle_suspend_interval (new_cfg d) = n"
    and ch: "v \<noteq> n"
  shows "filter idleConfigCall (issued s (snd (resourceElasticClusterV2Update E d s)))
           = [UpdateClusterIdleConfigCall (rid s)
                (word_of_int ((if 0 < n then n else v) * 60 * 1000)) (0 < n)]
       \<and> (0 \<le> v \<and> v \<le> 999999
            \<longrightarrow> unat (word_of_int (v * 60 * 1000) :: 64 word) = nat v * 60000)
       \<and> (0 \<le> n \<and> n \<le> 999999
            \<longrightarrow> unat (word_of_int (n * 60 * 1000) :: 64 word) = nat n * 60000)"
proof (intro conjI impI)
  let ?c = "UpdateClusterIdleConfigCall (rid s)
              (word_of_int ((if 0 < n then n else v) * 60 * 1000)) (0 < n)"
  let ?I = "updateIdleConfig E d (rid s)"
  let ?R = "updateAfterIdle E d (rid s)"
  define s1 where "s1 = s\<lparr>trace := trace s @ [quiescenceWait (rid s)]\<rparr>"
  have u: "resourceElasticClusterV2Update E d s = andThen ?I ?R s1"
    unfolding resourceElasticClusterV2Update_split s1_def
    by (simp add: andThen_apply imm bind_def Id_def updateAwaitQuiescence_ok[OF wait st])
  have ti: "trace (snd (?I s1)) = trace s @ [quiescenceWait (rid s), ?c]"
    using updateIdleConfig_changed[of d E "rid s" s1] new old n ch by (simp add: s1_def)
  have "\<exists>t. trace (snd (andThen ?I ?R s1)) = trace s @ [quiescenceWait (rid s), ?c] @ t
            \<and> list_all (\<lambda>c. \<not> idleConfigCall c) t"
  proof (cases "fst (?I s1) = Val ()")
    case False
    then have "andThen ?I ?R s1 = ?I s1" by (rule andThen_stop)
    with ti show ?thesis by simp
  next
    case True
    then have a: "andThen ?I ?R s1 = ?R (snd (?I s1))" by (rule andThen_go)
    from emits_trace[OF emits_updateAfterIdle, of E d "rid s" "snd (?I s1)"]
    obtain t where "trace (snd (?R (snd (?I s1)))) = trace (snd (?I s1)) @ t
        \<and> list_all (\<lambda>c. \<not> idleConfigCall c) t" ..
    with a ti show ?thesis by simp
  qed
  then obtain t where t: "trace (snd (resourceElasticClusterV2Update E d s))
        = trace s @ [quiescenceWait (rid s), ?c] @ t \<and> list_all (\<lambda>c. \<not> idleConfigCall c) t"
    unfolding u ..
  from t have "filter idleConfigCall t = []"
    by (simp add: list_all_iff filter_empty_conv)
  with t show "filter idleConfigCall (issued s (snd (resourceElasticClusterV2Update E d s))) = [?c]"
    by (simp add: issued_def quiescenceWait_def)
next
  assume "0 \<le> v \<and> v \<le> 999999"
  then have "0 \<le> v" "v \<le> 999999" by simp_all
  then show "unat (word_of_int (v * 60 * 1000) :: 64 word) = nat v * 60000"
    by (rule millis_no_wrap)
next
  assume "0 \<le> n \<and> n \<le> 999999"
  then have "0 \<le> n" "n \<le> 999999" by simp_all
  then show "unat (word_of_int (n * 60 * 1000) :: 64 word) = nat n * 60000"
    by (rule millis_no_wrap)
qed

theorem idle_config_call_witness:
  "\<not> is_new (dIdle 30 0)
   \<and> checkImmutableFields immutableFields (dIdle 30 0) s0 = (Val (), s0)
   \<and> filter idleConfigCall (issued s0 (snd (resourceElasticClusterV2Update env0 (dIdle 30 0) s0)))
       = [UpdateClusterIdleConfigCall ''c1'' (word_of_int 1800000) False]
   \<and> unat (word_of_int 1800000 :: 64 word) = 1800000
   \<and> filter idleConfigCall (issued s0 (snd (resourceElasticClusterV2Update env0 (dIdle 0 45) s0)))
       = [UpdateClusterIdleConfigCall ''c1'' (word_of_int 2700000) True]"
proof -
  have 1: "\<not> is_new (dIdle v n)" for v n by (simp add: dIdle_def)
  have 2: "checkImmutableFields immutableFields (dIdle v n) s0 = (Val (), s0)" for v n
    by (simp add: immutableFields_def HasChange_def dIdle_def ret_def)
  have 3: "waitApi env0 (trace s0) (quiescenceWait (rid s0))
             = Inr \<lparr>ClusterState = ClusterStateRunning, AbnormalReason = []\<rparr>"
    by (simp add: env0_def)
  have 4: "idle_suspend_interval (old_cfg (dIdle v n)) = v"
          "idle_suspend_interval (new_cfg (dIdle v n)) = n" for v n
    by (simp_all add: dIdle_def)
  have 5: "rid s0 = ''c1''" by (simp add: s0_def)
  from idle_config_call[OF 1[of 30 0] 2[of 30 0] 3 _ _ 4(1)[of 30 0] 4(2)[of 30 0]]
  have a: "filter idleConfigCall (issued s0 (snd (resourceElasticClusterV2Update env0 (dIdle 30 0) s0)))
       = [UpdateClusterIdleConfigCall ''c1'' (word_of_int 1800000) False]
       \<and> unat (word_of_int 1800000 :: 64 word) = 1800000"
    by (simp add: 5)
  from idle_config_call[OF 1[of 0 45] 2[of 0 45] 3 _ _ 4(1)[of 0 45] 4(2)[of 0 45]]
  have b: "filter idleConfigCall (issued s0 (snd (resourceElasticClusterV2Update env0 (dIdle 0 45) s0)))
       = [UpdateClusterIdleConfigCall ''c1'' (word_of_int 2700000) True]"
    by (simp add: 5)
  from a b 1[of 30 0] 2[of 30 0] show ?thesis by simp
qed


subsection \<open>The validator and the calls of an update\<close>



lemma TrimSpace_wh1 [simp]: "TrimSpace ''wh1'' = ''wh1''"
  by (simp add: TrimSpace_def isSpace_def isSpace2_def isSpace3_def)







subsection \<open>The disk type of a warehouse whose name is padded\<close>

lemma TrimSpace_padded: "TrimSpace '' wh1'' = ''wh1''"
  by (simp add: TrimSpace_def isSpace_def isSpace2_def isSpace3_def)

lemma validator_passes_dPad:
  "customizeEl2Diff envLocalDisk dPad s0 =
     (Val (), s0\<lparr>trace :=
        [GetVmInfoReq ''aws'' ''us-west-2'' ClusterModuleTypeFE ''m6i.large'',
         GetNetworkCall ''n1'',
         GetVmInfoReq ''aws'' ''us-west-2'' ClusterModuleTypeBE ''i3.xlarge'']\<rparr>)"
proof -
  let ?w = "whPad\<lparr>compute_node_size := ''i3.xlarge''\<rparr>"
  have c: "csp (new_cfg dPad) = ''aws''" "region (new_cfg dPad) = ''us-west-2''"
    "coordinator_node_size (new_cfg dPad) = ''m6i.large''"
    "network_id (new_cfg dPad) = ''n1''"
    "default_warehouse (new_cfg dPad) = [wh0]"
    "warehouse (new_cfg dPad) = [?w]"
    "warehouse (old_cfg dPad) = [whPad]"
    "default_warehouse (old_cfg dPad) = [wh0]"
    "coordinator_node_size (old_cfg dPad) = ''m6i.large''"
    "coordinator_node_count (new_cfg dPad) = 1"
    "coordinator_node_volume_config (new_cfg dPad) = []"
    "coordinator_node_volume_config (old_cfg dPad) = []"
    "warehouse_external_info (new_cfg dPad) =
       [(''default_warehouse'',
         \<lparr>ext_Id = ''w0'', ext_IsInstanceStore = False, ext_IsDefaultWarehouse = True\<rparr>),
        ('' wh1'',
         \<lparr>ext_Id = ''w1'', ext_IsInstanceStore = False, ext_IsDefaultWarehouse = False\<rparr>)]"
    by (simp_all add: dPad_def cfgPad_def cfg0_def)
  have w: "name ?w = '' wh1''" "compute_node_size ?w = ''i3.xlarge''"
    "compute_node_volume_config ?w = []"
    "distribution_policy ?w = ''crossing_az''" "specify_az ?w = []"
    "distribution_policy wh0 = ''crossing_az''" "specify_az wh0 = []"
    by (simp_all add: whPad_def wh1_def wh0_def)
  have ne: "whPad \<noteq> ?w"
    by (simp add: whPad_def wh1_def wh0_def)
  have en: "errApi envLocalDisk h cl = None" "mapRange envLocalDisk ks = ks" for h cl ks
    by (simp_all add: envLocalDisk_def env0_def)
  have q: "queryVmInfo envLocalDisk cs r pt v t =
      (Val \<lparr>vm_Arch = ''x86'', vm_IsInstanceStore = True, vm_VmVolumeInfos = []\<rparr>,
       t\<lparr>trace := trace t @ [GetVmInfoReq cs r pt v]\<rparr>)" for cs r pt v t
    by (simp add: queryVmInfo_def bind_def remote_def ret_def envLocalDisk_def env0_def)
  have n: "checkNetwork envLocalDisk dPad t
      = (Val (), t\<lparr>trace := trace t @ [GetNetworkCall ''n1'']\<rparr>)" for t
    by (simp add: checkNetwork_def c bind_def remote_def ret_def envLocalDisk_def env0_def Let_def)
  have az: "checkSpecifyAz [wh0, ?w] t = (Val (), t)" for t
    by (simp add: w SPECIFY_AZ_def ret_def)
  have ar: "checkCoordinatorArch envLocalDisk dPad b a t = (Val (), t)" for b a t
    by (simp add: checkCoordinatorArch_def HasChange_def c ret_def)
  have v: "checkCoordinatorVolSize envLocalDisk dPad b t = (Val (), t)" for b t
    by (simp add: checkCoordinatorVolSize_def HasChange_def c ret_def)
  have vv: "verifyCoordinatorVolume envLocalDisk dPad vm t = (Val (), t)" for vm t
    by (cases "vm_IsInstanceStore vm") (simp_all add: verifyCoordinatorVolume_def c ret_def)
  have dwh: "checkDefaultWarehouse envLocalDisk dPad i a t = (Val (), t)" for i a t
    by (simp add: checkDefaultWarehouse_def HasChange_def c ret_def)
  have u: "checkUniqueNames envLocalDisk [?w] t = (Val (), t)" for t
    by (simp add: checkUniqueNames_def Let_def w TrimSpace_padded rangeKeys_def en ret_def)
  have item: "checkWarehouseItem envLocalDisk ''aws'' ''us-west-2'' ''x86'' ?w t =
      (Val \<lparr>vm_Arch = ''x86'', vm_IsInstanceStore = True, vm_VmVolumeInfos = []\<rparr>,
       t\<lparr>trace := trace t @
          [GetVmInfoReq ''aws'' ''us-west-2'' ClusterModuleTypeBE ''i3.xlarge'']\<rparr>)" for t
    by (simp add: checkWarehouseItem_def Let_def w q bind_def ret_def)
  have wh: "checkWarehouses envLocalDisk dPad ''c1'' ''x86'' t =
      (Val (), t\<lparr>trace := trace t @
          [GetVmInfoReq ''aws'' ''us-west-2'' ClusterModuleTypeBE ''i3.xlarge'']\<rparr>)" for t
    by (simp add: checkWarehouses_def HasChange_def c ne Let_def andThen_apply u bind_def item
        w TrimSpace_padded ret_def checkInstanceStore_def rangeKeys_def en)
  show ?thesis
    by (simp add: customizeEl2Diff_def Id_def Let_def c bind_def q andThen_apply n az ar v vv
        dwh wh s0_def del: checkSpecifyAz.simps)
qed

lemma update_runs_dPad:
  "resourceElasticClusterV2Update envLocalDisk dPad s0 =
     (Val (), s0\<lparr>trace :=
        [quiescenceWait ''c1'', UnlockFreeTierCall ''c1'',
         ScaleWarehouseSizeReq ''w1'' ''i3.xlarge'', scaleWait ''c1'' ''a1'']\<rparr>)"
proof -
  let ?w = "whPad\<lparr>compute_node_size := ''i3.xlarge''\<rparr>"
  have e: "waitApi envLocalDisk h cl = Inr \<lparr>ClusterState = ClusterStateRunning, AbnormalReason = []\<rparr>"
    "actionApi envLocalDisk h cl = Inr ''a1''" "errApi envLocalDisk h cl = None"
    "\<not> needResume envLocalDisk dd" "\<not> needSuspend envLocalDisk dd"
    "DefaultBeVolumeMap envLocalDisk = DefaultBeVolumeMap env0" for h cl dd
    by (simp_all add: envLocalDisk_def env0_def)
  have imm: "checkImmutableFields immutableFields dPad t = (Val (), t)" for t
    by (simp add: immutableFields_def HasChange_def dPad_def ret_def)
  have aw: "updateAwaitQuiescence envLocalDisk ''c1'' t
      = (Val (), t\<lparr>trace := trace t @ [quiescenceWait ''c1'']\<rparr>)" for t
    by (rule updateAwaitQuiescence_ok[where r = "\<lparr>ClusterState = ClusterStateRunning,
          AbnormalReason = []\<rparr>"]) (simp_all add: e)
  have idle: "updateIdleConfig envLocalDisk dPad i t = (Val (), t)" for i t
    by (simp add: updateIdleConfig_def HasChange_def dPad_def ret_def)
  have certs: "updateCertsTagsScripts envLocalDisk dPad i t = (Val (), t)" for i t
    by (simp add: updateCertsTagsScripts_def HasChange_def dPad_def andThen_apply ret_def)
  have ne: "whPad \<noteq> ?w"
    by (simp add: whPad_def wh1_def wh0_def)
  have unl: "unlockFreeTier envLocalDisk dPad ''c1'' t
      = (Val (), t\<lparr>trace := trace t @ [UnlockFreeTierCall ''c1'']\<rparr>)" for t
    by (simp add: unlockFreeTier_def elasticClusterV2NeedUnlock_def HasChange_def dPad_def
        cfgPad_def ne Let_def bind_def remote_def ret_def e)
  have cs: "updateCoordinatorSize envLocalDisk dPad i t = (Val (), t)" for i t
    by (simp add: updateCoordinatorSize_def HasChange_def dPad_def ret_def)
  have cc: "updateCoordinatorCount envLocalDisk dPad i t = (Val (), t)" for i t
    by (simp add: updateCoordinatorCount_def HasChange_def dPad_def ret_def)
  have cv: "updateCoordinatorVolume envLocalDisk dPad i t = (Val (), t)" for i t
    by (simp add: updateCoordinatorVolume_def HasChange_def dPad_def ret_def)
  have cf: "updateCoordinatorConfigs envLocalDisk dPad i t = (Val (), t)" for i t
    by (simp add: updateCoordinatorConfigs_def HasChange_def dPad_def ret_def)
  have dw: "updateDefaultWarehouse envLocalDisk dPad i t = (Val (), t)" for i t
    by (simp add: updateDefaultWarehouse_def HasChange_def dPad_def ret_def)
  have ami: "updateCustomAmi envLocalDisk dPad i t = (Val (), t)" for i t
    by (simp add: updateCustomAmi_def HasChange_def dPad_def ret_def)
  have 1: "compute_node_size whPad \<noteq> compute_node_size ?w"
    by (simp add: whPad_def wh1_def wh0_def)
  have D: "changeWarehouseDistribution envLocalDisk ''c1'' ''w1'' whPad ?w t = (Val (), t)"
    for t
    by (simp add: changeWarehouseDistribution_def whPad_def wh1_def wh0_def ret_def)
  have S: "scaleWarehouseSize envLocalDisk ''c1'' ''w1'' whPad ?w t
      = (Val (), t\<lparr>trace := trace t @ [ScaleWarehouseSizeReq ''w1'' ''i3.xlarge'',
                                        scaleWait ''c1'' ''a1'']\<rparr>)" for t
    by (simp add: scaleWarehouseSize_run[OF 1] awaitScale_run e)
  have N: "scaleWarehouseNum envLocalDisk ''c1'' ''w1'' whPad ?w t = (Val (), t)" for t
    by (simp add: scaleWarehouseNum_def whPad_def ret_def)
  have R: "afterScale envLocalDisk ''c1'' whPad ?w
             \<lparr>ext_Id = ''w1'', ext_IsInstanceStore = False, ext_IsDefaultWarehouse = False\<rparr> t
           = (Val (), t)" for t
    by (simp add: afterScale_def andThen_apply modifyWarehouseVolume_def effectiveVolume_def
        updateWarehouseIdle_def updateWarehouseAutoScaling_def ret_def whPad_def wh1_def wh0_def)
  have uw: "updateWarehouse envLocalDisk ''c1'' whPad ?w
             \<lparr>ext_Id = ''w1'', ext_IsInstanceStore = False, ext_IsDefaultWarehouse = False\<rparr> t
      = (Val (), t\<lparr>trace := trace t @ [ScaleWarehouseSizeReq ''w1'' ''i3.xlarge'',
               scaleWait ''c1'' ''a1'']\<rparr>)" for t
    unfolding updateWarehouse_split
    by (simp add: andThen_apply D S N R)
  have nm: "name ?w = '' wh1''" "name whPad = '' wh1''"
    by (simp_all add: whPad_def)
  have uws: "updateWarehouses envLocalDisk dPad ''c1'' t
      = (Val (), t\<lparr>trace := trace t @ [ScaleWarehouseSizeReq ''w1'' ''i3.xlarge'',
               scaleWait ''c1'' ''a1'']\<rparr>)" for t
    by (simp add: updateWarehouses_def HasChange_def dPad_def ne Let_def nm cfgPad_def
        andThen_apply uw ret_def)
  show ?thesis
    unfolding resourceElasticClusterV2Update_split updateAfterIdle_def
    by (simp add: andThen_apply imm bind_def Id_def aw idle e certs unl cs cc cv cf dw uws ami
        s0_def ret_def)
qed

text \<open>
  Claim C9. For a warehouse that has a persisted external-info record, the validator is to
  reject a new compute node size whose disk-type classification differs from the persisted
  one. The validator records the classification of each declared entry under the trimmed
  name (line 714) and compares it with the persisted records under their own keys (lines
  764-765), while the update reads the record of an entry under its name as written (line
  1770). At the warehouse named \<^verbatim>\<open>" wh1"\<close>, whose record (networked volumes) is kept
  under that name, with the new size \<^verbatim>\<open>i3.xlarge\<close> classified as instance store, the
  comparison is skipped: the validator passes, and the update issues the size change.
\<close>

theorem disk_type_change_not_rejected:
  "rid s0 \<noteq> []
   \<and> whPad\<lparr>compute_node_size := ''i3.xlarge''\<rparr> \<in> set (warehouse (new_cfg dPad))
   \<and> map_of (warehouse_external_info (new_cfg dPad)) (name whPad)
       = Some \<lparr>ext_Id = ''w1'', ext_IsInstanceStore = False, ext_IsDefaultWarehouse = False\<rparr>
   \<and> vmInfoApi envLocalDisk
        [GetVmInfoReq ''aws'' ''us-west-2'' ClusterModuleTypeFE ''m6i.large'',
         GetNetworkCall ''n1'']
        (GetVmInfoReq ''aws'' ''us-west-2'' ClusterModuleTypeBE ''i3.xlarge'')
       = Inr (Some \<lparr>vm_Arch = ''x86'', vm_IsInstanceStore = True, vm_VmVolumeInfos = []\<rparr>)
   \<and> customizeEl2Diff envLocalDisk dPad s0 =
       (Val (), s0\<lparr>trace :=
          [GetVmInfoReq ''aws'' ''us-west-2'' ClusterModuleTypeFE ''m6i.large'',
           GetNetworkCall ''n1'',
           GetVmInfoReq ''aws'' ''us-west-2'' ClusterModuleTypeBE ''i3.xlarge'']\<rparr>)
   \<and> resourceElasticClusterV2Update envLocalDisk dPad s0 =
       (Val (), s0\<lparr>trace :=
          [quiescenceWait ''c1'', UnlockFreeTierCall ''c1'',
           ScaleWarehouseSizeReq ''w1'' ''i3.xlarge'', scaleWait ''c1'' ''a1'']\<rparr>)"
proof -
  have 1: "rid s0 \<noteq> []" by (simp add: s0_def)
  have 2: "whPad\<lparr>compute_node_size := ''i3.xlarge''\<rparr> \<in> set (warehouse (new_cfg dPad))"
    by (simp add: dPad_def)
  have 3: "map_of (warehouse_external_info (new_cfg dPad)) (name whPad)
       = Some \<lparr>ext_Id = ''w1'', ext_IsInstanceStore = False, ext_IsDefaultWarehouse = False\<rparr>"
    by (simp add: dPad_def cfgPad_def whPad_def)
  have 4: "vmInfoApi envLocalDisk
        [GetVmInfoReq ''aws'' ''us-west-2'' ClusterModuleTypeFE ''m6i.large'',
         GetNetworkCall ''n1'']
        (GetVmInfoReq ''aws'' ''us-west-2'' ClusterModuleTypeBE ''i3.xlarge'')
       = Inr (Some \<lparr>vm_Arch = ''x86'', vm_IsInstanceStore = True, vm_VmVolumeInfos = []\<rparr>)"
    by (simp add: envLocalDisk_def)
  show ?thesis
    by (intro conjI 1 2 3 4 validator_passes_dPad update_runs_dPad)
qed



subsection \<open>The warehouse diff of an update\<close>

























subsection \<open>The abnormal state and the identity of the resource\<close>

lemma keepsId_orReturn [keeps_intros]: "keepsId (orReturn r)"
  by (cases r) (simp_all add: orReturn_def keepsId_ret keepsId_fail)

lemma keepsId_liftErr [keeps_intros]: "keepsId m \<Longrightarrow> keepsId (liftErr g m)"
  by (simp add: keepsId_def snd_liftErr)

































lemma checkImmutableFields_state: "snd (checkImmutableFields fs d s) = s"
  by (induction fs) (auto simp add: ret_def fail_def)

lemma keepsId_checkImmutableFields: "keepsId (checkImmutableFields fs d)"
  by (simp add: keepsId_def checkImmutableFields_state)









end
